theory Spec2Isabelle
  imports Main "HOL-Library.Word" "HOL-Library.Product_Lexorder"
begin

unbundle bit_operations_syntax

section \<open>Native handles and the log of native calls\<close>

text \<open>
  A Vulkan handle is a number; \<open>0\<close> is \<open>VK_NULL_HANDLE\<close>.  A C++ pointer to an object
  is \<open>Some a\<close> for the address \<open>a\<close> of the object in a store, and \<open>None\<close> for
  \<open>nullptr\<close>.  A function of the source that would dereference a null or dangling
  pointer, read outside an array, or fail an \<open>assert\<close> returns \<open>None\<close>.
\<close>

type_synonym VkHandle = nat

abbreviation (input) VK_NULL_HANDLE :: VkHandle where
  "VK_NULL_HANDLE \<equiv> 0"

text \<open>One entry of the descriptor-set layout: binding, descriptor type, stage flags.\<close>

datatype VkDescriptorType = VK_DESCRIPTOR_TYPE_COMBINED_IMAGE_SAMPLER | VK_DESCRIPTOR_TYPE_UNIFORM_BUFFER

record VkDescriptorSetLayoutBinding =
  lb_binding :: nat
  lb_descriptorType :: VkDescriptorType
  lb_stageFlags :: nat

text \<open>A sampler descriptor: the sampler, image layout and image view read from a texture,
  and the address of the texture they were read from.\<close>

record VkDescriptorImageInfo =
  di_sampler :: VkHandle
  di_imageLayout :: nat
  di_imageView :: VkHandle
  di_texture :: nat

text \<open>One descriptor write.  \<open>wr_pImageInfo\<close> is the index into the array of sampler
  descriptors that the write points to; \<open>wr_pBufferInfo\<close> is the uniform buffer.\<close>

record VkWriteDescriptorSet =
  wr_dstSet :: VkHandle
  wr_dstBinding :: nat
  wr_descriptorType :: VkDescriptorType
  wr_descriptorCount :: int
  wr_pImageInfo :: "nat option"
  wr_pBufferInfo :: "VkHandle option"

datatype vkCall =
    vkDestroyPipelineLayout VkHandle
  | vkDestroyDescriptorSetLayout VkHandle
  | vkFreeDescriptorSets VkHandle VkHandle
  | vkDestroyDescriptorPool VkHandle
  | vkCreateDescriptorSetLayout "VkDescriptorSetLayoutBinding list" VkHandle
  | vkCreatePipelineLayout VkHandle VkHandle
  | vkCreateDescriptorPool "VkDescriptorType list" VkHandle
  | vkAllocateDescriptorSets VkHandle VkHandle VkHandle
  | vkUpdateDescriptorSets "VkWriteDescriptorSet list" "VkDescriptorImageInfo list"

text \<open>The device: the log of native calls and the last handle it gave out.  A native
  create call is taken to succeed and to return a handle that is new and not null; on
  any other result the source stops at an \<open>assert(0)\<close>.\<close>

record VkDevice =
  vk_log :: "vkCall list"
  vk_last :: VkHandle

definition vk_new_handle :: "VkDevice \<Rightarrow> VkHandle" where
  "vk_new_handle dev = Suc (vk_last dev)"

section \<open>Reference-counted objects and shaders\<close>

record refObject =
  mRefCount :: nat
  mMarkForDeletion :: bool

text \<open>Modelled from the spec: \<open>refObject::Bind\<close> is declared in a header that is not
  part of the sources; the spec describes shared resources as carrying an explicit count
  of active bindings/attachments, so binding adds one to the count.\<close>

definition Bind :: "'a refObject_scheme \<Rightarrow> 'a refObject_scheme" where
  "Bind r = r\<lparr>mRefCount := mRefCount r + 1\<rparr>"

text \<open>Modelled from the spec: \<open>refObject::Unbind\<close> (same header) takes one from the
  count.  The spec does not say what happens at count zero; the theorems below are about
  objects that hold the references taken from them.\<close>

definition Unbind :: "'a refObject_scheme \<Rightarrow> 'a refObject_scheme" where
  "Unbind r = r\<lparr>mRefCount := mRefCount r - 1\<rparr>"

text \<open>Modelled from the spec: \<open>refObject::FreeForDeletion\<close> (same header).  The spec
  destroys a shader only when its reference count is zero and a delete was requested.\<close>

definition FreeForDeletion :: "'a refObject_scheme \<Rightarrow> bool" where
  "FreeForDeletion r = (mRefCount r = 0 \<and> mMarkForDeletion r)"

datatype shader_type_t = SHADER_TYPE_INVALID | SHADER_TYPE_VERTEX | SHADER_TYPE_FRAGMENT

record Shader = refObject +
  mShaderType :: shader_type_t
  mCompiled :: bool
  mSpv :: "32 word list"

type_synonym shader_store = "nat \<rightharpoonup> Shader"

section \<open>Build configuration\<close>

text \<open>The macros of the build configuration, which are defined outside the sources: the
  three limits checked by the linker, the switches for debug output, and whether
  \<open>assert\<close> is compiled out (\<open>NDEBUG\<close>).\<close>

record glove_config =
  GLOVE_MAX_VERTEX_ATTRIBS :: nat
  GLOVE_MAX_VERTEX_UNIFORM_VECTORS :: nat
  GLOVE_MAX_FRAGMENT_UNIFORM_VECTORS :: nat
  GLOVE_DUMP_INPUT_SHADER_REFLECTION :: bool
  GLOVE_SAVE_SHADER_SOURCES_TO_FILES :: bool
  GLOVE_SAVE_SPIRV_BINARY_TO_FILES :: bool
  GLOVE_SAVE_SPIRV_TEXT_TO_FILE :: bool
  GLOVE_DUMP_PROCESSED_SHADER_SOURCE :: bool
  GLOVE_DUMP_VULKAN_SHADER_REFLECTION :: bool
  GLOVE_DUMP_SPIRV_SHADER_SOURCE :: bool
  NDEBUG :: bool

text \<open>\<open>assert(c)\<close>: passes when assertions are compiled out or \<open>c\<close> holds.\<close>

definition assert_passes :: "glove_config \<Rightarrow> bool \<Rightarrow> bool" where
  "assert_passes cfg c = (if NDEBUG cfg then True else c)"

section \<open>Reflection and the resource interface\<close>

text \<open>Modelled from the spec: the reflection data of the compiler and the resource
  interface built from it (\<open>ShaderResourceInterface\<close>) are not part of the sources.  The
  spec gives them as ordered sequences of live attributes (name, type, location), live
  uniforms (name, type, array size, client data) and uniform blocks (binding, stage mask,
  opacity flag).  \<open>u_sampler\<close> is the client data of a uniform read as a
  \<open>glsl_sampler_t\<close>, \<open>u_data\<close> its client-side bytes, \<open>ub_buffer\<close> the descriptor info
  of the uniform buffer of a block that is not opaque.\<close>

record attribute =
  attr_name :: string
  attr_type :: nat
  attr_location :: nat

record uniform =
  u_name :: string
  u_type :: nat
  u_arraySize :: int
  u_blockIndex :: nat
  u_sampler :: nat
  u_data :: "8 word list"

record uniformBlock =
  ub_binding :: nat
  ub_stage :: nat
  ub_opaque :: bool
  ub_buffer :: VkHandle

record ShaderReflection =
  refl_attributes :: "attribute list"
  refl_uniforms :: "uniform list"
  refl_blocks :: "uniformBlock list"

record ShaderResourceInterface =
  sri_attributes :: "attribute list"
  sri_uniforms :: "uniform list"
  sri_blocks :: "uniformBlock list"

abbreviation (input) GL_SAMPLER_2D :: nat where "GL_SAMPLER_2D \<equiv> 35678"
abbreviation (input) GL_SAMPLER_CUBE :: nat where "GL_SAMPLER_CUBE \<equiv> 35680"
abbreviation (input) GL_TEXTURE_2D :: nat where "GL_TEXTURE_2D \<equiv> 3553"
abbreviation (input) GL_TEXTURE_CUBE_MAP :: nat where "GL_TEXTURE_CUBE_MAP \<equiv> 34067"
abbreviation (input) GL_TEXTURE :: nat where "GL_TEXTURE \<equiv> 5890"
abbreviation (input) GL_UNSIGNED_BYTE :: nat where "GL_UNSIGNED_BYTE \<equiv> 5121"
abbreviation (input) GL_UNSIGNED_SHORT :: nat where "GL_UNSIGNED_SHORT \<equiv> 5123"
abbreviation (input) GL_UNSIGNED_INT :: nat where "GL_UNSIGNED_INT \<equiv> 5125"
abbreviation (input) GL_RGBA :: nat where "GL_RGBA \<equiv> 6408"
abbreviation (input) GL_ELEMENT_ARRAY_BUFFER :: nat where "GL_ELEMENT_ARRAY_BUFFER \<equiv> 34963"

definition GetLiveAttributes :: "ShaderResourceInterface \<Rightarrow> nat" where
  "GetLiveAttributes sri = length (sri_attributes sri)"

definition GetLiveUniforms :: "ShaderResourceInterface \<Rightarrow> nat" where
  "GetLiveUniforms sri = length (sri_uniforms sri)"

definition GetLiveUniformBlocks :: "ShaderResourceInterface \<Rightarrow> nat" where
  "GetLiveUniformBlocks sri = length (sri_blocks sri)"

text \<open>Modelled from the spec: \<open>UpdateAttributeInterface\<close> fills the attribute interface
  from the reflection of the compiler ahead of linking; \<open>CreateInterface\<close> builds the
  live attribute, uniform and uniform-block descriptors from it after linking.\<close>

definition sri_UpdateAttributeInterface :: "ShaderReflection \<Rightarrow> ShaderResourceInterface \<Rightarrow> ShaderResourceInterface" where
  "sri_UpdateAttributeInterface r sri = sri\<lparr>sri_attributes := refl_attributes r\<rparr>"

definition CreateInterface :: "ShaderReflection \<Rightarrow> ShaderResourceInterface" where
  "CreateInterface r =
     \<lparr>sri_attributes = refl_attributes r, sri_uniforms = refl_uniforms r, sri_blocks = refl_blocks r\<rparr>"

section \<open>Buffer objects\<close>

text \<open>Modelled from the spec: buffer objects are not part of the sources.  A buffer has a
  target, a native handle and its bytes; \<open>GetSize\<close> is the number of bytes.\<close>

record BufferObject =
  bo_target :: nat
  bo_vkBuffer :: VkHandle
  bo_data :: "8 word list"

record VkVertexInputBindingDescription =
  vib_binding :: nat
  vib_stride :: nat
  vib_inputRate :: nat

record VkVertexInputAttributeDescription =
  via_binding :: nat
  via_location :: nat
  via_format :: nat
  via_offset :: nat

section \<open>The shader program\<close>

text \<open>Modelled from the spec: the pipeline-cache collaborator (create, get, release) is
  not part of the sources.  It holds a native handle and the opaque cache bytes.\<close>

record PipelineCache =
  pc_handle :: VkHandle
  pc_data :: "8 word list"

definition PipelineCache_Release :: "PipelineCache \<Rightarrow> PipelineCache" where
  "PipelineCache_Release c = c\<lparr>pc_handle := VK_NULL_HANDLE, pc_data := []\<rparr>"

record ShaderProgram = refObject +
  mShaders :: "nat \<Rightarrow> nat option"
  mShaderSPVsize :: "nat \<Rightarrow> nat"
  mShaderSPVdata :: "nat \<Rightarrow> nat option"
  mVkShaderModules :: "nat \<Rightarrow> VkHandle"
  mVkShaderStages :: "nat \<Rightarrow> nat"
  mVkDescSetLayout :: VkHandle
  mVkDescPool :: VkHandle
  mVkDescSet :: VkHandle
  mVkPipelineLayout :: VkHandle
  mPipelineCache :: PipelineCache
  mUpdateDescriptorSets :: bool
  mUpdateDescriptorData :: bool
  mLinked :: bool
  mIsPrecompiled :: bool
  mStageCount :: nat
  mShaderResourceInterface :: ShaderResourceInterface
  mActiveVertexVkBuffers :: "nat \<Rightarrow> VkHandle"
  mActiveVertexVkBuffersCount :: nat
  mActiveIndexVkBuffer :: VkHandle
  mExplicitIbo :: "BufferObject option"
  mVkVertexInputBinding :: "nat \<Rightarrow> VkVertexInputBindingDescription"
  mVkVertexInputAttribute :: "nat \<Rightarrow> VkVertexInputAttributeDescription"
  vertexBindingDescriptionCount :: nat
  vertexAttributeDescriptionCount :: nat

abbreviation (input) VK_SHADER_STAGE_ALL :: nat where "VK_SHADER_STAGE_ALL \<equiv> 2147483647"
abbreviation (input) VK_SHADER_STAGE_VERTEX_BIT :: nat where "VK_SHADER_STAGE_VERTEX_BIT \<equiv> 1"
abbreviation (input) VK_SHADER_STAGE_FRAGMENT_BIT :: nat where "VK_SHADER_STAGE_FRAGMENT_BIT \<equiv> 16"

text \<open>\<open>ShaderProgram::IsShaderAttached\<close>: the shader itself when it sits in the slot of
  its own stage kind, \<open>nullptr\<close> otherwise.\<close>

definition IsShaderAttached :: "ShaderProgram \<Rightarrow> shader_store \<Rightarrow> nat option \<Rightarrow> nat option option" where
  "IsShaderAttached p st shader =
     (case shader of
        None \<Rightarrow> Some None
      | Some a \<Rightarrow>
          (case st a of
             None \<Rightarrow> None
           | Some sh \<Rightarrow>
               if (mShaderType sh = SHADER_TYPE_VERTEX \<and> mShaders p 0 = Some a) \<or>
                  (mShaderType sh = SHADER_TYPE_FRAGMENT \<and> mShaders p 1 = Some a)
               then Some (Some a) else Some None))"

text \<open>\<open>ShaderProgram::AttachShader\<close>: bind the shader, then store it in slot 0 when it
  is a vertex shader and in slot 1 otherwise.\<close>

definition AttachShader :: "ShaderProgram \<Rightarrow> shader_store \<Rightarrow> nat option \<Rightarrow> (ShaderProgram \<times> shader_store) option" where
  "AttachShader p st shader =
     (case shader of
        None \<Rightarrow> None
      | Some a \<Rightarrow>
          (case st a of
             None \<Rightarrow> None
           | Some sh \<Rightarrow>
               Some (p\<lparr>mShaders := (mShaders p)
                         ((if mShaderType sh = SHADER_TYPE_VERTEX then 0 else 1) := Some a)\<rparr>,
                     st(a \<mapsto> Bind sh))))"

text \<open>\<open>ShaderProgram::DetachShader\<close>: nothing happens for a null shader or one that is
  not attached; otherwise the slot is cleared and the shader unbound.\<close>

definition DetachShader :: "ShaderProgram \<Rightarrow> shader_store \<Rightarrow> nat option \<Rightarrow> (ShaderProgram \<times> shader_store) option" where
  "DetachShader p st shader =
     (case shader of
        None \<Rightarrow> Some (p, st)
      | Some a \<Rightarrow>
          (case IsShaderAttached p st (Some a) of
             None \<Rightarrow> None
           | Some None \<Rightarrow> Some (p, st)
           | Some (Some _) \<Rightarrow>
               (case st a of
                  None \<Rightarrow> None
                | Some sh \<Rightarrow>
                    Some (p\<lparr>mShaders :=
                             (if mShaderType sh = SHADER_TYPE_VERTEX then (mShaders p)(0 := None)
                              else if mShaderType sh = SHADER_TYPE_FRAGMENT then (mShaders p)(1 := None)
                              else mShaders p)\<rparr>,
                          st(a \<mapsto> Unbind sh)))))"

text \<open>\<open>ShaderProgram::DetachShaders\<close>: detach the vertex shader, then the fragment
  shader, each when present.\<close>

definition DetachShaders :: "ShaderProgram \<Rightarrow> shader_store \<Rightarrow> (ShaderProgram \<times> shader_store) option" where
  "DetachShaders p st =
     (case (case mShaders p 0 of None \<Rightarrow> Some (p, st) | Some a \<Rightarrow> DetachShader p st (Some a)) of
        None \<Rightarrow> None
      | Some (p1, st1) \<Rightarrow>
          (case mShaders p1 1 of None \<Rightarrow> Some (p1, st1) | Some b \<Rightarrow> DetachShader p1 st1 (Some b)))"

text \<open>\<open>ShaderProgram::ReleaseVkObjects\<close>.  Each native object is destroyed when its
  handle is not null, in the order of the source text: pipeline layout, descriptor-set
  layout, descriptor set, descriptor pool.  The second component is the log of native
  calls, extended at its end.\<close>

definition ReleaseVkObjects :: "ShaderProgram \<Rightarrow> vkCall list \<Rightarrow> ShaderProgram \<times> vkCall list" where
  "ReleaseVkObjects p log =
     (let (p1, log1) =
            (if mVkPipelineLayout p \<noteq> VK_NULL_HANDLE
             then (p\<lparr>mVkPipelineLayout := VK_NULL_HANDLE\<rparr>,
                   log @ [vkDestroyPipelineLayout (mVkPipelineLayout p)])
             else (p, log));
          (p2, log2) =
            (if mVkDescSetLayout p1 \<noteq> VK_NULL_HANDLE
             then (p1\<lparr>mVkDescSetLayout := VK_NULL_HANDLE\<rparr>,
                   log1 @ [vkDestroyDescriptorSetLayout (mVkDescSetLayout p1)])
             else (p1, log1));
          (p3, log3) =
            (if mVkDescSet p2 \<noteq> VK_NULL_HANDLE
             then (p2\<lparr>mVkDescSet := VK_NULL_HANDLE\<rparr>,
                   log2 @ [vkFreeDescriptorSets (mVkDescPool p2) (mVkDescSet p2)])
             else (p2, log2));
          (p4, log4) =
            (if mVkDescPool p3 \<noteq> VK_NULL_HANDLE
             then (p3\<lparr>mVkDescPool := VK_NULL_HANDLE\<rparr>,
                   log3 @ [vkDestroyDescriptorPool (mVkDescPool p3)])
             else (p3, log3))
      in (p4\<lparr>mShaderSPVsize := (\<lambda>i. if i < 2 then 0 else mShaderSPVsize p4 i),
              mShaderSPVdata := (\<lambda>i. if i < 2 then None else mShaderSPVdata p4 i),
              mVkShaderModules := (\<lambda>i. if i < 2 then VK_NULL_HANDLE else mVkShaderModules p4 i),
              mVkShaderStages := (\<lambda>i. if i < 2 then VK_SHADER_STAGE_ALL else mVkShaderStages p4 i),
              mPipelineCache := PipelineCache_Release (mPipelineCache p4)\<rparr>,
          log4))"

section \<open>Ordered maps\<close>

text \<open>A \<open>std::map\<close> is a list of key-value pairs kept in ascending key order, which is
  the order in which the source iterates over it.  \<open>stdmap_set\<close> is the assignment
  \<open>m[k] = v\<close>, \<open>stdmap_erase\<close> is \<open>m.erase(k)\<close> and \<open>map_of\<close> is \<open>m.find(k)\<close>.\<close>

fun stdmap_set :: "'k::linorder \<Rightarrow> 'v \<Rightarrow> ('k \<times> 'v) list \<Rightarrow> ('k \<times> 'v) list" where
  "stdmap_set k v [] = [(k, v)]"
| "stdmap_set k v ((k', v') # m) =
     (if k = k' then (k, v) # m
      else if k < k' then (k, v) # (k', v') # m
      else (k', v') # stdmap_set k v m)"

definition stdmap_erase :: "'k \<Rightarrow> ('k \<times> 'v) list \<Rightarrow> ('k \<times> 'v) list" where
  "stdmap_erase k m = filter (\<lambda>kv. fst kv \<noteq> k) m"

section \<open>The resource manager\<close>

datatype shadingNamespaceType_t = INVALID_ID | SHADER_ID | SHADER_PROGRAM_ID

record ShadingNamespace_t =
  arrayIndex :: nat
  ns_type :: shadingNamespaceType_t

datatype deleted =
    DeletedBuffer nat
  | DeletedTexture nat
  | DeletedShaderProgram nat
  | DeletedShader nat
  | DeletedRenderbuffer nat

text \<open>The objects of each pool are addressed by their index in the pool, which is what
  \<open>GetShaderID\<close> and \<open>GetShaderProgramID\<close> return for a pointer.  \<open>rm_deleted\<close> logs
  every \<open>delete\<close> and deallocation, in order.\<close>

record ResourceManager =
  mShadingObjectCount :: "32 word"
  mShadingObjectPool :: "(32 word \<times> ShadingNamespace_t) list"
  rm_Shaders :: shader_store
  rm_ShaderPrograms :: "nat \<rightharpoonup> ShaderProgram"
  rm_Buffers :: "nat \<rightharpoonup> refObject"
  rm_Textures :: "nat \<rightharpoonup> refObject"
  rm_Renderbuffers :: "nat \<rightharpoonup> refObject"
  mPurgeListBufferObject :: "nat list"
  mPurgeListTexture :: "nat list"
  mPurgeListShaderPrograms :: "nat list"
  mPurgeListShaders :: "nat list"
  mPurgeListRenderbuffers :: "nat list"
  rm_deleted :: "deleted list"

text \<open>The constructor: the ID counter starts at 1 and every pool is empty.\<close>

definition ResourceManager_new :: ResourceManager where
  "ResourceManager_new =
     \<lparr>mShadingObjectCount = 1, mShadingObjectPool = [],
      rm_Shaders = Map.empty, rm_ShaderPrograms = Map.empty, rm_Buffers = Map.empty,
      rm_Textures = Map.empty, rm_Renderbuffers = Map.empty,
      mPurgeListBufferObject = [], mPurgeListTexture = [], mPurgeListShaderPrograms = [],
      mPurgeListShaders = [], mPurgeListRenderbuffers = [], rm_deleted = []\<rparr>"

text \<open>\<open>ResourceManager::PushShadingObject\<close>: store the object under the current counter,
  return the counter and increment it (a \<open>uint32_t\<close>, so the increment wraps).\<close>

definition PushShadingObject :: "ResourceManager \<Rightarrow> ShadingNamespace_t \<Rightarrow> 32 word \<times> ResourceManager" where
  "PushShadingObject rm obj =
     (mShadingObjectCount rm,
      rm\<lparr>mShadingObjectPool := stdmap_set (mShadingObjectCount rm) obj (mShadingObjectPool rm),
         mShadingObjectCount := mShadingObjectCount rm + 1\<rparr>)"

definition EraseShadingObject :: "ResourceManager \<Rightarrow> 32 word \<Rightarrow> ResourceManager" where
  "EraseShadingObject rm ident = rm\<lparr>mShadingObjectPool := stdmap_erase ident (mShadingObjectPool rm)\<rparr>"

text \<open>Modelled from the spec: \<open>ShadingObjectExists\<close> is declared in a header that is not
  part of the sources; an ID exists when the pool has an entry for it.\<close>

definition ShadingObjectExists :: "ResourceManager \<Rightarrow> 32 word \<Rightarrow> bool" where
  "ShadingObjectExists rm index = (map_of (mShadingObjectPool rm) index \<noteq> None)"

definition IsShadingObject :: "ResourceManager \<Rightarrow> 32 word \<Rightarrow> shadingNamespaceType_t \<Rightarrow> bool" where
  "IsShadingObject rm index t =
     (if index = 0 \<or> index \<ge> mShadingObjectCount rm \<or> \<not> ShadingObjectExists rm index then False
      else (case map_of (mShadingObjectPool rm) index of
              None \<Rightarrow> False
            | Some shadId \<Rightarrow> arrayIndex shadId \<noteq> 0 \<and> ns_type shadId = t))"

text \<open>\<open>FindShaderID\<close> and \<open>FindShaderProgramID\<close>: the first ID, in ascending order,
  whose entry has the wanted type and the object's pool index; 0 when there is none.\<close>

definition FindShaderID :: "ResourceManager \<Rightarrow> nat \<Rightarrow> 32 word" where
  "FindShaderID rm shader =
     (case find (\<lambda>kv. ns_type (snd kv) = SHADER_ID \<and> shader = arrayIndex (snd kv)) (mShadingObjectPool rm) of
        None \<Rightarrow> 0
      | Some kv \<Rightarrow> fst kv)"

definition FindShaderProgramID :: "ResourceManager \<Rightarrow> nat \<Rightarrow> 32 word" where
  "FindShaderProgramID rm program =
     (case find (\<lambda>kv. ns_type (snd kv) = SHADER_PROGRAM_ID \<and> program = arrayIndex (snd kv)) (mShadingObjectPool rm) of
        None \<Rightarrow> 0
      | Some kv \<Rightarrow> fst kv)"

text \<open>A sequence of calls on the shading namespace, and the IDs its pushes return.\<close>

datatype shadingCall = Push ShadingNamespace_t | Erase "32 word"

fun pushes :: "shadingCall list \<Rightarrow> nat" where
  "pushes [] = 0"
| "pushes (Push obj # cs) = Suc (pushes cs)"
| "pushes (Erase ident # cs) = pushes cs"

fun shadingCalls :: "shadingCall list \<Rightarrow> ResourceManager \<Rightarrow> 32 word list \<times> ResourceManager" where
  "shadingCalls [] rm = ([], rm)"
| "shadingCalls (Push obj # cs) rm =
     (fst (PushShadingObject rm obj) # fst (shadingCalls cs (snd (PushShadingObject rm obj))),
      snd (shadingCalls cs (snd (PushShadingObject rm obj))))"
| "shadingCalls (Erase ident # cs) rm = shadingCalls cs (EraseShadingObject rm ident)"

subsection \<open>The purge sweep\<close>

text \<open>One loop of \<open>CleanPurgeList\<close> over a list of buffers, textures or renderbuffers:
  an object whose reference count is zero is deleted and leaves the list, any other stays.
  The result is the list that remains, the objects, and the log of deletions.\<close>

fun purge_by_refcount ::
  "(nat \<Rightarrow> deleted) \<Rightarrow> nat list \<Rightarrow> (nat \<rightharpoonup> refObject) \<Rightarrow> deleted list
     \<Rightarrow> (nat list \<times> (nat \<rightharpoonup> refObject) \<times> deleted list) option" where
  "purge_by_refcount mk [] heap log = Some ([], heap, log)"
| "purge_by_refcount mk (a # as) heap log =
     (case heap a of
        None \<Rightarrow> None
      | Some ob \<Rightarrow>
          if mRefCount ob = 0 then purge_by_refcount mk as (heap(a := None)) (log @ [mk a])
          else map_option (\<lambda>(l, h, g). (a # l, h, g)) (purge_by_refcount mk as heap log))"

text \<open>The loop over the shader programs: a program that is free for deletion has its
  shaders detached, its ID erased and is deallocated.\<close>

fun purge_programs :: "nat list \<Rightarrow> ResourceManager \<Rightarrow> (nat list \<times> ResourceManager) option" where
  "purge_programs [] rm = Some ([], rm)"
| "purge_programs (a # as) rm =
     (case rm_ShaderPrograms rm a of
        None \<Rightarrow> None
      | Some prog \<Rightarrow>
          if FreeForDeletion prog then
            (case DetachShaders prog (rm_Shaders rm) of
               None \<Rightarrow> None
             | Some (prog1, st1) \<Rightarrow>
                 (let rm1 = rm\<lparr>rm_Shaders := st1, rm_ShaderPrograms := (rm_ShaderPrograms rm)(a \<mapsto> prog1)\<rparr>;
                      rm2 = EraseShadingObject rm1 (FindShaderProgramID rm1 a);
                      rm3 = rm2\<lparr>rm_ShaderPrograms := (rm_ShaderPrograms rm2)(a := None),
                                rm_deleted := rm_deleted rm2 @ [DeletedShaderProgram a]\<rparr>
                  in purge_programs as rm3))
          else map_option (\<lambda>(l, r). (a # l, r)) (purge_programs as rm))"

text \<open>The loop over the shaders.\<close>

fun purge_shaders :: "nat list \<Rightarrow> ResourceManager \<Rightarrow> (nat list \<times> ResourceManager) option" where
  "purge_shaders [] rm = Some ([], rm)"
| "purge_shaders (a # as) rm =
     (case rm_Shaders rm a of
        None \<Rightarrow> None
      | Some sh \<Rightarrow>
          if FreeForDeletion sh then
            (let rm2 = EraseShadingObject rm (FindShaderID rm a);
                 rm3 = rm2\<lparr>rm_Shaders := (rm_Shaders rm2)(a := None),
                           rm_deleted := rm_deleted rm2 @ [DeletedShader a]\<rparr>
             in purge_shaders as rm3)
          else map_option (\<lambda>(l, r). (a # l, r)) (purge_shaders as rm))"

text \<open>The five loops of \<open>ResourceManager::CleanPurgeList\<close>, in the order of the source:
  buffers, textures, shader programs, shaders, renderbuffers.  \<open>CleanPurgeList_programs\<close>
  is the sweep up to and including the loop over the programs.\<close>

definition CleanPurgeList_programs :: "ResourceManager \<Rightarrow> ResourceManager option" where
  "CleanPurgeList_programs rm =
     (case purge_by_refcount DeletedBuffer (mPurgeListBufferObject rm) (rm_Buffers rm) (rm_deleted rm) of
        None \<Rightarrow> None
      | Some (lb, hb, gb) \<Rightarrow>
     (case purge_by_refcount DeletedTexture (mPurgeListTexture rm) (rm_Textures rm) gb of
        None \<Rightarrow> None
      | Some (lt, ht, gt) \<Rightarrow>
     (case purge_programs (mPurgeListShaderPrograms rm)
             (rm\<lparr>mPurgeListBufferObject := lb, rm_Buffers := hb,
                 mPurgeListTexture := lt, rm_Textures := ht, rm_deleted := gt\<rparr>) of
        None \<Rightarrow> None
      | Some (lp, rm3) \<Rightarrow> Some (rm3\<lparr>mPurgeListShaderPrograms := lp\<rparr>))))"

definition CleanPurgeList :: "ResourceManager \<Rightarrow> ResourceManager option" where
  "CleanPurgeList rm =
     (case CleanPurgeList_programs rm of
        None \<Rightarrow> None
      | Some rm3 \<Rightarrow>
     (case purge_shaders (mPurgeListShaders rm3) rm3 of
        None \<Rightarrow> None
      | Some (ls, rm4) \<Rightarrow>
     (case purge_by_refcount DeletedRenderbuffer (mPurgeListRenderbuffers rm4) (rm_Renderbuffers rm4) (rm_deleted rm4) of
        None \<Rightarrow> None
      | Some (lr, hr, gr) \<Rightarrow>
          Some (rm4\<lparr>mPurgeListShaders := ls, mPurgeListRenderbuffers := lr,
                    rm_Renderbuffers := hr, rm_deleted := gr\<rparr>))))"

text \<open>What one sweep adds to the log of deletions, and the two outcomes of a sweep for
  an object \<open>a\<close> of a purge list: it stays on the list and allocated as it was, or it has
  left the list, is no longer allocated and was deleted exactly once by the sweep.\<close>

definition sweep_log :: "ResourceManager \<Rightarrow> ResourceManager \<Rightarrow> deleted list" where
  "sweep_log rm rm' = drop (length (rm_deleted rm)) (rm_deleted rm')"

definition kept :: "nat list \<Rightarrow> (nat \<rightharpoonup> 'a) \<Rightarrow> nat \<Rightarrow> 'a \<Rightarrow> bool" where
  "kept l h a ob = (a \<in> set l \<and> h a = Some ob)"

definition freed_once :: "nat list \<Rightarrow> (nat \<rightharpoonup> 'a) \<Rightarrow> deleted list \<Rightarrow> nat \<Rightarrow> deleted \<Rightarrow> bool" where
  "freed_once l h log a ev = (a \<notin> set l \<and> h a = None \<and> count_list log ev = 1)"

text \<open>The number of references that one sweep takes from a shader: the programs of the
  purge list that are free for deletion and have the shader attached, each of which
  detaches and unbinds it before it is deallocated.\<close>

definition released_by_sweep :: "ResourceManager \<Rightarrow> nat \<Rightarrow> nat" where
  "released_by_sweep rm s =
     length (filter (\<lambda>a. case rm_ShaderPrograms rm a of
                             None \<Rightarrow> False
                           | Some pr \<Rightarrow> FreeForDeletion pr \<and>
                                       IsShaderAttached pr (rm_Shaders rm) (Some s) = Some (Some s))
               (mPurgeListShaderPrograms rm))"

section \<open>The compiler and the rendering context\<close>

text \<open>Modelled from the spec: the compiler collaborator is not part of the sources.  The
  model logs the calls made on it; what it answers is given by its fields: whether it
  validates the program, preprocesses each stage and links, the SPIR-V it writes for each
  stage, the reflection it has after the pre-pass and after linking, and the reflection
  it currently holds (\<open>GetShaderReflection\<close>).\<close>

datatype essl_version = ESSL_VERSION_100 | ESSL_VERSION_400

datatype compilerCall =
    EnablePrintReflection essl_version
  | ValidateProgram_call essl_version
  | EnableSaveSourceToFiles
  | EnableSaveBinaryToFiles
  | EnableSaveSpvTextToFile
  | EnablePrintConvertedShader
  | EnablePrintSpv
  | PrepareReflection essl_version
  | GetShaderReflection
  | PreprocessShader shader_type_t bool
  | LinkProgram_call
  | PrintUniformReflection
  | SerializeReflection
  | DeserializeReflection

record ShaderCompiler =
  sc_calls :: "compilerCall list"
  sc_validates :: bool
  sc_preprocesses :: "shader_type_t \<Rightarrow> bool"
  sc_links :: bool
  sc_spv :: "shader_type_t \<Rightarrow> 32 word list"
  sc_prepared :: ShaderReflection
  sc_linked :: ShaderReflection
  sc_reflection :: ShaderReflection

definition sc_call :: "compilerCall \<Rightarrow> ShaderCompiler \<Rightarrow> ShaderCompiler" where
  "sc_call c sc = sc\<lparr>sc_calls := sc_calls sc @ [c]\<rparr>"

definition sc_call_if :: "bool \<Rightarrow> compilerCall \<Rightarrow> ShaderCompiler \<Rightarrow> ShaderCompiler" where
  "sc_call_if b c sc = (if b then sc_call c sc else sc)"

text \<open>The current rendering context, passed to every operation that asks for it, so the
  source's \<open>assert(context)\<close> holds.  \<open>ctx_ActiveTexture target unit\<close> is the texture
  bound to a unit; \<open>ctx_Framebuffers\<close> is the framebuffer pool of the resource manager
  reached through the context.\<close>

record Framebuffer =
  fb_ColorAttachmentType :: nat
  fb_ColorAttachmentTexture :: "nat option"

record Context =
  IsYInverted :: bool
  IsModeLineLoop :: bool
  ctx_ActiveTexture :: "nat \<Rightarrow> nat \<Rightarrow> nat option"
  ctx_Framebuffers :: "(nat \<times> Framebuffer) list"

section \<open>Linking\<close>

definition ResetVulkanVertexInput :: "ShaderProgram \<Rightarrow> ShaderProgram" where
  "ResetVulkanVertexInput p =
     p\<lparr>vertexAttributeDescriptionCount := 0, vertexBindingDescriptionCount := 0,
       mActiveVertexVkBuffersCount := 0, mActiveVertexVkBuffers := (\<lambda>i. VK_NULL_HANDLE)\<rparr>"

definition UpdateAttributeInterface :: "ShaderProgram \<Rightarrow> ShaderCompiler \<Rightarrow> ShaderProgram \<times> ShaderCompiler" where
  "UpdateAttributeInterface p sc =
     (p\<lparr>mShaderResourceInterface :=
          sri_UpdateAttributeInterface (sc_reflection sc) (mShaderResourceInterface p)\<rparr>,
      sc_call GetShaderReflection sc)"

text \<open>The stage mask of a uniform block: vertex is 1 and fragment is 2 (the values of the
  enumeration are outside the sources; only their being different matters).\<close>

definition stage_flags :: "nat \<Rightarrow> nat" where
  "stage_flags stage =
     (if stage = 3 then VK_SHADER_STAGE_VERTEX_BIT + VK_SHADER_STAGE_FRAGMENT_BIT
      else if stage = 1 then VK_SHADER_STAGE_VERTEX_BIT else VK_SHADER_STAGE_FRAGMENT_BIT)"

definition descriptor_type :: "uniformBlock \<Rightarrow> VkDescriptorType" where
  "descriptor_type b =
     (if ub_opaque b then VK_DESCRIPTOR_TYPE_COMBINED_IMAGE_SAMPLER else VK_DESCRIPTOR_TYPE_UNIFORM_BUFFER)"

text \<open>\<open>CreateDescriptorSetLayout\<close>: the layout with one binding for each live uniform
  block, then the pipeline layout.\<close>

definition CreateDescriptorSetLayout :: "nat \<Rightarrow> ShaderProgram \<Rightarrow> VkDevice \<Rightarrow> ShaderProgram \<times> VkDevice" where
  "CreateDescriptorSetLayout nLiveUniformBlocks p dev =
     (let binds = (if nLiveUniformBlocks \<noteq> 0
                   then map (\<lambda>b. \<lparr>lb_binding = ub_binding b, lb_descriptorType = descriptor_type b,
                                    lb_stageFlags = stage_flags (ub_stage b)\<rparr>)
                            (sri_blocks (mShaderResourceInterface p))
                   else []);
          layout = vk_new_handle dev;
          dev1 = dev\<lparr>vk_log := vk_log dev @ [vkCreateDescriptorSetLayout binds layout], vk_last := layout\<rparr>;
          pl = vk_new_handle dev1;
          dev2 = dev1\<lparr>vk_log := vk_log dev1 @ [vkCreatePipelineLayout layout pl], vk_last := pl\<rparr>
      in (p\<lparr>mVkDescSetLayout := layout, mVkPipelineLayout := pl\<rparr>, dev2))"

definition CreateDescriptorPool :: "nat \<Rightarrow> ShaderProgram \<Rightarrow> VkDevice \<Rightarrow> ShaderProgram \<times> VkDevice" where
  "CreateDescriptorPool nLiveUniformBlocks p dev =
     (let pool = vk_new_handle dev
      in (p\<lparr>mVkDescPool := pool\<rparr>,
          dev\<lparr>vk_log := vk_log dev @
                  [vkCreateDescriptorPool (map descriptor_type (sri_blocks (mShaderResourceInterface p))) pool],
              vk_last := pool\<rparr>))"

definition CreateDescriptorSet :: "ShaderProgram \<Rightarrow> VkDevice \<Rightarrow> ShaderProgram \<times> VkDevice" where
  "CreateDescriptorSet p dev =
     (let set = vk_new_handle dev
      in (p\<lparr>mVkDescSet := set\<rparr>,
          dev\<lparr>vk_log := vk_log dev @ [vkAllocateDescriptorSets (mVkDescPool p) (mVkDescSetLayout p) set],
              vk_last := set\<rparr>))"

text \<open>\<open>AllocateVkDescriptoSet\<close>: release what there is, create the layouts and, when
  there is a live uniform block, the pool and the set.\<close>

definition AllocateVkDescriptoSet :: "ShaderProgram \<Rightarrow> VkDevice \<Rightarrow> ShaderProgram \<times> VkDevice" where
  "AllocateVkDescriptoSet p dev =
     (let nLiveUniformBlocks = GetLiveUniformBlocks (mShaderResourceInterface p);
          (p1, log1) = ReleaseVkObjects p (vk_log dev);
          (p2, dev2) = CreateDescriptorSetLayout nLiveUniformBlocks p1 (dev\<lparr>vk_log := log1\<rparr>)
      in if nLiveUniformBlocks = 0 then (p2, dev2)
         else (let (p3, dev3) = CreateDescriptorPool nLiveUniformBlocks p2 dev2
               in CreateDescriptorSet p3 dev3))"

text \<open>\<open>BuildShaderResourceInterface\<close>: the interface is built from the reflection the
  compiler holds, the descriptor objects are allocated anew and both dirty flags are set.
  The allocation of the client data and of the uniform buffers belongs to the interface
  and is outside the sources.\<close>

definition BuildShaderResourceInterface ::
  "ShaderProgram \<Rightarrow> ShaderCompiler \<Rightarrow> VkDevice \<Rightarrow> ShaderProgram \<times> ShaderCompiler \<times> VkDevice" where
  "BuildShaderResourceInterface p sc dev =
     (let p1 = p\<lparr>mShaderResourceInterface := CreateInterface (sc_reflection sc)\<rparr>;
          (p2, dev2) = AllocateVkDescriptoSet p1 dev
      in (p2\<lparr>mUpdateDescriptorSets := True, mUpdateDescriptorData := True\<rparr>,
          sc_call GetShaderReflection sc, dev2))"

text \<open>\<open>ShaderProgram::ValidateProgram\<close>: false without a call on the compiler when a
  stage is missing or not compiled; otherwise what the compiler answers.\<close>

definition ValidateProgram ::
  "glove_config \<Rightarrow> ShaderProgram \<Rightarrow> shader_store \<Rightarrow> ShaderCompiler \<Rightarrow> (bool \<times> ShaderCompiler) option" where
  "ValidateProgram cfg p st sc =
     (case mShaders p 0 of
        None \<Rightarrow> Some (False, sc)
      | Some v \<Rightarrow>
     (case mShaders p 1 of
        None \<Rightarrow> Some (False, sc)
      | Some f \<Rightarrow>
     (case st v of
        None \<Rightarrow> None
      | Some vs \<Rightarrow>
          if \<not> mCompiled vs then Some (False, sc)
          else
     (case st f of
        None \<Rightarrow> None
      | Some fs \<Rightarrow>
          if \<not> mCompiled fs then Some (False, sc)
          else Some (sc_validates sc,
                     sc_call (ValidateProgram_call ESSL_VERSION_100)
                       (sc_call_if (GLOVE_DUMP_INPUT_SHADER_REFLECTION cfg)
                          (EnablePrintReflection ESSL_VERSION_100) sc))))))"

text \<open>The debug switches of \<open>LinkProgram\<close>, in the order of the source.\<close>

definition link_debug_switches :: "glove_config \<Rightarrow> ShaderCompiler \<Rightarrow> ShaderCompiler" where
  "link_debug_switches cfg sc =
     sc_call_if (GLOVE_DUMP_SPIRV_SHADER_SOURCE cfg) EnablePrintSpv
       (sc_call_if (GLOVE_DUMP_VULKAN_SHADER_REFLECTION cfg) (EnablePrintReflection ESSL_VERSION_400)
         (sc_call_if (GLOVE_DUMP_PROCESSED_SHADER_SOURCE cfg) EnablePrintConvertedShader
           (sc_call_if (GLOVE_SAVE_SPIRV_TEXT_TO_FILE cfg) EnableSaveSpvTextToFile
             (sc_call_if (GLOVE_SAVE_SPIRV_BINARY_TO_FILES cfg) EnableSaveBinaryToFiles
               (sc_call_if (GLOVE_SAVE_SHADER_SOURCES_TO_FILES cfg) EnableSaveSourceToFiles sc)))))"

text \<open>The two \<open>PreprocessShader\<close> calls joined by \<open>&&\<close>: the fragment stage is only
  preprocessed when the vertex stage succeeded.\<close>

definition preprocess_stages :: "Context \<Rightarrow> ShaderCompiler \<Rightarrow> bool \<times> ShaderCompiler" where
  "preprocess_stages ctx sc =
     (let sc1 = sc_call (PreprocessShader SHADER_TYPE_VERTEX (IsYInverted ctx)) sc
      in if \<not> sc_preprocesses sc SHADER_TYPE_VERTEX then (False, sc1)
         else (sc_preprocesses sc SHADER_TYPE_FRAGMENT,
               sc_call (PreprocessShader SHADER_TYPE_FRAGMENT (IsYInverted ctx)) sc1))"

text \<open>The link call of the compiler: it writes the SPIR-V of both stages into the two
  attached shaders and, when it succeeds, holds the reflection of the linked program.\<close>

definition compiler_LinkProgram ::
  "ShaderProgram \<Rightarrow> shader_store \<Rightarrow> ShaderCompiler \<Rightarrow> (bool \<times> shader_store \<times> ShaderCompiler) option" where
  "compiler_LinkProgram p st sc =
     (case mShaders p 0 of
        None \<Rightarrow> None
      | Some v \<Rightarrow>
     (case mShaders p 1 of
        None \<Rightarrow> None
      | Some f \<Rightarrow>
     (case st v of
        None \<Rightarrow> None
      | Some vs \<Rightarrow>
     (case (st(v \<mapsto> vs\<lparr>mSpv := sc_spv sc SHADER_TYPE_VERTEX\<rparr>)) f of
        None \<Rightarrow> None
      | Some fs \<Rightarrow>
          Some (sc_links sc,
                (st(v \<mapsto> vs\<lparr>mSpv := sc_spv sc SHADER_TYPE_VERTEX\<rparr>))
                   (f \<mapsto> fs\<lparr>mSpv := sc_spv sc SHADER_TYPE_FRAGMENT\<rparr>),
                (sc_call LinkProgram_call sc)
                   \<lparr>sc_reflection := (if sc_links sc then sc_linked sc else sc_reflection sc)\<rparr>)))))"

definition GetNumberOfActiveUniforms :: "ShaderProgram \<Rightarrow> nat" where
  "GetNumberOfActiveUniforms p = GetLiveUniforms (mShaderResourceInterface p)"

definition GetNumberOfActiveAttributes :: "ShaderProgram \<Rightarrow> nat" where
  "GetNumberOfActiveAttributes p = GetLiveAttributes (mShaderResourceInterface p)"

text \<open>\<open>ShaderProgram::LinkProgram\<close>.  The result is the returned flag and the program,
  the shaders, the compiler and the device after the call.\<close>

definition LinkProgram ::
  "glove_config \<Rightarrow> Context \<Rightarrow> ShaderProgram \<Rightarrow> shader_store \<Rightarrow> ShaderCompiler \<Rightarrow> VkDevice
     \<Rightarrow> (bool \<times> ShaderProgram \<times> shader_store \<times> ShaderCompiler \<times> VkDevice) option" where
  "LinkProgram cfg ctx p st sc dev =
     (case ValidateProgram cfg p st sc of
        None \<Rightarrow> None
      | Some (valid, sc1) \<Rightarrow>
          if \<not> valid then Some (False, p\<lparr>mLinked := False\<rparr>, st, sc1, dev)
          else
            (let sc2 = link_debug_switches cfg sc1;
                 p1 = ResetVulkanVertexInput (p\<lparr>mLinked := True\<rparr>);
                 sc3 = (sc_call (PrepareReflection ESSL_VERSION_100) sc2)\<lparr>sc_reflection := sc_prepared sc2\<rparr>;
                 (p2, sc4) = UpdateAttributeInterface p1 sc3;
                 (preprocessed, sc5) = preprocess_stages ctx sc4
             in if \<not> preprocessed then Some (False, p2\<lparr>mLinked := False\<rparr>, st, sc5, dev)
                else
                  (case compiler_LinkProgram p2 st sc5 of
                     None \<Rightarrow> None
                   | Some (linked, st1, sc6) \<Rightarrow>
                       if \<not> linked then Some (False, p2\<lparr>mLinked := False\<rparr>, st1, sc6, dev)
                       else
                         (let (p3, sc7, dev1) = BuildShaderResourceInterface (p2\<lparr>mLinked := True\<rparr>) sc6 dev
                          in if GetNumberOfActiveUniforms p3 > GLOVE_MAX_VERTEX_UNIFORM_VECTORS cfg \<or>
                                GetNumberOfActiveUniforms p3 > GLOVE_MAX_FRAGMENT_UNIFORM_VECTORS cfg \<or>
                                GetNumberOfActiveAttributes p3 > GLOVE_MAX_VERTEX_ATTRIBS cfg
                             then Some (False, p3\<lparr>mLinked := False\<rparr>, st1, sc7, dev1)
                             else Some (mLinked p3, p3, st1,
                                        sc_call_if (GLOVE_DUMP_VULKAN_SHADER_REFLECTION cfg) PrintUniformReflection sc7,
                                        dev1)))))"

text \<open>Both stage slots hold a shader, and both shaders report compiled.\<close>

definition stages_compiled :: "ShaderProgram \<Rightarrow> shader_store \<Rightarrow> bool" where
  "stages_compiled p st =
     (case mShaders p 0 of
        None \<Rightarrow> False
      | Some v \<Rightarrow>
     (case mShaders p 1 of
        None \<Rightarrow> False
      | Some f \<Rightarrow>
     (case st v of
        None \<Rightarrow> False
      | Some vs \<Rightarrow>
     (case st f of
        None \<Rightarrow> False
      | Some fs \<Rightarrow> mCompiled vs \<and> mCompiled fs))))"

text \<open>The shaders in the slots of a program are allocated.\<close>

definition slots_allocated :: "ShaderProgram \<Rightarrow> shader_store \<Rightarrow> bool" where
  "slots_allocated p st =
     ((case mShaders p 0 of None \<Rightarrow> True | Some v \<Rightarrow> st v \<noteq> None) \<and>
      (case mShaders p 1 of None \<Rightarrow> True | Some f \<Rightarrow> st f \<noteq> None))"

section \<open>Textures\<close>

text \<open>Modelled from the spec: textures are not part of the sources.  A texture carries
  the properties that the program reads and sets through plain accessors, and the state
  that \<open>SetState\<close> stores for each layer and level.\<close>

record TextureState =
  ts_width :: nat
  ts_height :: nat
  ts_format :: nat
  ts_type :: nat
  ts_alignment :: nat
  ts_pixels :: "8 word list"

record Texture = refObject +
  tx_target :: nat
  tx_vkFormat :: nat
  tx_vkImageUsage :: nat
  tx_vkImageTarget :: nat
  tx_explicitInternalFormat :: nat
  tx_explicitType :: nat
  tx_layersCount :: int
  tx_mipLevelsCount :: int
  tx_state :: "int \<times> int \<rightharpoonup> TextureState"
  tx_vkSampler :: VkHandle
  tx_vkImageLayout :: nat
  tx_vkImageView :: VkHandle

definition SetState :: "nat \<Rightarrow> nat \<Rightarrow> int \<Rightarrow> int \<Rightarrow> nat \<Rightarrow> nat \<Rightarrow> nat \<Rightarrow> 8 word list \<Rightarrow> Texture \<Rightarrow> Texture" where
  "SetState width height level layer format type alignment pixels t =
     t\<lparr>tx_state := (tx_state t)((layer, level) \<mapsto>
          \<lparr>ts_width = width, ts_height = height, ts_format = format, ts_type = type,
           ts_alignment = alignment, ts_pixels = pixels\<rparr>)\<rparr>"

definition Texture_new :: Texture where
  "Texture_new =
     \<lparr>mRefCount = 0, mMarkForDeletion = False, tx_target = 0, tx_vkFormat = 0, tx_vkImageUsage = 0,
      tx_vkImageTarget = 0, tx_explicitInternalFormat = 0, tx_explicitType = 0, tx_layersCount = 0,
      tx_mipLevelsCount = 0, tx_state = Map.empty, tx_vkSampler = VK_NULL_HANDLE,
      tx_vkImageLayout = 0, tx_vkImageView = VK_NULL_HANDLE\<rparr>"

record ImageRect =
  rect_x :: int
  rect_y :: int
  rect_width :: nat
  rect_height :: nat
  rect_numElements :: nat
  rect_elementSize :: nat
  rect_alignment :: nat

text \<open>The operations of textures and the format helpers whose code is outside the
  sources, taken as parameters: completeness, dimensions, native allocation, layout,
  sampler and state initialisation, the inverted Y origin of a rectangle, the copy of
  pixels to the host, and the conversions between GL formats.\<close>

record TextureApi =
  IsCompleted :: "Texture \<Rightarrow> bool"
  IsNPOTAccessCompleted :: "Texture \<Rightarrow> bool"
  GetWidth :: "Texture \<Rightarrow> nat"
  GetHeight :: "Texture \<Rightarrow> nat"
  Allocate :: "Texture \<Rightarrow> Texture"
  PrepareVkImageLayout :: "nat \<Rightarrow> Texture \<Rightarrow> Texture"
  CreateVkSampler :: "Texture \<Rightarrow> Texture"
  InitState :: "Texture \<Rightarrow> Texture"
  SetVkImageTiling :: "Texture \<Rightarrow> Texture"
  GetInvertedYOrigin :: "Texture \<Rightarrow> ImageRect \<Rightarrow> int"
  CopyPixelsToHost :: "Texture \<Rightarrow> ImageRect \<Rightarrow> ImageRect \<Rightarrow> nat \<Rightarrow> nat \<Rightarrow> nat \<Rightarrow> 8 word list"
  GetDefaultInternalAlignment :: nat
  GlInternalFormatTypeToNumElements :: "nat \<Rightarrow> nat \<Rightarrow> nat"
  GlTypeToElementSize :: "nat \<Rightarrow> nat"
  GlInternalFormatToGlFormat :: "nat \<Rightarrow> nat"
  GlInternalFormatToGlType :: "nat \<Rightarrow> nat"

text \<open>The textures by address, with the next free address for \<open>new Texture\<close>; and the
  cache manager, which keeps the buffers and textures handed to it.\<close>

record TextureHeap =
  th_objects :: "nat \<rightharpoonup> Texture"
  th_next :: nat

record CacheManager =
  cm_VBOs :: "BufferObject list"
  cm_Textures :: "nat list"

definition CacheTexture :: "nat \<Rightarrow> CacheManager \<Rightarrow> CacheManager" where
  "CacheTexture a cm = cm\<lparr>cm_Textures := cm_Textures cm @ [a]\<rparr>"

definition CacheVBO :: "BufferObject \<Rightarrow> CacheManager \<Rightarrow> CacheManager" where
  "CacheVBO b cm = cm\<lparr>cm_VBOs := cm_VBOs cm @ [b]\<rparr>"

text \<open>\<open>ResourceManager::IsTextureAttachedToFBO\<close>: some framebuffer has a texture as its
  colour attachment and that texture is the given one.\<close>

definition IsTextureAttachedToFBO :: "Context \<Rightarrow> nat option \<Rightarrow> bool" where
  "IsTextureAttachedToFBO ctx texture =
     list_ex (\<lambda>(ident, fb). fb_ColorAttachmentType fb = GL_TEXTURE \<and> texture = fb_ColorAttachmentTexture fb)
       (ctx_Framebuffers ctx)"

section \<open>Uniform writes and the descriptor update\<close>

text \<open>Modelled from the spec: \<open>SetUniformClientData\<close> and the interface's
  \<open>SetUniformSampler\<close> write the client-side copy of a uniform; a location is taken to be
  the index of the uniform.\<close>

definition SetUniformClientData :: "nat \<Rightarrow> 8 word list \<Rightarrow> ShaderResourceInterface \<Rightarrow> ShaderResourceInterface" where
  "SetUniformClientData location bytes sri =
     (if location < length (sri_uniforms sri)
      then sri\<lparr>sri_uniforms := (sri_uniforms sri)[location := (sri_uniforms sri ! location)\<lparr>u_data := bytes\<rparr>]\<rparr>
      else sri)"

definition sri_SetUniformSampler :: "nat \<Rightarrow> nat \<Rightarrow> ShaderResourceInterface \<Rightarrow> ShaderResourceInterface" where
  "sri_SetUniformSampler location textureUnit sri =
     (if location < length (sri_uniforms sri)
      then sri\<lparr>sri_uniforms := (sri_uniforms sri)[location := (sri_uniforms sri ! location)\<lparr>u_sampler := textureUnit\<rparr>]\<rparr>
      else sri)"

definition SetUniformData :: "nat \<Rightarrow> 8 word list \<Rightarrow> ShaderProgram \<Rightarrow> ShaderProgram" where
  "SetUniformData location bytes p =
     p\<lparr>mShaderResourceInterface := SetUniformClientData location bytes (mShaderResourceInterface p),
       mUpdateDescriptorData := True\<rparr>"

definition SetUniformSampler :: "nat \<Rightarrow> nat \<Rightarrow> ShaderProgram \<Rightarrow> ShaderProgram" where
  "SetUniformSampler location textureUnit p =
     p\<lparr>mShaderResourceInterface := sri_SetUniformSampler location textureUnit (mShaderResourceInterface p),
       mUpdateDescriptorSets := True\<rparr>"

datatype uniformWrite = WriteData nat "8 word list" | WriteSampler nat nat

fun uniform_write :: "uniformWrite \<Rightarrow> ShaderProgram \<Rightarrow> ShaderProgram" where
  "uniform_write (WriteData location bytes) p = SetUniformData location bytes p"
| "uniform_write (WriteSampler location textureUnit) p = SetUniformSampler location textureUnit p"

definition uniform_writes :: "uniformWrite list \<Rightarrow> ShaderProgram \<Rightarrow> ShaderProgram" where
  "uniform_writes ws p = fold uniform_write ws p"

definition is_sampler :: "uniform \<Rightarrow> bool" where
  "is_sampler u = (u_type u = GL_SAMPLER_2D \<or> u_type u = GL_SAMPLER_CUBE)"

text \<open>The texture bound to the unit a sampler uniform names.\<close>

definition GetActiveTexture :: "Context \<Rightarrow> uniform \<Rightarrow> nat option" where
  "GetActiveTexture ctx u =
     ctx_ActiveTexture ctx (if u_type u = GL_SAMPLER_2D then GL_TEXTURE_2D else GL_TEXTURE_CUBE_MAP) (u_sampler u)"

abbreviation (input) VK_FORMAT_R8G8B8A8_UNORM :: nat where "VK_FORMAT_R8G8B8A8_UNORM \<equiv> 37"
abbreviation (input) VK_IMAGE_LAYOUT_SHADER_READ_ONLY_OPTIMAL :: nat where "VK_IMAGE_LAYOUT_SHADER_READ_ONLY_OPTIMAL \<equiv> 5"
abbreviation (input) VK_IMAGE_USAGE_SAMPLED_TRANSFER_DST :: nat where "VK_IMAGE_USAGE_SAMPLED_TRANSFER_DST \<equiv> 6"
abbreviation (input) VK_IMAGE_TARGET_2D :: nat where "VK_IMAGE_TARGET_2D \<equiv> 0"

text \<open>The first case of the sampler resolution: a texture that is not complete gets a
  1x1 opaque black pixel on every level of every layer and, when that completes it, is
  allocated and put into the shader-read layout.\<close>

definition placeholder :: "TextureApi \<Rightarrow> Texture \<Rightarrow> Texture" where
  "placeholder api t =
     (let t1 = fold (\<lambda>layer t'.
                  fold (\<lambda>level. SetState 1 1 (int level) (int layer) GL_RGBA GL_UNSIGNED_BYTE
                                   (GetDefaultInternalAlignment api) [0, 0, 0, 255])
                       [0..<nat (tx_mipLevelsCount t')] t')
                [0..<nat (tx_layersCount t)] t
      in if IsCompleted api t1
         then PrepareVkImageLayout api VK_IMAGE_LAYOUT_SHADER_READ_ONLY_OPTIMAL
                (Allocate api (t1\<lparr>tx_vkFormat := VK_FORMAT_R8G8B8A8_UNORM\<rparr>))
         else t1)"

text \<open>The second case: the pixels of a texture that is a colour attachment are copied,
  from the rectangle with the inverted Y origin, into a new texture.  The result is the
  new texture before its allocation.\<close>

definition inverted_copy :: "TextureApi \<Rightarrow> Texture \<Rightarrow> Texture" where
  "inverted_copy api t =
     (let dstInternalFormat = tx_explicitInternalFormat t;
          rect = \<lparr>rect_x = 0, rect_y = 0, rect_width = GetWidth api t, rect_height = GetHeight api t,
                  rect_numElements = GlInternalFormatTypeToNumElements api dstInternalFormat (tx_explicitType t),
                  rect_elementSize = GlTypeToElementSize api (tx_explicitType t),
                  rect_alignment = GetDefaultInternalAlignment api\<rparr>;
          srcRect = rect\<lparr>rect_y := GetInvertedYOrigin api t rect\<rparr>;
          dstData = CopyPixelsToHost api t srcRect rect 0 0 dstInternalFormat;
          new = InitState api (SetVkImageTiling api
                  (Texture_new\<lparr>tx_target := GL_TEXTURE_2D,
                               tx_vkImageUsage := VK_IMAGE_USAGE_SAMPLED_TRANSFER_DST\<rparr>)
                  \<lparr>tx_vkImageTarget := VK_IMAGE_TARGET_2D\<rparr>)
      in SetState (GetWidth api t) (GetHeight api t) 0 0
           (GlInternalFormatToGlFormat api dstInternalFormat) (GlInternalFormatToGlType api dstInternalFormat)
           (GetDefaultInternalAlignment api) dstData
           (new\<lparr>tx_vkFormat := tx_vkFormat t\<rparr>))"

text \<open>The body of the loops of \<open>UpdateSamplerDescriptors\<close> for one element of one sampler
  uniform: resolve the texture in the three cases, give the resolved texture a sampler
  and read the descriptor from it.  The result is the descriptor with the heap and the
  cache afterwards.\<close>

definition sampler_descriptor ::
  "TextureApi \<Rightarrow> Context \<Rightarrow> uniform \<Rightarrow> TextureHeap \<Rightarrow> CacheManager
     \<Rightarrow> (VkDescriptorImageInfo \<times> TextureHeap \<times> CacheManager) option" where
  "sampler_descriptor api ctx u h cm =
     (case GetActiveTexture ctx u of
        None \<Rightarrow> None
      | Some a \<Rightarrow>
     (case th_objects h a of
        None \<Rightarrow> None
      | Some t \<Rightarrow>
          (let (r, h1, cm1) =
                 (if \<not> IsCompleted api t \<or> \<not> IsNPOTAccessCompleted api t
                  then (a, h\<lparr>th_objects := (th_objects h)(a \<mapsto> placeholder api t)\<rparr>, cm)
                  else if IsTextureAttachedToFBO ctx (Some a)
                  then (let inverted_texture = inverted_copy api t;
                            n = th_next h
                        in if IsCompleted api inverted_texture
                           then (n, \<lparr>th_objects = (th_objects h)(n \<mapsto>
                                          PrepareVkImageLayout api VK_IMAGE_LAYOUT_SHADER_READ_ONLY_OPTIMAL
                                            (Allocate api inverted_texture)),
                                      th_next = Suc n\<rparr>,
                                 CacheTexture n cm)
                           else (n, \<lparr>th_objects = (th_objects h)(n \<mapsto> inverted_texture), th_next = Suc n\<rparr>, cm))
                  else (a, h, cm))
           in (case th_objects h1 r of
                 None \<Rightarrow> None
               | Some rt \<Rightarrow>
                   (let rt1 = CreateVkSampler api rt
                    in Some (\<lparr>di_sampler = tx_vkSampler rt1, di_imageLayout = tx_vkImageLayout rt1,
                               di_imageView = tx_vkImageView rt1, di_texture = r\<rparr>,
                             h1\<lparr>th_objects := (th_objects h1)(r \<mapsto> rt1)\<rparr>, cm1))))))"

text \<open>The state of the loops over the sampler uniforms: the descriptors written so far
  (\<open>samp\<close> is their number), the first descriptor of each block, the heap and the cache.
  A write past the end of the array of \<open>nSamplers\<close> descriptors is out of range.\<close>

type_synonym sampler_loop = "VkDescriptorImageInfo list \<times> (nat \<times> nat) list \<times> TextureHeap \<times> CacheManager"

fun sampler_elements ::
  "TextureApi \<Rightarrow> Context \<Rightarrow> nat \<Rightarrow> uniform \<Rightarrow> nat list \<Rightarrow> sampler_loop \<Rightarrow> sampler_loop option" where
  "sampler_elements api ctx nSamplers u [] s = Some s"
| "sampler_elements api ctx nSamplers u (j # js) (descs, blockmap, h, cm) =
     (case sampler_descriptor api ctx u h cm of
        None \<Rightarrow> None
      | Some (d, h1, cm1) \<Rightarrow>
          if length descs \<ge> nSamplers then None
          else sampler_elements api ctx nSamplers u js
                 (descs @ [d],
                  (if j = 0 then stdmap_set (u_blockIndex u) (length descs) blockmap else blockmap),
                  h1, cm1))"

fun sampler_uniforms ::
  "TextureApi \<Rightarrow> Context \<Rightarrow> nat \<Rightarrow> uniform list \<Rightarrow> sampler_loop \<Rightarrow> sampler_loop option" where
  "sampler_uniforms api ctx nSamplers [] s = Some s"
| "sampler_uniforms api ctx nSamplers (u # us) s =
     (if is_sampler u
      then (case sampler_elements api ctx nSamplers u [0..<nat (u_arraySize u)] s of
              None \<Rightarrow> None
            | Some s1 \<Rightarrow> sampler_uniforms api ctx nSamplers us s1)
      else sampler_uniforms api ctx nSamplers us s)"

text \<open>\<open>nSamplers\<close>: for each opaque block, the array size of the uniform that has the
  index of the block.\<close>

fun count_samplers :: "ShaderResourceInterface \<Rightarrow> nat list \<Rightarrow> int option" where
  "count_samplers sri [] = Some 0"
| "count_samplers sri (i # is) =
     (if ub_opaque (sri_blocks sri ! i)
      then (if i < length (sri_uniforms sri)
            then map_option (\<lambda>n. u_arraySize (sri_uniforms sri ! i) + n) (count_samplers sri is)
            else None)
      else count_samplers sri is)"

definition zero_descriptor :: VkDescriptorImageInfo where
  "zero_descriptor = \<lparr>di_sampler = 0, di_imageLayout = 0, di_imageView = 0, di_texture = 0\<rparr>"

text \<open>The descriptor write for block \<open>i\<close>.\<close>

definition block_write :: "ShaderProgram \<Rightarrow> (nat \<times> nat) list \<Rightarrow> nat \<Rightarrow> VkWriteDescriptorSet option" where
  "block_write p blockmap i =
     (let b = sri_blocks (mShaderResourceInterface p) ! i
      in if ub_opaque b
         then (if i < length (sri_uniforms (mShaderResourceInterface p))
               then Some \<lparr>wr_dstSet = mVkDescSet p, wr_dstBinding = ub_binding b,
                          wr_descriptorType = VK_DESCRIPTOR_TYPE_COMBINED_IMAGE_SAMPLER,
                          wr_descriptorCount = u_arraySize (sri_uniforms (mShaderResourceInterface p) ! i),
                          wr_pImageInfo = Some (case map_of blockmap i of None \<Rightarrow> 0 | Some k \<Rightarrow> k),
                          wr_pBufferInfo = None\<rparr>
               else None)
         else Some \<lparr>wr_dstSet = mVkDescSet p, wr_dstBinding = ub_binding b,
                    wr_descriptorType = VK_DESCRIPTOR_TYPE_UNIFORM_BUFFER, wr_descriptorCount = 1,
                    wr_pImageInfo = None, wr_pBufferInfo = Some (ub_buffer b)\<rparr>)"

fun block_writes :: "ShaderProgram \<Rightarrow> (nat \<times> nat) list \<Rightarrow> nat list \<Rightarrow> VkWriteDescriptorSet list option" where
  "block_writes p blockmap [] = Some []"
| "block_writes p blockmap (i # is) =
     (case block_write p blockmap i of
        None \<Rightarrow> None
      | Some w \<Rightarrow> map_option ((#) w) (block_writes p blockmap is))"

text \<open>\<open>ShaderProgram::UpdateSamplerDescriptors\<close>: the sampler descriptors are gathered,
  one write for each live uniform block is built, and all writes go to the device in one
  \<open>vkUpdateDescriptorSets\<close> call.\<close>

definition UpdateSamplerDescriptors ::
  "glove_config \<Rightarrow> TextureApi \<Rightarrow> Context \<Rightarrow> ShaderProgram \<Rightarrow> TextureHeap \<Rightarrow> CacheManager \<Rightarrow> VkDevice
     \<Rightarrow> (ShaderProgram \<times> TextureHeap \<times> CacheManager \<times> VkDevice) option" where
  "UpdateSamplerDescriptors cfg api ctx p h cm dev =
     (let sri = mShaderResourceInterface p;
          nLiveUniformBlocks = GetLiveUniformBlocks sri
      in case count_samplers sri [0..<nLiveUniformBlocks] of
           None \<Rightarrow> None
         | Some nSamplers \<Rightarrow>
        (case (if nSamplers \<noteq> 0
               then sampler_uniforms api ctx (nat nSamplers) (sri_uniforms sri) ([], [], h, cm)
               else Some ([], [], h, cm)) of
           None \<Rightarrow> None
         | Some (descs, blockmap, h1, cm1) \<Rightarrow>
             if \<not> assert_passes cfg (int (length descs) = nSamplers) then None
             else
               (case block_writes p blockmap [0..<nLiveUniformBlocks] of
                  None \<Rightarrow> None
                | Some writes \<Rightarrow>
                    Some (p\<lparr>mUpdateDescriptorSets := False\<rparr>, h1, cm1,
                          dev\<lparr>vk_log := vk_log dev @
                                [vkUpdateDescriptorSets writes
                                   (descs @ replicate (nat nSamplers - length descs) zero_descriptor)]\<rparr>))))"

text \<open>The scan of \<open>UpdateDescriptorSet\<close> for a sampler whose texture is a colour attachment
  of a framebuffer.\<close>

definition sampler_attached_to_fbo :: "Context \<Rightarrow> ShaderResourceInterface \<Rightarrow> bool" where
  "sampler_attached_to_fbo ctx sri =
     list_ex (\<lambda>u. is_sampler u \<and>
                  list_ex (\<lambda>j. IsTextureAttachedToFBO ctx (GetActiveTexture ctx u)) [0..<nat (u_arraySize u)])
       (sri_uniforms sri)"

text \<open>\<open>ShaderProgram::UpdateDescriptorSet\<close>.  \<open>flush\<close> stands for the interface's
  \<open>UpdateUniformBufferData\<close>, which is outside the sources: it returns the interface after
  the transfer of the client data and whether it allocated a new buffer object.\<close>

definition UpdateDescriptorSet ::
  "glove_config \<Rightarrow> TextureApi \<Rightarrow> (ShaderResourceInterface \<Rightarrow> ShaderResourceInterface \<times> bool) \<Rightarrow> Context
     \<Rightarrow> ShaderProgram \<Rightarrow> TextureHeap \<Rightarrow> CacheManager \<Rightarrow> VkDevice
     \<Rightarrow> (ShaderProgram \<times> TextureHeap \<times> CacheManager \<times> VkDevice) option" where
  "UpdateDescriptorSet cfg api flush ctx p h cm dev =
     (if \<not> assert_passes cfg (mVkDescSet p \<noteq> VK_NULL_HANDLE) then None
      else if GetLiveUniformBlocks (mShaderResourceInterface p) = 0 then Some (p, h, cm, dev)
      else
        (let p1 = (if mUpdateDescriptorData p
                   then p\<lparr>mShaderResourceInterface := fst (flush (mShaderResourceInterface p)),
                          mUpdateDescriptorSets :=
                            (if snd (flush (mShaderResourceInterface p)) then True else mUpdateDescriptorSets p),
                          mUpdateDescriptorData := False\<rparr>
                   else p);
             p2 = (if sampler_attached_to_fbo ctx (mShaderResourceInterface p1)
                   then p1\<lparr>mUpdateDescriptorSets := True\<rparr> else p1)
         in if \<not> mUpdateDescriptorSets p2 then Some (p2, h, cm, dev)
            else (case UpdateSamplerDescriptors cfg api ctx p2 h cm dev of
                    None \<Rightarrow> None
                  | Some (p3, h3, cm3, dev3) \<Rightarrow> Some (p3\<lparr>mUpdateDescriptorSets := False\<rparr>, h3, cm3, dev3))))"

text \<open>The \<open>vkUpdateDescriptorSets\<close> calls of a log.\<close>

fun is_descriptor_update :: "vkCall \<Rightarrow> bool" where
  "is_descriptor_update (vkUpdateDescriptorSets writes descs) = True"
| "is_descriptor_update c = False"

definition descriptor_updates :: "vkCall list \<Rightarrow> vkCall list" where
  "descriptor_updates log = filter is_descriptor_update log"

text \<open>Whether \<open>UpdateDescriptorSet\<close> finds the descriptor sets dirty: the flag was set
  (a fresh link, a sampler write), or the transfer of dirty uniform data allocated a new
  buffer object, or a sampler's texture is a colour attachment of a framebuffer.\<close>

definition descriptor_sets_dirty ::
  "(ShaderResourceInterface \<Rightarrow> ShaderResourceInterface \<times> bool) \<Rightarrow> Context \<Rightarrow> ShaderProgram \<Rightarrow> bool" where
  "descriptor_sets_dirty flush ctx p =
     (mUpdateDescriptorSets p \<or>
      (mUpdateDescriptorData p \<and> snd (flush (mShaderResourceInterface p))) \<or>
      sampler_attached_to_fbo ctx
        (if mUpdateDescriptorData p then fst (flush (mShaderResourceInterface p))
         else mShaderResourceInterface p))"

fun is_sampler_write :: "uniformWrite \<Rightarrow> bool" where
  "is_sampler_write (WriteSampler location textureUnit) = True"
| "is_sampler_write (WriteData location bytes) = False"

text \<open>The uniform that each gathered descriptor belongs to: the sampler uniforms in
  order, each as many times as it has elements.\<close>

definition sampler_slots :: "uniform list \<Rightarrow> uniform list" where
  "sampler_slots us = concat (map (\<lambda>u. replicate (nat (u_arraySize u)) u) (filter is_sampler us))"

text \<open>The texture that the descriptor is read from when the pixels of a colour attachment
  were copied: the copy, allocated and in the shader-read layout when it is complete, with
  its sampler created.\<close>

definition attachment_copy :: "TextureApi \<Rightarrow> Texture \<Rightarrow> Texture" where
  "attachment_copy api t =
     CreateVkSampler api
       (if IsCompleted api (inverted_copy api t)
        then PrepareVkImageLayout api VK_IMAGE_LAYOUT_SHADER_READ_ONLY_OPTIMAL (Allocate api (inverted_copy api t))
        else inverted_copy api t)"

text \<open>The case of the claim: the uniform names a unit whose texture \<open>t\<close>, at address \<open>a\<close>,
  is complete, also for non-power-of-two access, and is a colour attachment.  And what
  holds of the descriptor gathered for it: it is read from a texture created after the
  update began, which is the copy and is in the cache exactly when the copy is complete.\<close>

definition copy_source :: "TextureApi \<Rightarrow> Context \<Rightarrow> TextureHeap \<Rightarrow> uniform \<Rightarrow> nat \<Rightarrow> Texture \<Rightarrow> bool" where
  "copy_source api ctx h u a t \<longleftrightarrow>
     GetActiveTexture ctx u = Some a \<and> th_objects h a = Some t \<and> IsCompleted api t \<and>
     IsNPOTAccessCompleted api t \<and> IsTextureAttachedToFBO ctx (Some a)"

definition reads_copy :: "TextureApi \<Rightarrow> nat \<Rightarrow> Texture \<Rightarrow> VkDescriptorImageInfo \<Rightarrow> TextureHeap \<Rightarrow> CacheManager \<Rightarrow> bool" where
  "reads_copy api n0 t d h cm \<longleftrightarrow>
     n0 \<le> di_texture d \<and> di_texture d < th_next h \<and>
     th_objects h (di_texture d) = Some (attachment_copy api t) \<and>
     di_sampler d = tx_vkSampler (attachment_copy api t) \<and>
     di_imageLayout d = tx_vkImageLayout (attachment_copy api t) \<and>
     di_imageView d = tx_vkImageView (attachment_copy api t) \<and>
     (di_texture d \<in> set (cm_Textures cm) \<longleftrightarrow> IsCompleted api (inverted_copy api t))"

text \<open>Invariants of the loops over the samplers.  The heap and the cache only hold
  addresses below the next free one; and from one state of the loops to a later one the
  next free address does not decrease, the textures created since the update began and
  the cache entries below the earlier next free address stay, and the textures of the
  case above are as they were when the update began.\<close>

definition heap_bounded :: "TextureHeap \<Rightarrow> CacheManager \<Rightarrow> bool" where
  "heap_bounded h cm \<longleftrightarrow>
     (\<forall>b\<in>dom (th_objects h). b < th_next h) \<and> (\<forall>b\<in>set (cm_Textures cm). b < th_next h)"

definition heap_step :: "TextureApi \<Rightarrow> Context \<Rightarrow> TextureHeap \<Rightarrow> TextureHeap \<Rightarrow> CacheManager \<Rightarrow> TextureHeap \<Rightarrow> CacheManager \<Rightarrow> bool" where
  "heap_step api ctx h0 h cm h1 cm1 \<longleftrightarrow>
     heap_bounded h1 cm1 \<and> th_next h \<le> th_next h1 \<and>
     (\<forall>x. th_next h0 \<le> x \<and> x < th_next h \<longrightarrow> th_objects h1 x = th_objects h x) \<and>
     (\<forall>x. x < th_next h \<longrightarrow> (x \<in> set (cm_Textures cm1) \<longleftrightarrow> x \<in> set (cm_Textures cm))) \<and>
     (\<forall>u a t. copy_source api ctx h0 u a t \<longrightarrow> th_objects h1 a = Some t)"

text \<open>The descriptors that each \<open>vkUpdateDescriptorSets\<close> call of a log submits.\<close>

definition submitted_descriptors :: "vkCall list \<Rightarrow> VkDescriptorImageInfo list list" where
  "submitted_descriptors log =
     map (\<lambda>c. case c of vkUpdateDescriptorSets writes descs \<Rightarrow> descs | _ \<Rightarrow> []) (descriptor_updates log)"

section \<open>Index buffers\<close>

text \<open>Bytes in memory are in little-endian order, as on the platforms the program is built
  for.  \<open>u16_at bs i\<close> is element \<open>i\<close> of \<open>bs\<close> read as an array of \<open>uint16_t\<close>, and
  \<open>u32_at bs off\<close> is the \<open>uint32_t\<close> at byte offset \<open>off\<close>.\<close>

definition le16 :: "16 word \<Rightarrow> 8 word list" where
  "le16 w = [ucast w, ucast (drop_bit 8 w)]"

definition le32 :: "32 word \<Rightarrow> 8 word list" where
  "le32 w = [ucast w, ucast (drop_bit 8 w), ucast (drop_bit 16 w), ucast (drop_bit 24 w)]"

definition u16_at :: "8 word list \<Rightarrow> nat \<Rightarrow> 16 word" where
  "u16_at bs i = ucast (bs ! (2 * i)) OR push_bit 8 (ucast (bs ! (2 * i + 1)))"

definition u32_at :: "8 word list \<Rightarrow> nat \<Rightarrow> 32 word" where
  "u32_at bs off =
     ucast (bs ! off) OR push_bit 8 (ucast (bs ! (off + 1))) OR
     push_bit 16 (ucast (bs ! (off + 2))) OR push_bit 24 (ucast (bs ! (off + 3)))"

text \<open>Modelled from the spec: \<open>BufferObject::GetData\<close> and \<open>Allocate\<close> are outside the
  sources.  \<open>GetData sz offset\<close> copies \<open>sz\<close> bytes from \<open>offset\<close> on and is out of
  range past the end of the buffer; \<open>Allocate sz data\<close> gives the buffer a new native
  handle and the first \<open>sz\<close> bytes of \<open>data\<close>.\<close>

definition GetData :: "nat \<Rightarrow> nat \<Rightarrow> BufferObject \<Rightarrow> 8 word list option" where
  "GetData sz offset b =
     (if offset + sz \<le> length (bo_data b) then Some (take sz (drop offset (bo_data b))) else None)"

definition BufferObject_Allocate :: "nat \<Rightarrow> nat \<Rightarrow> 8 word list \<Rightarrow> VkDevice \<Rightarrow> (BufferObject \<times> VkDevice) option" where
  "BufferObject_Allocate target sz data dev =
     (if sz \<le> length data
      then Some (\<lparr>bo_target = target, bo_vkBuffer = vk_new_handle dev, bo_data = take sz data\<rparr>,
                 dev\<lparr>vk_last := vk_new_handle dev\<rparr>)
      else None)"

text \<open>\<open>AllocateExplicitIndexBuffer\<close>: the current explicit index buffer, if any, goes to the
  cache; a new one is created and allocated with the data.\<close>

definition AllocateExplicitIndexBuffer ::
  "8 word list \<Rightarrow> nat \<Rightarrow> ShaderProgram \<Rightarrow> CacheManager \<Rightarrow> VkDevice
     \<Rightarrow> (BufferObject \<times> ShaderProgram \<times> CacheManager \<times> VkDevice) option" where
  "AllocateExplicitIndexBuffer data sz p cm dev =
     (let cm1 = (case mExplicitIbo p of None \<Rightarrow> cm | Some old \<Rightarrow> CacheVBO old cm)
      in case BufferObject_Allocate GL_ELEMENT_ARRAY_BUFFER sz data dev of
           None \<Rightarrow> None
         | Some (ibo, dev1) \<Rightarrow> Some (ibo, p\<lparr>mExplicitIbo := Some ibo\<rparr>, cm1, dev1))"

text \<open>Modelled from the spec: \<open>ConvertBuffer<uint8_t, uint16_t>\<close> is outside the sources;
  it widens each of the first \<open>elementCount\<close> bytes to an unsigned short.\<close>

definition ConvertBuffer_u8_u16 :: "8 word list \<Rightarrow> nat \<Rightarrow> 16 word list option" where
  "ConvertBuffer_u8_u16 srcData elementCount =
     (if elementCount \<le> length srcData then Some (map ucast (take elementCount srcData)) else None)"

definition ConvertIndexBufferToUint16 ::
  "8 word list \<Rightarrow> nat \<Rightarrow> ShaderProgram \<Rightarrow> CacheManager \<Rightarrow> VkDevice
     \<Rightarrow> (BufferObject \<times> ShaderProgram \<times> CacheManager \<times> VkDevice) option" where
  "ConvertIndexBufferToUint16 srcData elementCount p cm dev =
     (case ConvertBuffer_u8_u16 srcData elementCount of
        None \<Rightarrow> None
      | Some convertedIndicesU16 \<Rightarrow>
          AllocateExplicitIndexBuffer (concat (map le16 convertedIndicesU16)) (elementCount * 2) p cm dev)"

text \<open>\<open>LineLoopConversion\<close>: the first element is copied over the last.\<close>

definition LineLoopConversion :: "8 word list \<Rightarrow> nat \<Rightarrow> nat \<Rightarrow> 8 word list option" where
  "LineLoopConversion data indexCount elementByteSize =
     (if indexCount = 0 \<or> length data < indexCount * elementByteSize then None
      else Some (take ((indexCount - 1) * elementByteSize) data @ take elementByteSize data @
                 drop (indexCount * elementByteSize) data))"

text \<open>\<open>GetMaxIndex\<close>: \<open>actualSize\<close> bytes of the buffer from \<open>offset\<close> on are read as an
  array of \<open>uint16_t\<close>, whatever the element type, and the largest of the first
  \<open>indexCount\<close> elements is returned.  With no index the source reads outside the array.\<close>

definition GetMaxIndex :: "BufferObject \<Rightarrow> nat \<Rightarrow> nat \<Rightarrow> nat \<Rightarrow> 32 word option" where
  "GetMaxIndex ibo indexCount actualSize offset =
     (case GetData actualSize offset ibo of
        None \<Rightarrow> None
      | Some srcData \<Rightarrow>
          if indexCount = 0 \<or> actualSize < 2 * indexCount then None
          else Some (ucast (fold (\<lambda>i maxIndex. if maxIndex < u16_at srcData i then u16_at srcData i else maxIndex)
                              (rev [1..<indexCount]) (u16_at srcData 0))))"

text \<open>The index data of a draw call: an offset into the bound index buffer, or the
  client's bytes when no index buffer is bound.\<close>

datatype index_source = BoundIndexBuffer BufferObject nat | ClientIndices "8 word list"

text \<open>\<open>PrepareIndexBufferObject\<close>.  The result is \<open>firstIndex\<close> and \<open>maxIndex\<close> when the
  buffer was validated, with the program, the cache and the device afterwards.\<close>

definition PrepareIndexBufferObject ::
  "glove_config \<Rightarrow> Context \<Rightarrow> nat \<Rightarrow> nat \<Rightarrow> index_source \<Rightarrow> ShaderProgram \<Rightarrow> CacheManager \<Rightarrow> VkDevice
     \<Rightarrow> ((nat \<times> 32 word) option \<times> ShaderProgram \<times> CacheManager \<times> VkDevice) option" where
  "PrepareIndexBufferObject cfg ctx indexCount type indices p0 cm dev =
     (let p = p0\<lparr>mActiveIndexVkBuffer := VK_NULL_HANDLE\<rparr>;
          actualSize = indexCount * (if type = GL_UNSIGNED_INT then 4 else 2)
      in case (case indices of
                 BoundIndexBuffer bound offset \<Rightarrow>
                   if type = GL_UNSIGNED_BYTE
                   then (if \<not> assert_passes cfg (indexCount \<le> length (bo_data bound)) then None
                         else (case GetData indexCount offset bound of
                                 None \<Rightarrow> None
                               | Some srcData \<Rightarrow>
                                   map_option (Pair 0) (ConvertIndexBufferToUint16 srcData indexCount p cm dev)))
                   else Some (offset, bound, p, cm, dev)
               | ClientIndices bytes \<Rightarrow>
                   if type = GL_UNSIGNED_BYTE
                   then map_option (Pair 0) (ConvertIndexBufferToUint16 bytes indexCount p cm dev)
                   else map_option (Pair 0) (AllocateExplicitIndexBuffer bytes actualSize p cm dev)) of
           None \<Rightarrow> None
         | Some (offset, ibo, p1, cm1, dev1) \<Rightarrow>
        (case (if IsModeLineLoop ctx
               then (let sizeOne = (if type = GL_UNSIGNED_INT then 4 else 2)
                     in if actualSize < sizeOne then None
                        else (case GetData (actualSize - sizeOne) offset ibo of
                                None \<Rightarrow> None
                              | Some copied \<Rightarrow>
                                  (case LineLoopConversion (copied @ replicate sizeOne 0) indexCount sizeOne of
                                     None \<Rightarrow> None
                                   | Some srcData \<Rightarrow> AllocateExplicitIndexBuffer srcData actualSize p1 cm1 dev1)))
               else Some (ibo, p1, cm1, dev1)) of
           None \<Rightarrow> None
         | Some (ibo2, p2, cm2, dev2) \<Rightarrow>
             (case GetMaxIndex ibo2 indexCount actualSize offset of
                None \<Rightarrow> None
              | Some maxIndex \<Rightarrow>
                  Some (Some (offset, maxIndex), p2\<lparr>mActiveIndexVkBuffer := bo_vkBuffer ibo2\<rparr>, cm2, dev2))))"

text \<open>The largest index that index data of a given element type refers to: the data is
  read as \<open>indexCount\<close> elements of one, two or four bytes.\<close>

definition index_at :: "nat \<Rightarrow> 8 word list \<Rightarrow> nat \<Rightarrow> nat" where
  "index_at type bytes i =
     (if type = GL_UNSIGNED_BYTE then unat (bytes ! i)
      else if type = GL_UNSIGNED_INT then unat (u32_at bytes (4 * i))
      else unat (u16_at bytes i))"

definition true_max_index :: "nat \<Rightarrow> 8 word list \<Rightarrow> nat \<Rightarrow> nat" where
  "true_max_index type bytes indexCount = fold max (map (index_at type bytes) [0..<indexCount]) 0"

section \<open>The program binary\<close>

definition spv_bytes :: "32 word list \<Rightarrow> 8 word list" where
  "spv_bytes ws = concat (map le32 ws)"

definition words_at :: "8 word list \<Rightarrow> nat \<Rightarrow> nat \<Rightarrow> 32 word list" where
  "words_at mem off n = map (\<lambda>k. u32_at mem (off + 4 * k)) [0..<n]"

text \<open>\<open>SetShaderModules\<close>: with both stages attached, the native modules are created and
  the size and the data pointer of the SPIR-V of each shader are recorded.  The data
  pointer is kept as the address of the shader it points into.  \<open>CreateVkShaderModule\<close>
  is outside the sources; it is taken to return a new handle.\<close>

definition SetShaderModules :: "ShaderProgram \<Rightarrow> shader_store \<Rightarrow> VkDevice \<Rightarrow> (ShaderProgram \<times> VkDevice) option" where
  "SetShaderModules p st dev =
     (let count = (if mShaders p 0 \<noteq> None then 1 else 0) + (if mShaders p 1 \<noteq> None then 1 else (0::nat));
          p1 = p\<lparr>mStageCount := count\<rparr>;
          m1 = vk_new_handle dev;
          dev1 = dev\<lparr>vk_last := m1\<rparr>;
          m2 = vk_new_handle dev1;
          dev2 = dev1\<lparr>vk_last := m2\<rparr>
      in if count = 1
         then (case (case mShaders p 0 of None \<Rightarrow> mShaders p 1 | Some v \<Rightarrow> Some v) of
                 None \<Rightarrow> None
               | Some a \<Rightarrow>
                   if st a = None then None
                   else Some (p1\<lparr>mVkShaderModules := (mVkShaderModules p1)(0 := m1),
                                 mVkShaderStages := (mVkShaderStages p1)
                                    (0 := (if mShaders p 0 \<noteq> None then VK_SHADER_STAGE_VERTEX_BIT
                                           else VK_SHADER_STAGE_FRAGMENT_BIT))\<rparr>, dev1))
         else if count = 2
         then (case (mShaders p 0, mShaders p 1) of
                 (Some v, Some f) \<Rightarrow>
                   (case (st v, st f) of
                      (Some vs, Some fs) \<Rightarrow>
                        Some (p1\<lparr>mVkShaderModules := (mVkShaderModules p1)(0 := m1, 1 := m2),
                                 mShaderSPVsize := (mShaderSPVsize p1)(0 := length (mSpv vs), 1 := length (mSpv fs)),
                                 mShaderSPVdata := (mShaderSPVdata p1)(0 := Some v, 1 := Some f),
                                 mVkShaderStages := (mVkShaderStages p1)
                                    (0 := VK_SHADER_STAGE_VERTEX_BIT, 1 := VK_SHADER_STAGE_FRAGMENT_BIT)\<rparr>, dev2)
                    | _ \<Rightarrow> None)
               | _ \<Rightarrow> None)
         else Some (p1, dev))"




text \<open>\<open>DeserializeShadersSpirv\<close> on the memory \<open>mem\<close> from byte offset \<open>off\<close>: each length is
  read and that many bytes, as words, are appended to the SPIR-V of the attached shader.
  A read past the end of the memory is out of range.\<close>

definition read_spirv_block :: "8 word list \<Rightarrow> nat \<Rightarrow> (32 word list \<times> nat) option" where
  "read_spirv_block mem off =
     (if off + 4 \<le> length mem
      then (let spirvSize = unat (u32_at mem off)
            in if off + 4 + 4 * (spirvSize div 4) \<le> length mem
               then Some (words_at mem (off + 4) (spirvSize div 4), spirvSize)
               else None)
      else None)"

definition DeserializeShadersSpirv ::
  "8 word list \<Rightarrow> nat \<Rightarrow> ShaderProgram \<Rightarrow> shader_store \<Rightarrow> (nat \<times> shader_store) option" where
  "DeserializeShadersSpirv mem off p st =
     (case (mShaders p 0, mShaders p 1) of
        (Some v, Some f) \<Rightarrow>
          if st v = None \<or> st f = None then None
          else
            (case read_spirv_block mem off of
               None \<Rightarrow> None
             | Some (vsWords, vsSpirvSize) \<Rightarrow>
            (case read_spirv_block mem (off + 4 + vsSpirvSize) of
               None \<Rightarrow> None
             | Some (fsWords, fsSpirvSize) \<Rightarrow>
                 (let st1 = (case st v of None \<Rightarrow> st | Some vs \<Rightarrow> st(v \<mapsto> vs\<lparr>mSpv := mSpv vs @ vsWords\<rparr>));
                      st2 = (case st1 f of None \<Rightarrow> st1 | Some fs \<Rightarrow> st1(f \<mapsto> fs\<lparr>mSpv := mSpv fs @ fsWords\<rparr>))
                  in Some ((8 + vsSpirvSize + fsSpirvSize) mod 2 ^ 32, st2))))
      | _ \<Rightarrow> None)"

text \<open>Modelled from the spec: the pipeline cache is created from \<open>sz\<close> bytes of initial
  data at byte offset \<open>off\<close> of the memory; it gets a new native handle.\<close>

definition PipelineCache_Create :: "8 word list \<Rightarrow> nat \<Rightarrow> nat \<Rightarrow> VkDevice \<Rightarrow> (PipelineCache \<times> VkDevice) option" where
  "PipelineCache_Create mem off sz dev =
     (if off + sz \<le> length mem
      then Some (\<lparr>pc_handle = vk_new_handle dev, pc_data = take sz (drop off mem)\<rparr>,
                 dev\<lparr>vk_last := vk_new_handle dev\<rparr>)
      else None)"

text \<open>\<open>UsePrecompiledBinary\<close> on the memory \<open>mem\<close> that \<open>binary\<close> points to.  \<open>deserialize\<close>
  stands for the compiler's \<open>DeserializeReflection\<close>: it returns the reflection it read
  and the number of bytes it took.  The pipeline cache is created from
  \<open>binarySize - reflectionOffset\<close> bytes that start after the reflection and the SPIR-V.\<close>

definition UsePrecompiledBinary ::
  "(8 word list \<Rightarrow> (ShaderReflection \<times> nat) option) \<Rightarrow> 8 word list \<Rightarrow> nat
     \<Rightarrow> ShaderProgram \<Rightarrow> shader_store \<Rightarrow> ShaderCompiler \<Rightarrow> VkDevice
     \<Rightarrow> (ShaderProgram \<times> shader_store \<times> ShaderCompiler \<times> VkDevice) option" where
  "UsePrecompiledBinary deserialize mem binarySize p st sc dev =
     (let p1 = ResetVulkanVertexInput (p\<lparr>mLinked := True\<rparr>)
      in case deserialize mem of
           None \<Rightarrow> None
         | Some (reflection, reflectionOffset) \<Rightarrow>
        (case DeserializeShadersSpirv mem reflectionOffset p1 st of
           None \<Rightarrow> None
         | Some (spirvOffset, st1) \<Rightarrow>
             (let (p2, sc2, dev2) =
                    BuildShaderResourceInterface p1
                      ((sc_call DeserializeReflection sc)\<lparr>sc_reflection := reflection\<rparr>) dev
              in if binarySize < reflectionOffset then None
                 else (case PipelineCache_Create mem (reflectionOffset + spirvOffset)
                              (binarySize - reflectionOffset) dev2 of
                         None \<Rightarrow> None
                       | Some (cache, dev3) \<Rightarrow>
                           Some (p2\<lparr>mPipelineCache := cache, mIsPrecompiled := True\<rparr>, st1, sc2, dev3)))))"

section \<open>Vertex input\<close>

text \<open>Modelled from the spec: the generic vertex attributes are not part of the sources.
  An attribute slot has a stride, a format and an offset; \<open>gva_vbo\<close> is the buffer that
  \<open>UpdateVertexAttribute\<close> returns for the draw call (the bound buffer, or the one
  generated for a constant attribute) and \<open>gva_updatedVBO\<close> its \<open>updatedVBO\<close> result.\<close>

record GenericVertexAttribute =
  gva_vbo :: BufferObject
  gva_updatedVBO :: bool
  gva_stride :: int
  gva_vkFormat :: nat
  gva_offset :: nat

text \<open>\<open>m[k].push_back(v)\<close> on a \<open>std::map\<close> of vectors.\<close>

definition stdmap_push_back :: "'k::linorder \<Rightarrow> 'v \<Rightarrow> ('k \<times> 'v list) list \<Rightarrow> ('k \<times> 'v list) list" where
  "stdmap_push_back k v m = stdmap_set k ((case map_of m k of None \<Rightarrow> [] | Some vs \<Rightarrow> vs) @ [v]) m"

text \<open>The locations that the two nested loops over the live attributes visit, in order:
  each attribute occupies as many consecutive locations as its type takes.
  \<open>occupied\<close> stands for \<open>OccupiedLocationsPerGlType\<close>, which is outside the sources.\<close>

definition attribute_locations :: "(nat \<Rightarrow> nat) \<Rightarrow> ShaderResourceInterface \<Rightarrow> nat list" where
  "attribute_locations occupied sri =
     concat (map (\<lambda>a. map (\<lambda>j. attr_location a + j) [0..<occupied (attr_type a)]) (sri_attributes sri))"

text \<open>The state of the loops of \<open>UpdateVertexAttribProperties\<close>: the map from
  (buffer, stride) to locations, the locations used, the \<open>updatedVertexAttrib\<close> flag, the
  cache and the device.\<close>

type_synonym vertex_loop =
  "((VkHandle \<times> int) \<times> nat list) list \<times> nat list \<times> bool \<times> CacheManager \<times> VkDevice"

text \<open>The body of the loops for one location.  A location already used is skipped.  For
  a line loop drawn without an index buffer the buffer is replaced by a new one that
  repeats the first vertex at its end, and the new buffer goes to the cache.\<close>

definition visit_location ::
  "Context \<Rightarrow> ShaderProgram \<Rightarrow> GenericVertexAttribute list \<Rightarrow> nat \<Rightarrow> vertex_loop \<Rightarrow> vertex_loop option" where
  "visit_location ctx p gvas location s =
     (case s of (umap, locationUsed, updatedVertexAttrib, cm, dev) \<Rightarrow>
        if location \<in> set locationUsed then Some s
        else if length gvas \<le> location then None
        else
          (let gva = gvas ! location;
               vbo = gva_vbo gva;
               updated1 = (if gva_updatedVBO gva then True else updatedVertexAttrib)
           in case (if IsModeLineLoop ctx \<and> mActiveIndexVkBuffer p = VK_NULL_HANDLE
                    then (if gva_stride gva < 0 \<or> length (bo_data vbo) < nat (gva_stride gva) then None
                          else (case BufferObject_Allocate 0 (length (bo_data vbo) + nat (gva_stride gva))
                                       (bo_data vbo @ take (nat (gva_stride gva)) (bo_data vbo)) dev of
                                  None \<Rightarrow> None
                                | Some (vboLineLoopUpdated, dev1) \<Rightarrow>
                                    Some (bo_vkBuffer vboLineLoopUpdated, True,
                                          CacheVBO vboLineLoopUpdated cm, dev1)))
                    else Some (bo_vkBuffer vbo, updated1, cm, dev)) of
                None \<Rightarrow> None
              | Some (bo, updated2, cm2, dev2) \<Rightarrow>
                  Some (stdmap_push_back (bo, gva_stride gva) location umap,
                        locationUsed @ [location], updated2, cm2, dev2)))"

fun visit_locations ::
  "Context \<Rightarrow> ShaderProgram \<Rightarrow> GenericVertexAttribute list \<Rightarrow> nat list \<Rightarrow> vertex_loop \<Rightarrow> vertex_loop option" where
  "visit_locations ctx p gvas [] s = Some s"
| "visit_locations ctx p gvas (location # ls) s =
     (case visit_location ctx p gvas location s of
        None \<Rightarrow> None
      | Some s1 \<Rightarrow> visit_locations ctx p gvas ls s1)"

text \<open>The loop over the map, in ascending order of its keys: every location of an entry
  gets the current binding, the buffer of the entry becomes the active buffer of that
  binding, and the binding is incremented.\<close>

fun assign_bindings ::
  "((VkHandle \<times> int) \<times> nat list) list \<Rightarrow> nat \<Rightarrow> (nat \<rightharpoonup> nat) \<Rightarrow> (nat \<Rightarrow> VkHandle)
     \<Rightarrow> (nat \<rightharpoonup> nat) \<times> (nat \<Rightarrow> VkHandle) \<times> nat" where
  "assign_bindings [] current_binding bindings buffers = (bindings, buffers, current_binding)"
| "assign_bindings (entry # m) current_binding bindings buffers =
     assign_bindings m (Suc current_binding)
       (fold (\<lambda>loc b. b(loc \<mapsto> current_binding)) (snd entry) bindings)
       (buffers(current_binding := fst (fst entry)))"

text \<open>\<open>UpdateVertexAttribProperties\<close>.  The result is the returned flag, the map
  \<open>vboLocationBindings\<close> from locations to bindings, and the program, the cache and the
  device afterwards.  The vertex counts of the source only go to \<open>UpdateVertexAttribute\<close>.\<close>

definition UpdateVertexAttribProperties ::
  "(nat \<Rightarrow> nat) \<Rightarrow> Context \<Rightarrow> GenericVertexAttribute list \<Rightarrow> bool \<Rightarrow> ShaderProgram \<Rightarrow> CacheManager \<Rightarrow> VkDevice
     \<Rightarrow> (bool \<times> (nat \<rightharpoonup> nat) \<times> ShaderProgram \<times> CacheManager \<times> VkDevice) option" where
  "UpdateVertexAttribProperties occupied ctx gvas updatedVertexAttrib p cm dev =
     (case visit_locations ctx p gvas (attribute_locations occupied (mShaderResourceInterface p))
             ([], [], updatedVertexAttrib, cm, dev) of
        None \<Rightarrow> None
      | Some (umap, locationUsed, updated, cm1, dev1) \<Rightarrow>
          if \<not> updated then Some (False, Map.empty, p, cm1, dev1)
          else (case assign_bindings umap 0 Map.empty
                       (\<lambda>i. if i < mActiveVertexVkBuffersCount p then VK_NULL_HANDLE
                             else mActiveVertexVkBuffers p i) of
                  (bindings, buffers, current_binding) \<Rightarrow>
                    Some (True, bindings,
                          p\<lparr>mActiveVertexVkBuffers := buffers, mActiveVertexVkBuffersCount := current_binding\<rparr>,
                          cm1, dev1)))"

text \<open>The loops of \<open>GenerateVertexInputProperties\<close>: the binding of a location is looked
  up with \<open>at\<close>, which fails for a location without a binding; a location not yet used
  writes its binding description and the next attribute description.\<close>

fun generate_inputs ::
  "GenericVertexAttribute list \<Rightarrow> (nat \<rightharpoonup> nat) \<Rightarrow> nat list \<Rightarrow> ShaderProgram \<times> nat \<times> nat list
     \<Rightarrow> (ShaderProgram \<times> nat \<times> nat list) option" where
  "generate_inputs gvas bindings [] s = Some s"
| "generate_inputs gvas bindings (location # ls) (p, count, locationUsed) =
     (case bindings location of
        None \<Rightarrow> None
      | Some binding \<Rightarrow>
          if location \<in> set locationUsed then generate_inputs gvas bindings ls (p, count, locationUsed)
          else if length gvas \<le> location then None
          else generate_inputs gvas bindings ls
                 (p\<lparr>mVkVertexInputBinding := (mVkVertexInputBinding p)
                        (binding := \<lparr>vib_binding = binding,
                                     vib_stride = nat (gva_stride (gvas ! location) mod 2 ^ 32),
                                     vib_inputRate = 0\<rparr>),
                     mVkVertexInputAttribute := (mVkVertexInputAttribute p)
                        (count := \<lparr>via_binding = binding, via_location = location,
                                   via_format = gva_vkFormat (gvas ! location),
                                   via_offset = gva_offset (gvas ! location)\<rparr>)\<rparr>,
                  Suc count, locationUsed @ [location]))"

definition GenerateVertexInputProperties ::
  "(nat \<Rightarrow> nat) \<Rightarrow> GenericVertexAttribute list \<Rightarrow> (nat \<rightharpoonup> nat) \<Rightarrow> ShaderProgram \<Rightarrow> ShaderProgram option" where
  "GenerateVertexInputProperties occupied gvas bindings p =
     (case generate_inputs gvas bindings (attribute_locations occupied (mShaderResourceInterface p)) (p, 0, []) of
        None \<Rightarrow> None
      | Some (p1, count, locationUsed) \<Rightarrow>
          Some (p1\<lparr>vertexBindingDescriptionCount := mActiveVertexVkBuffersCount p1,
                   vertexAttributeDescriptionCount := count\<rparr>))"

definition PrepareVertexAttribBufferObjects ::
  "(nat \<Rightarrow> nat) \<Rightarrow> Context \<Rightarrow> GenericVertexAttribute list \<Rightarrow> bool \<Rightarrow> ShaderProgram \<Rightarrow> CacheManager \<Rightarrow> VkDevice
     \<Rightarrow> (bool \<times> ShaderProgram \<times> CacheManager \<times> VkDevice) option" where
  "PrepareVertexAttribBufferObjects occupied ctx gvas updatedVertexAttrib p cm dev =
     (case UpdateVertexAttribProperties occupied ctx gvas updatedVertexAttrib p cm dev of
        None \<Rightarrow> None
      | Some (updated, bindings, p1, cm1, dev1) \<Rightarrow>
          if updated
          then map_option (\<lambda>p2. (True, p2, cm1, dev1)) (GenerateVertexInputProperties occupied gvas bindings p1)
          else Some (False, p1, cm1, dev1))"

text \<open>The (buffer, stride) pair of a location, and the binding that the assignment in
  first-seen order would give: the position of the pair among the distinct pairs in the
  order in which the locations are visited.\<close>

definition buffer_stride :: "GenericVertexAttribute list \<Rightarrow> nat \<Rightarrow> VkHandle \<times> int" where
  "buffer_stride gvas location = (bo_vkBuffer (gva_vbo (gvas ! location)), gva_stride (gvas ! location))"

fun position :: "'a \<Rightarrow> 'a list \<Rightarrow> nat" where
  "position x [] = 0"
| "position x (y # ys) = (if x = y then 0 else Suc (position x ys))"

definition first_seen_binding :: "GenericVertexAttribute list \<Rightarrow> nat list \<Rightarrow> nat \<Rightarrow> nat" where
  "first_seen_binding gvas locations location =
     position (buffer_stride gvas location) (rev (remdups (rev (map (buffer_stride gvas) locations))))"

text \<open>The distinct (buffer, stride) pairs of a list of locations, and the binding that the
  ascending order of the pairs gives a location: the number of distinct pairs below its
  own.\<close>

definition buffer_strides :: "GenericVertexAttribute list \<Rightarrow> nat list \<Rightarrow> (VkHandle \<times> int) list" where
  "buffer_strides gvas locations = remdups (map (buffer_stride gvas) locations)"

definition ascending_binding :: "GenericVertexAttribute list \<Rightarrow> nat list \<Rightarrow> nat \<Rightarrow> nat" where
  "ascending_binding gvas locations location =
     length (filter (\<lambda>k. k < buffer_stride gvas location) (buffer_strides gvas locations))"

text \<open>The invariant of the loops of \<open>UpdateVertexAttribProperties\<close>: the keys of the map
  ascend, every entry holds at least one location, every location of an entry has the
  key of the entry as its pair and is marked as used, and every used location is in the
  entry of its pair.\<close>

definition grouped :: "(nat \<Rightarrow> 'k) \<Rightarrow> ('k::linorder \<times> nat list) list \<Rightarrow> nat list \<Rightarrow> bool" where
  "grouped key umap used \<longleftrightarrow>
     sorted_wrt (<) (map fst umap) \<and>
     (\<forall>kv\<in>set umap. snd kv \<noteq> [] \<and> (\<forall>l\<in>set (snd kv). key l = fst kv \<and> l \<in> set used)) \<and>
     (\<forall>l\<in>set used. \<exists>locs. (key l, locs) \<in> set umap \<and> l \<in> set locs)"

section \<open>Initial states\<close>

text \<open>The constructor of \<open>ShaderProgram\<close>.  The source leaves \<open>mShaderSPVsize\<close>,
  \<open>mShaderSPVdata\<close>, \<open>mVkShaderStages\<close> and the two arrays of vertex-input descriptions uninitialised; they
  are zero and null here.\<close>

definition ShaderProgram_new :: ShaderProgram where
  "ShaderProgram_new =
     \<lparr>mRefCount = 0, mMarkForDeletion = False,
      mShaders = (\<lambda>i. None), mShaderSPVsize = (\<lambda>i. 0), mShaderSPVdata = (\<lambda>i. None),
      mVkShaderModules = (\<lambda>i. VK_NULL_HANDLE), mVkShaderStages = (\<lambda>i. 0),
      mVkDescSetLayout = VK_NULL_HANDLE, mVkDescPool = VK_NULL_HANDLE,
      mVkDescSet = VK_NULL_HANDLE, mVkPipelineLayout = VK_NULL_HANDLE,
      mPipelineCache = \<lparr>pc_handle = VK_NULL_HANDLE, pc_data = []\<rparr>,
      mUpdateDescriptorSets = False, mUpdateDescriptorData = False,
      mLinked = False, mIsPrecompiled = False, mStageCount = 0,
      mShaderResourceInterface = \<lparr>sri_attributes = [], sri_uniforms = [], sri_blocks = []\<rparr>,
      mActiveVertexVkBuffers = (\<lambda>i. VK_NULL_HANDLE), mActiveVertexVkBuffersCount = 0,
      mActiveIndexVkBuffer = VK_NULL_HANDLE, mExplicitIbo = None,
      mVkVertexInputBinding = (\<lambda>i. \<lparr>vib_binding = 0, vib_stride = 0, vib_inputRate = 0\<rparr>),
      mVkVertexInputAttribute = (\<lambda>i. \<lparr>via_binding = 0, via_location = 0, via_format = 0, via_offset = 0\<rparr>),
      vertexBindingDescriptionCount = 0, vertexAttributeDescriptionCount = 0\<rparr>"

definition Shader_new :: "shader_type_t \<Rightarrow> Shader" where
  "Shader_new t = \<lparr>mRefCount = 0, mMarkForDeletion = False, mShaderType = t, mCompiled = False, mSpv = []\<rparr>"

section \<open>Example states\<close>

text \<open>A resource manager in the middle of its life.  Program 1 was deleted by the
  client, is referenced by nothing and still has the vertex shader 1 attached; program 2
  was deleted but is still in use.  Shader 1 is bound once (by program 1), shader 2 is
  bound by nothing, shader 3 is bound by program 2; the client deleted all three.
  Buffer 1 and renderbuffer 1 are unreferenced, buffer 2 is referenced twice.\<close>

definition purge_example :: ResourceManager where
  "purge_example =
     \<lparr>mShadingObjectCount = 6,
      mShadingObjectPool =
        [(1, \<lparr>arrayIndex = 1, ns_type = SHADER_ID\<rparr>),
         (2, \<lparr>arrayIndex = 1, ns_type = SHADER_PROGRAM_ID\<rparr>),
         (3, \<lparr>arrayIndex = 2, ns_type = SHADER_ID\<rparr>),
         (4, \<lparr>arrayIndex = 3, ns_type = SHADER_ID\<rparr>),
         (5, \<lparr>arrayIndex = 2, ns_type = SHADER_PROGRAM_ID\<rparr>)],
      rm_Shaders =
        [1 \<mapsto> (Shader_new SHADER_TYPE_VERTEX)\<lparr>mRefCount := 1, mMarkForDeletion := True\<rparr>,
         2 \<mapsto> (Shader_new SHADER_TYPE_FRAGMENT)\<lparr>mMarkForDeletion := True\<rparr>,
         3 \<mapsto> (Shader_new SHADER_TYPE_VERTEX)\<lparr>mRefCount := 1, mMarkForDeletion := True\<rparr>],
      rm_ShaderPrograms =
        [1 \<mapsto> ShaderProgram_new\<lparr>mMarkForDeletion := True, mShaders := (\<lambda>i. None)(0 := Some 1)\<rparr>,
         2 \<mapsto> ShaderProgram_new\<lparr>mRefCount := 1, mMarkForDeletion := True,
                                  mShaders := (\<lambda>i. None)(0 := Some 3)\<rparr>],
      rm_Buffers =
        [1 \<mapsto> \<lparr>mRefCount = 0, mMarkForDeletion = True\<rparr>,
         2 \<mapsto> \<lparr>mRefCount = 2, mMarkForDeletion = True\<rparr>],
      rm_Textures = Map.empty,
      rm_Renderbuffers = [1 \<mapsto> \<lparr>mRefCount = 0, mMarkForDeletion = True\<rparr>],
      mPurgeListBufferObject = [1, 2], mPurgeListTexture = [],
      mPurgeListShaderPrograms = [1, 2], mPurgeListShaders = [1, 2, 3],
      mPurgeListRenderbuffers = [1], rm_deleted = []\<rparr>"

text \<open>A program with all four native objects.\<close>

definition release_example :: ShaderProgram where
  "release_example =
     ShaderProgram_new\<lparr>mVkDescSet := 1, mVkDescPool := 2, mVkDescSetLayout := 3, mVkPipelineLayout := 4\<rparr>"

text \<open>A program with the vertex shader 1 attached, and a second vertex shader 2.\<close>

definition attach_example_program :: ShaderProgram where
  "attach_example_program = ShaderProgram_new\<lparr>mShaders := (\<lambda>i. None)(0 := Some 1)\<rparr>"

definition attach_example_store :: shader_store where
  "attach_example_store =
     [1 \<mapsto> (Shader_new SHADER_TYPE_VERTEX)\<lparr>mRefCount := 1\<rparr>, 2 \<mapsto> Shader_new SHADER_TYPE_VERTEX]"

text \<open>A build configuration, a context, a device, a program with a compiled vertex and a
  compiled fragment shader attached, and a compiler that accepts the program.\<close>

definition example_config :: glove_config where
  "example_config =
     \<lparr>GLOVE_MAX_VERTEX_ATTRIBS = 8, GLOVE_MAX_VERTEX_UNIFORM_VECTORS = 128,
      GLOVE_MAX_FRAGMENT_UNIFORM_VECTORS = 128,
      GLOVE_DUMP_INPUT_SHADER_REFLECTION = False, GLOVE_SAVE_SHADER_SOURCES_TO_FILES = False,
      GLOVE_SAVE_SPIRV_BINARY_TO_FILES = False, GLOVE_SAVE_SPIRV_TEXT_TO_FILE = False,
      GLOVE_DUMP_PROCESSED_SHADER_SOURCE = False, GLOVE_DUMP_VULKAN_SHADER_REFLECTION = False,
      GLOVE_DUMP_SPIRV_SHADER_SOURCE = False, NDEBUG = False\<rparr>"

definition example_context :: Context where
  "example_context =
     \<lparr>IsYInverted = True, IsModeLineLoop = False, ctx_ActiveTexture = (\<lambda>target unit. None),
      ctx_Framebuffers = []\<rparr>"

definition example_device :: VkDevice where
  "example_device = \<lparr>vk_log = [], vk_last = 0\<rparr>"

definition link_example_program :: ShaderProgram where
  "link_example_program = ShaderProgram_new\<lparr>mShaders := (\<lambda>i. None)(0 := Some 1, 1 := Some 2)\<rparr>"

definition link_example_store :: shader_store where
  "link_example_store =
     [1 \<mapsto> (Shader_new SHADER_TYPE_VERTEX)\<lparr>mRefCount := 1, mCompiled := True\<rparr>,
      2 \<mapsto> (Shader_new SHADER_TYPE_FRAGMENT)\<lparr>mRefCount := 1, mCompiled := True\<rparr>]"

definition example_reflection :: ShaderReflection where
  "example_reflection =
     \<lparr>refl_attributes = [\<lparr>attr_name = ''a_position'', attr_type = 35666, attr_location = 0\<rparr>],
      refl_uniforms = [\<lparr>u_name = ''u_texture'', u_type = GL_SAMPLER_2D, u_arraySize = 1,
                        u_blockIndex = 0, u_sampler = 0, u_data = []\<rparr>],
      refl_blocks = [\<lparr>ub_binding = 0, ub_stage = 2, ub_opaque = True, ub_buffer = VK_NULL_HANDLE\<rparr>]\<rparr>"

definition example_compiler :: ShaderCompiler where
  "example_compiler =
     \<lparr>sc_calls = [], sc_validates = True, sc_preprocesses = (\<lambda>t. True), sc_links = True,
      sc_spv = (\<lambda>t. if t = SHADER_TYPE_VERTEX then [119734787, 1] else [119734787, 2, 3]),
      sc_prepared = example_reflection, sc_linked = example_reflection,
      sc_reflection = \<lparr>refl_attributes = [], refl_uniforms = [], refl_blocks = []\<rparr>\<rparr>"

text \<open>A program with a sampler uniform in an opaque block and a vector uniform in a
  uniform-buffer block, its descriptor set allocated and both dirty flags clear.\<close>

definition descriptor_example_program :: ShaderProgram where
  "descriptor_example_program =
     ShaderProgram_new
       \<lparr>mVkDescSetLayout := 5, mVkDescPool := 7, mVkDescSet := 8, mVkPipelineLayout := 6, mLinked := True,
        mShaderResourceInterface :=
          \<lparr>sri_attributes = [],
           sri_uniforms =
             [\<lparr>u_name = ''u_texture'', u_type = GL_SAMPLER_2D, u_arraySize = 1, u_blockIndex = 0,
               u_sampler = 0, u_data = []\<rparr>,
              \<lparr>u_name = ''u_color'', u_type = 35666, u_arraySize = 1, u_blockIndex = 1,
               u_sampler = 0, u_data = [0, 0, 0, 0]\<rparr>],
           sri_blocks =
             [\<lparr>ub_binding = 0, ub_stage = 2, ub_opaque = True, ub_buffer = VK_NULL_HANDLE\<rparr>,
              \<lparr>ub_binding = 1, ub_stage = 1, ub_opaque = False, ub_buffer = 9\<rparr>]\<rparr>\<rparr>"

text \<open>A texture interface for the examples: a texture is complete when every mip level of
  layer 0 has a state; a new texture gets one layer and \<open>levels\<close> mip levels.\<close>

definition example_api :: "int \<Rightarrow> TextureApi" where
  "example_api levels =
     \<lparr>IsCompleted = (\<lambda>t. list_all (\<lambda>l. tx_state t (0, int l) \<noteq> None) [0..<nat (tx_mipLevelsCount t)]),
      IsNPOTAccessCompleted = (\<lambda>t. True),
      GetWidth = (\<lambda>t. case tx_state t (0, 0) of None \<Rightarrow> 0 | Some s \<Rightarrow> ts_width s),
      GetHeight = (\<lambda>t. case tx_state t (0, 0) of None \<Rightarrow> 0 | Some s \<Rightarrow> ts_height s),
      Allocate = (\<lambda>t. t\<lparr>tx_vkImageView := 100\<rparr>),
      PrepareVkImageLayout = (\<lambda>l t. t\<lparr>tx_vkImageLayout := l\<rparr>),
      CreateVkSampler = (\<lambda>t. if tx_vkSampler t = VK_NULL_HANDLE then t\<lparr>tx_vkSampler := 200\<rparr> else t),
      InitState = (\<lambda>t. t\<lparr>tx_layersCount := 1, tx_mipLevelsCount := levels\<rparr>),
      SetVkImageTiling = (\<lambda>t. t),
      GetInvertedYOrigin = (\<lambda>t r. (case tx_state t (0, 0) of None \<Rightarrow> 0 | Some s \<Rightarrow> int (ts_height s))
                                     - rect_y r - int (rect_height r)),
      CopyPixelsToHost = (\<lambda>t src dst level layer format.
                            case tx_state t (int layer, int level) of None \<Rightarrow> [] | Some s \<Rightarrow> ts_pixels s),
      GetDefaultInternalAlignment = 1,
      GlInternalFormatTypeToNumElements = (\<lambda>format type. 4),
      GlTypeToElementSize = (\<lambda>type. 1),
      GlInternalFormatToGlFormat = (\<lambda>format. format),
      GlInternalFormatToGlType = (\<lambda>format. GL_UNSIGNED_BYTE)\<rparr>"

text \<open>A complete 1x1 texture at address 1, bound to unit 0; a context without
  framebuffers and one whose framebuffer 1 has that texture as colour attachment.\<close>

definition example_texture :: Texture where
  "example_texture =
     Texture_new\<lparr>tx_target := GL_TEXTURE_2D, tx_vkFormat := VK_FORMAT_R8G8B8A8_UNORM,
                 tx_explicitInternalFormat := GL_RGBA, tx_explicitType := GL_UNSIGNED_BYTE,
                 tx_layersCount := 1, tx_mipLevelsCount := 1,
                 tx_state := [(0, 0) \<mapsto> \<lparr>ts_width = 1, ts_height = 1, ts_format = GL_RGBA,
                                              ts_type = GL_UNSIGNED_BYTE, ts_alignment = 1,
                                              ts_pixels = [10, 20, 30, 255]\<rparr>],
                 tx_vkSampler := 11, tx_vkImageLayout := VK_IMAGE_LAYOUT_SHADER_READ_ONLY_OPTIMAL,
                 tx_vkImageView := 12\<rparr>"

definition example_heap :: TextureHeap where
  "example_heap = \<lparr>th_objects = [1 \<mapsto> example_texture], th_next = 2\<rparr>"

definition example_cache :: CacheManager where
  "example_cache = \<lparr>cm_VBOs = [], cm_Textures = []\<rparr>"

definition texture_context :: Context where
  "texture_context =
     example_context\<lparr>ctx_ActiveTexture := (\<lambda>target unit. if target = GL_TEXTURE_2D \<and> unit = 0 then Some 1 else None)\<rparr>"

definition fbo_context :: Context where
  "fbo_context =
     texture_context\<lparr>ctx_Framebuffers :=
        [(1, \<lparr>fb_ColorAttachmentType = GL_TEXTURE, fb_ColorAttachmentTexture = Some 1\<rparr>)]\<rparr>"

text \<open>A transfer of uniform data that reuses the buffer objects.\<close>

definition flush_in_place :: "ShaderResourceInterface \<Rightarrow> ShaderResourceInterface \<times> bool" where
  "flush_in_place sri = (sri, False)"

text \<open>Client index data of element type unsigned int: the two indices 0 and 5.\<close>

definition uint_indices :: "8 word list" where
  "uint_indices = le32 0 @ le32 5"








text \<open>Three attributes at the locations 0, 1 and 2, each of a type that occupies one
  location, and two sets of attribute slots over one buffer with the handle 7: in the
  first the strides are 12, 12 and 16, in the second 16, 12 and 12.\<close>

definition example_occupied :: "nat \<Rightarrow> nat" where
  "example_occupied t = (if t = 35676 then 4 else if t = 35675 then 3 else if t = 35674 then 2 else 1)"

definition vertex_example_program :: ShaderProgram where
  "vertex_example_program =
     ShaderProgram_new\<lparr>mShaderResourceInterface :=
       \<lparr>sri_attributes = [\<lparr>attr_name = ''A'', attr_type = 35665, attr_location = 0\<rparr>,
                          \<lparr>attr_name = ''B'', attr_type = 35665, attr_location = 1\<rparr>,
                          \<lparr>attr_name = ''C'', attr_type = 35665, attr_location = 2\<rparr>],
        sri_uniforms = [], sri_blocks = []\<rparr>\<rparr>"

definition example_slot :: "int \<Rightarrow> GenericVertexAttribute" where
  "example_slot stride =
     \<lparr>gva_vbo = \<lparr>bo_target = 0, bo_vkBuffer = 7, bo_data = replicate 48 0\<rparr>,
      gva_updatedVBO = True, gva_stride = stride, gva_vkFormat = 106, gva_offset = 0\<rparr>"

definition vertex_example_attribs :: "GenericVertexAttribute list" where
  "vertex_example_attribs = [example_slot 12, example_slot 12, example_slot 16]"

definition order_example_attribs :: "GenericVertexAttribute list" where
  "order_example_attribs = [example_slot 16, example_slot 12, example_slot 12]"

definition line_loop_context :: Context where
  "line_loop_context = example_context\<lparr>IsModeLineLoop := True\<rparr>"

text \<open>A texture interface under which no texture passes the rule for textures whose
  size is not a power of two.\<close>

definition npot_api :: TextureApi where
  "npot_api = (example_api 1)\<lparr>IsNPOTAccessCompleted := (\<lambda>t. False)\<rparr>"

section \<open>Properties\<close>

subsection \<open>The shading namespace\<close>

lemma shadingCalls_ids:
  "fst (shadingCalls cs rm) = map (\<lambda>k. mShadingObjectCount rm + of_nat k) [0..<pushes cs]"
proof (induction cs arbitrary: rm rule: pushes.induct)
  case 1
  then show ?case by simp
next
  case (2 obj cs)
  have "map (\<lambda>k. mShadingObjectCount rm + 1 + of_nat k) [0..<pushes cs] =
        map (\<lambda>k. mShadingObjectCount rm + of_nat k) (map Suc [0..<pushes cs])"
    by (simp add: add.assoc)
  with 2 show ?case
    by (simp add: PushShadingObject_def upt_conv_Cons map_Suc_upt del: upt_Suc)
next
  case (3 ident cs)
  then show ?case by (simp add: EraseShadingObject_def)
qed

lemma shadingCalls_count:
  "mShadingObjectCount (snd (shadingCalls cs rm)) = mShadingObjectCount rm + of_nat (pushes cs)"
  by (induction cs arbitrary: rm rule: pushes.induct)
     (simp_all add: PushShadingObject_def EraseShadingObject_def add.assoc)

lemma shadingCalls_append:
  "shadingCalls (cs @ ds) rm =
     (fst (shadingCalls cs rm) @ fst (shadingCalls ds (snd (shadingCalls cs rm))),
      snd (shadingCalls ds (snd (shadingCalls cs rm))))"
  by (induction cs arbitrary: rm rule: pushes.induct) simp_all

lemma unat_count_plus:
  "unat (c::32 word) + k < 2 ^ 32 \<Longrightarrow> unat (c + of_nat k) = unat c + k"
  by (simp add: unat_word_ariths unat_of_nat)
  
lemma pushes_append: "pushes (cs @ ds) = pushes cs + pushes ds"
  by (induction cs rule: pushes.induct) simp_all

lemma IsShadingObject_zero: "\<not> IsShadingObject rm 0 t"
  by (simp add: IsShadingObject_def)

lemma ids_increasing:
  assumes "unat (c::32 word) + n \<le> 2 ^ 32"
  shows "sorted_wrt (<) (map (\<lambda>k. c + of_nat k) [0..<n])"
proof -
  have "c + of_nat i < c + of_nat j" if "i < j" "j < n" for i j
  proof -
    from that assms have "unat c + i < 2 ^ 32" "unat c + j < 2 ^ 32" by simp_all
    then have "unat (c + of_nat i) = unat c + i" "unat (c + of_nat j) = unat c + j"
      by (simp_all add: unat_count_plus)
    with that show ?thesis by (simp add: word_less_nat_alt)
  qed
  then show ?thesis
    by (simp add: sorted_wrt_iff_nth_less)
qed

subsection \<open>The purge sweep\<close>

lemma purge_by_refcount_result:
  assumes "distinct as" and "purge_by_refcount mk as heap log = Some (l, h, g)"
  shows "l = filter (\<lambda>a. \<exists>ob. heap a = Some ob \<and> 0 < mRefCount ob) as \<and>
         (\<forall>x. h x = (if x \<in> set as \<and> (\<exists>ob. heap x = Some ob \<and> mRefCount ob = 0) then None else heap x)) \<and>
         g = log @ map mk (filter (\<lambda>a. \<exists>ob. heap a = Some ob \<and> mRefCount ob = 0) as)"
  using assms
proof (induction as arbitrary: heap log l h g)
  case Nil
  then show ?case by auto
next
  case (Cons a as)
  from Cons.prems obtain ob where ob: "heap a = Some ob" by (auto split: option.splits)
  from Cons.prems have d: "distinct as" "a \<notin> set as" by simp_all
  show ?case
  proof (cases "mRefCount ob = 0")
    case True
    with Cons.prems ob have r: "purge_by_refcount mk as (heap(a := None)) (log @ [mk a]) = Some (l, h, g)"
      by simp
    have f: "filter (\<lambda>x. \<exists>ob. (heap(a := None)) x = Some ob \<and> P ob) as = filter (\<lambda>x. \<exists>ob. heap x = Some ob \<and> P ob) as" for P
      using d(2) by (intro filter_cong) auto
    note ih = Cons.IH[OF d(1) r, unfolded f]
    have 1: "l = filter (\<lambda>a. \<exists>ob. heap a = Some ob \<and> 0 < mRefCount ob) (a # as)"
      using ih True ob by simp
    have 2: "g = log @ map mk (filter (\<lambda>a. \<exists>ob. heap a = Some ob \<and> mRefCount ob = 0) (a # as))"
      using ih True ob by simp
    have 3: "h x = (if x \<in> set (a # as) \<and> (\<exists>ob. heap x = Some ob \<and> mRefCount ob = 0) then None else heap x)" for x
      using ih True ob d(2) by (cases "x = a") auto
    from 1 2 3 show ?thesis by blast
  next
    case False
    with Cons.prems ob obtain l' where r: "purge_by_refcount mk as heap log = Some (l', h, g)" and l: "l = a # l'"
      by auto
    note ih = Cons.IH[OF d(1) r]
    have 1: "l = filter (\<lambda>a. \<exists>ob. heap a = Some ob \<and> 0 < mRefCount ob) (a # as)"
      using ih False ob l by simp
    have 2: "g = log @ map mk (filter (\<lambda>a. \<exists>ob. heap a = Some ob \<and> mRefCount ob = 0) (a # as))"
      using ih False ob by simp
    have 3: "h x = (if x \<in> set (a # as) \<and> (\<exists>ob. heap x = Some ob \<and> mRefCount ob = 0) then None else heap x)" for x
      using ih False ob by (cases "x = a") auto
    from 1 2 3 show ?thesis by blast
  qed
qed

lemma purge_by_refcount_total:
  "distinct as \<Longrightarrow> set as \<subseteq> dom heap \<Longrightarrow> \<exists>r. purge_by_refcount mk as heap log = Some r"
proof (induction as arbitrary: heap log)
  case Nil
  then show ?case by simp
next
  case (Cons a as)
  then obtain ob where ob: "heap a = Some ob" by auto
  from Cons.prems have s1: "set as \<subseteq> dom (heap(a := None))" and s2: "set as \<subseteq> dom heap" and d: "distinct as" by auto
  show ?case
  proof (cases "mRefCount ob = 0")
    case True
    with Cons.IH[OF d s1, of "log @ [mk a]"] ob show ?thesis by (simp del: fun_upd_apply)
  next
    case False
    from Cons.IH[OF d s2, of log] obtain r where "purge_by_refcount mk as heap log = Some r" by blast
    with False ob show ?thesis by (cases r) simp
  qed
qed

lemma DetachShader_frame:
  "DetachShader p st x = Some (p', st') \<Longrightarrow> x \<noteq> Some s \<Longrightarrow> st' s = st s"
  by (auto simp: DetachShader_def split: option.splits if_splits)

lemma DetachShader_slots:
  "DetachShader p st x = Some (p', st') \<Longrightarrow> mShaders p' i = mShaders p i \<or> mShaders p' i = None"
  by (auto simp: DetachShader_def split: option.splits if_splits)

lemma DetachShaders_frame:
  assumes "DetachShaders p st = Some (p', st')" "mShaders p 0 \<noteq> Some s" "mShaders p 1 \<noteq> Some s"
  shows "st' s = st s"
proof -
  from assms(1) obtain p1 st1 where
    1: "(case mShaders p 0 of None \<Rightarrow> Some (p, st) | Some a \<Rightarrow> DetachShader p st (Some a)) = Some (p1, st1)"
    and 2: "(case mShaders p1 1 of None \<Rightarrow> Some (p1, st1) | Some b \<Rightarrow> DetachShader p1 st1 (Some b)) = Some (p', st')"
    by (auto simp: DetachShaders_def split: option.splits)
  from 1 assms(2) have a: "st1 s = st s"
    by (auto split: option.splits dest: DetachShader_frame)
  from 1 have "mShaders p1 1 = mShaders p 1 \<or> mShaders p1 1 = None"
    by (auto split: option.splits dest: DetachShader_slots)
  with 2 assms(3) have "st' s = st1 s"
    by (auto split: option.splits dest: DetachShader_frame)
  with a show ?thesis by simp
qed


lemma purge_shaders_result:
  assumes "distinct as" and "purge_shaders as rm = Some (l, rm')"
  shows "l = filter (\<lambda>a. \<exists>sh. rm_Shaders rm a = Some sh \<and> \<not> FreeForDeletion sh) as \<and>
         (\<forall>x. rm_Shaders rm' x = (if x \<in> set as \<and> (\<exists>sh. rm_Shaders rm x = Some sh \<and> FreeForDeletion sh) then None else rm_Shaders rm x)) \<and>
         rm_deleted rm' = rm_deleted rm @ map DeletedShader (filter (\<lambda>a. \<exists>sh. rm_Shaders rm a = Some sh \<and> FreeForDeletion sh) as) \<and>
         rm_Renderbuffers rm' = rm_Renderbuffers rm \<and> mPurgeListRenderbuffers rm' = mPurgeListRenderbuffers rm \<and>
         rm_Buffers rm' = rm_Buffers rm \<and> mPurgeListBufferObject rm' = mPurgeListBufferObject rm \<and>
         rm_Textures rm' = rm_Textures rm \<and> mPurgeListTexture rm' = mPurgeListTexture rm \<and>
         rm_ShaderPrograms rm' = rm_ShaderPrograms rm \<and> mPurgeListShaderPrograms rm' = mPurgeListShaderPrograms rm \<and>
         mPurgeListShaders rm' = mPurgeListShaders rm"
  using assms
proof (induction as arbitrary: rm l rm')
  case Nil
  then show ?case by auto
next
  case (Cons a as)
  from Cons.prems obtain sh where sh: "rm_Shaders rm a = Some sh" by (auto split: option.splits)
  from Cons.prems have d: "distinct as" "a \<notin> set as" by simp_all
  show ?case
  proof (cases "FreeForDeletion sh")
    case True
    define rm3 where "rm3 = (EraseShadingObject rm (FindShaderID rm a))
        \<lparr>rm_Shaders := (rm_Shaders (EraseShadingObject rm (FindShaderID rm a)))(a := None),
         rm_deleted := rm_deleted (EraseShadingObject rm (FindShaderID rm a)) @ [DeletedShader a]\<rparr>"
    from Cons.prems sh True have r: "purge_shaders as rm3 = Some (l, rm')"
      by (simp add: rm3_def Let_def del: fun_upd_apply)
    have st: "rm_Shaders rm3 = (rm_Shaders rm)(a := None)" and dl: "rm_deleted rm3 = rm_deleted rm @ [DeletedShader a]"
      and others: "rm_Renderbuffers rm3 = rm_Renderbuffers rm" "mPurgeListRenderbuffers rm3 = mPurgeListRenderbuffers rm"
         "rm_Buffers rm3 = rm_Buffers rm" "mPurgeListBufferObject rm3 = mPurgeListBufferObject rm"
         "rm_Textures rm3 = rm_Textures rm" "mPurgeListTexture rm3 = mPurgeListTexture rm"
         "rm_ShaderPrograms rm3 = rm_ShaderPrograms rm" "mPurgeListShaderPrograms rm3 = mPurgeListShaderPrograms rm"
         "mPurgeListShaders rm3 = mPurgeListShaders rm"
      by (simp_all add: rm3_def EraseShadingObject_def del: fun_upd_apply)
    have f: "filter (\<lambda>x. \<exists>sh. rm_Shaders rm3 x = Some sh \<and> P sh) as = filter (\<lambda>x. \<exists>sh. rm_Shaders rm x = Some sh \<and> P sh) as" for P
      using d(2) by (intro filter_cong) (auto simp: st)
    note ih = Cons.IH[OF d(1) r, unfolded f dl others]
    have 1: "l = filter (\<lambda>a. \<exists>sh. rm_Shaders rm a = Some sh \<and> \<not> FreeForDeletion sh) (a # as)"
      using ih True sh by simp
    have 2: "rm_deleted rm' = rm_deleted rm @ map DeletedShader (filter (\<lambda>a. \<exists>sh. rm_Shaders rm a = Some sh \<and> FreeForDeletion sh) (a # as))"
      using ih True sh by simp
    have 3: "rm_Shaders rm' x = (if x \<in> set (a # as) \<and> (\<exists>sh. rm_Shaders rm x = Some sh \<and> FreeForDeletion sh) then None else rm_Shaders rm x)" for x
      using ih True sh d(2) by (cases "x = a") (auto simp: st)
    from 1 2 3 ih show ?thesis by blast
  next
    case False
    with Cons.prems sh obtain l' where r: "purge_shaders as rm = Some (l', rm')" and l: "l = a # l'"
      by auto
    note ih = Cons.IH[OF d(1) r]
    have 1: "l = filter (\<lambda>a. \<exists>sh. rm_Shaders rm a = Some sh \<and> \<not> FreeForDeletion sh) (a # as)"
      using ih False sh l by simp
    have 2: "rm_deleted rm' = rm_deleted rm @ map DeletedShader (filter (\<lambda>a. \<exists>sh. rm_Shaders rm a = Some sh \<and> FreeForDeletion sh) (a # as))"
      using ih False sh by simp
    have 3: "rm_Shaders rm' x = (if x \<in> set (a # as) \<and> (\<exists>sh. rm_Shaders rm x = Some sh \<and> FreeForDeletion sh) then None else rm_Shaders rm x)" for x
      using ih False sh by (cases "x = a") auto
    from 1 2 3 ih show ?thesis by blast
  qed
qed

lemma purge_programs_result:
  assumes "distinct as" and "purge_programs as rm = Some (l, rm')"
  shows "l = filter (\<lambda>a. \<exists>pr. rm_ShaderPrograms rm a = Some pr \<and> \<not> FreeForDeletion pr) as \<and>
         (\<forall>x. rm_ShaderPrograms rm' x = (if x \<in> set as \<and> (\<exists>pr. rm_ShaderPrograms rm x = Some pr \<and> FreeForDeletion pr) then None else rm_ShaderPrograms rm x)) \<and>
         rm_deleted rm' = rm_deleted rm @ map DeletedShaderProgram (filter (\<lambda>a. \<exists>pr. rm_ShaderPrograms rm a = Some pr \<and> FreeForDeletion pr) as) \<and>
         (\<forall>s. (\<forall>a\<in>set as. \<forall>pr. rm_ShaderPrograms rm a = Some pr \<longrightarrow> FreeForDeletion pr \<longrightarrow>
                  mShaders pr 0 \<noteq> Some s \<and> mShaders pr 1 \<noteq> Some s) \<longrightarrow> rm_Shaders rm' s = rm_Shaders rm s) \<and>
         rm_Renderbuffers rm' = rm_Renderbuffers rm \<and> mPurgeListRenderbuffers rm' = mPurgeListRenderbuffers rm \<and>
         rm_Buffers rm' = rm_Buffers rm \<and> mPurgeListBufferObject rm' = mPurgeListBufferObject rm \<and>
         rm_Textures rm' = rm_Textures rm \<and> mPurgeListTexture rm' = mPurgeListTexture rm \<and>
         mPurgeListShaderPrograms rm' = mPurgeListShaderPrograms rm \<and>
         mPurgeListShaders rm' = mPurgeListShaders rm"
  using assms
proof (induction as arbitrary: rm l rm')
  case Nil
  then show ?case by auto
next
  case (Cons a as)
  from Cons.prems obtain pr where pr: "rm_ShaderPrograms rm a = Some pr" by (auto split: option.splits)
  from Cons.prems have d: "distinct as" "a \<notin> set as" by simp_all
  show ?case
  proof (cases "FreeForDeletion pr")
    case True
    with Cons.prems pr obtain pr1 st1 where ds: "DetachShaders pr (rm_Shaders rm) = Some (pr1, st1)"
      by (auto split: option.splits)
    define rm1 where "rm1 = rm\<lparr>rm_Shaders := st1, rm_ShaderPrograms := (rm_ShaderPrograms rm)(a \<mapsto> pr1)\<rparr>"
    define rm2 where "rm2 = EraseShadingObject rm1 (FindShaderProgramID rm1 a)"
    define rm3 where "rm3 = rm2\<lparr>rm_ShaderPrograms := (rm_ShaderPrograms rm2)(a := None),
                                rm_deleted := rm_deleted rm2 @ [DeletedShaderProgram a]\<rparr>"
    from Cons.prems pr True ds have r: "purge_programs as rm3 = Some (l, rm')"
      by (simp add: rm3_def rm2_def rm1_def Let_def del: fun_upd_apply)
    have pp: "rm_ShaderPrograms rm3 = (rm_ShaderPrograms rm)(a := None)" and dl: "rm_deleted rm3 = rm_deleted rm @ [DeletedShaderProgram a]"
      and st: "rm_Shaders rm3 = st1"
      and others: "rm_Renderbuffers rm3 = rm_Renderbuffers rm" "mPurgeListRenderbuffers rm3 = mPurgeListRenderbuffers rm"
         "rm_Buffers rm3 = rm_Buffers rm" "mPurgeListBufferObject rm3 = mPurgeListBufferObject rm"
         "rm_Textures rm3 = rm_Textures rm" "mPurgeListTexture rm3 = mPurgeListTexture rm"
         "mPurgeListShaderPrograms rm3 = mPurgeListShaderPrograms rm"
         "mPurgeListShaders rm3 = mPurgeListShaders rm"
      by (simp_all add: rm3_def rm2_def rm1_def EraseShadingObject_def)
    have f: "filter (\<lambda>x. \<exists>pr. rm_ShaderPrograms rm3 x = Some pr \<and> P pr) as = filter (\<lambda>x. \<exists>pr. rm_ShaderPrograms rm x = Some pr \<and> P pr) as" for P
      using d(2) by (intro filter_cong) (auto simp: pp)
    note ih = Cons.IH[OF d(1) r, unfolded f dl others]
    have 1: "l = filter (\<lambda>a. \<exists>pr. rm_ShaderPrograms rm a = Some pr \<and> \<not> FreeForDeletion pr) (a # as)"
      using ih True pr by simp
    have 2: "rm_deleted rm' = rm_deleted rm @ map DeletedShaderProgram (filter (\<lambda>a. \<exists>pr. rm_ShaderPrograms rm a = Some pr \<and> FreeForDeletion pr) (a # as))"
      using ih True pr by simp
    have 3: "rm_ShaderPrograms rm' x = (if x \<in> set (a # as) \<and> (\<exists>pr. rm_ShaderPrograms rm x = Some pr \<and> FreeForDeletion pr) then None else rm_ShaderPrograms rm x)" for x
      using ih True pr d(2) by (cases "x = a") (auto simp: pp)
    have 4: "rm_Shaders rm' s = rm_Shaders rm s"
      if h: "\<forall>b\<in>set (a # as). \<forall>pr. rm_ShaderPrograms rm b = Some pr \<longrightarrow> FreeForDeletion pr \<longrightarrow>
                  mShaders pr 0 \<noteq> Some s \<and> mShaders pr 1 \<noteq> Some s" for s
    proof -
      from h pr True have "mShaders pr 0 \<noteq> Some s" "mShaders pr 1 \<noteq> Some s" by auto
      with ds have a: "st1 s = rm_Shaders rm s" by (rule DetachShaders_frame)
      have "\<forall>b\<in>set as. \<forall>pr. rm_ShaderPrograms rm3 b = Some pr \<longrightarrow> FreeForDeletion pr \<longrightarrow>
                  mShaders pr 0 \<noteq> Some s \<and> mShaders pr 1 \<noteq> Some s"
        using h d(2) by (auto simp: pp)
      with ih have "rm_Shaders rm' s = rm_Shaders rm3 s" by blast
      with a st show ?thesis by simp
    qed
    from 1 2 3 4 ih show ?thesis by blast
  next
    case False
    with Cons.prems pr obtain l' where r: "purge_programs as rm = Some (l', rm')" and l: "l = a # l'"
      by auto
    note ih = Cons.IH[OF d(1) r]
    have 1: "l = filter (\<lambda>a. \<exists>pr. rm_ShaderPrograms rm a = Some pr \<and> \<not> FreeForDeletion pr) (a # as)"
      using ih False pr l by simp
    have 2: "rm_deleted rm' = rm_deleted rm @ map DeletedShaderProgram (filter (\<lambda>a. \<exists>pr. rm_ShaderPrograms rm a = Some pr \<and> FreeForDeletion pr) (a # as))"
      using ih False pr by simp
    have 3: "rm_ShaderPrograms rm' x = (if x \<in> set (a # as) \<and> (\<exists>pr. rm_ShaderPrograms rm x = Some pr \<and> FreeForDeletion pr) then None else rm_ShaderPrograms rm x)" for x
      using ih False pr by (cases "x = a") auto
    have 4: "rm_Shaders rm' s = rm_Shaders rm s"
      if h: "\<forall>b\<in>set (a # as). \<forall>pr. rm_ShaderPrograms rm b = Some pr \<longrightarrow> FreeForDeletion pr \<longrightarrow>
                  mShaders pr 0 \<noteq> Some s \<and> mShaders pr 1 \<noteq> Some s" for s
      using ih h by auto
    from 1 2 3 4 ih show ?thesis by blast
  qed
qed

lemma DetachShaders_store:
  assumes d: "DetachShaders p st = Some (p', st')" and s: "st s = Some sh"
  shows "st' s = Some (sh\<lparr>mRefCount := mRefCount sh -
                   (if IsShaderAttached p st (Some s) = Some (Some s) then 1 else 0)\<rparr>)"
proof -
  from d obtain p1 st1 where
    1: "(case mShaders p 0 of None \<Rightarrow> Some (p, st) | Some a \<Rightarrow> DetachShader p st (Some a)) = Some (p1, st1)"
    and 2: "(case mShaders p1 1 of None \<Rightarrow> Some (p1, st1) | Some b \<Rightarrow> DetachShader p1 st1 (Some b)) = Some (p', st')"
    by (auto simp: DetachShaders_def split: option.splits)
  show ?thesis
    using 1 2 s
    by (auto simp: DetachShader_def IsShaderAttached_def Unbind_def split: option.splits if_splits)
qed


lemma purge_programs_shaders:
  assumes "distinct as" and "purge_programs as rm = Some (l, rm')" and "rm_Shaders rm s = Some sh"
  shows "rm_Shaders rm' s =
           Some (sh\<lparr>mRefCount := mRefCount sh -
              length (filter (\<lambda>a. case rm_ShaderPrograms rm a of
                                     None \<Rightarrow> False
                                   | Some pr \<Rightarrow> FreeForDeletion pr \<and>
                                        IsShaderAttached pr (rm_Shaders rm) (Some s) = Some (Some s)) as)\<rparr>)"
  using assms
proof (induction as arbitrary: rm l rm' sh)
  case Nil
  then show ?case by simp
next
  case (Cons a as)
  from Cons.prems obtain pr where pr: "rm_ShaderPrograms rm a = Some pr" by (auto split: option.splits)
  from Cons.prems have d: "distinct as" "a \<notin> set as" by simp_all
  show ?case
  proof (cases "FreeForDeletion pr")
    case True
    with Cons.prems pr obtain pr1 st1 where ds: "DetachShaders pr (rm_Shaders rm) = Some (pr1, st1)"
      by (auto split: option.splits)
    define rm1 where "rm1 = rm\<lparr>rm_Shaders := st1, rm_ShaderPrograms := (rm_ShaderPrograms rm)(a \<mapsto> pr1)\<rparr>"
    define rm2 where "rm2 = EraseShadingObject rm1 (FindShaderProgramID rm1 a)"
    define rm3 where "rm3 = rm2\<lparr>rm_ShaderPrograms := (rm_ShaderPrograms rm2)(a := None),
                                rm_deleted := rm_deleted rm2 @ [DeletedShaderProgram a]\<rparr>"
    from Cons.prems pr True ds have r: "purge_programs as rm3 = Some (l, rm')"
      by (simp add: rm3_def rm2_def rm1_def Let_def del: fun_upd_apply)
    have pp: "rm_ShaderPrograms rm3 = (rm_ShaderPrograms rm)(a := None)" and st: "rm_Shaders rm3 = st1"
      by (simp_all add: rm3_def rm2_def rm1_def EraseShadingObject_def)
    define k where "k = (if IsShaderAttached pr (rm_Shaders rm) (Some s) = Some (Some s) then 1 else 0 :: nat)"
    define sh1 where "sh1 = sh\<lparr>mRefCount := mRefCount sh - k\<rparr>"
    have s1: "rm_Shaders rm3 s = Some sh1"
      unfolding st sh1_def k_def by (rule DetachShaders_store[OF ds Cons.prems(3)])
    have ty: "IsShaderAttached q (rm_Shaders rm3) (Some s) = IsShaderAttached q (rm_Shaders rm) (Some s)" for q
      using Cons.prems(3) s1 by (simp add: IsShaderAttached_def sh1_def)
    have f: "filter (\<lambda>x. case rm_ShaderPrograms rm3 x of None \<Rightarrow> False
                          | Some q \<Rightarrow> FreeForDeletion q \<and> IsShaderAttached q (rm_Shaders rm3) (Some s) = Some (Some s)) as =
             filter (\<lambda>x. case rm_ShaderPrograms rm x of None \<Rightarrow> False
                          | Some q \<Rightarrow> FreeForDeletion q \<and> IsShaderAttached q (rm_Shaders rm) (Some s) = Some (Some s)) as"
      using d(2) by (intro filter_cong) (auto simp: pp ty split: option.splits)
    note ih = Cons.IH[OF d(1) r s1, unfolded f]
    show ?thesis using ih pr True by (simp add: sh1_def k_def)
  next
    case False
    with Cons.prems pr obtain l' where r: "purge_programs as rm = Some (l', rm')"
      by auto
    note ih = Cons.IH[OF d(1) r Cons.prems(3)]
    show ?thesis using ih pr False by simp
  qed
qed

lemma count_list_map_inj:
  "distinct xs \<Longrightarrow> inj f \<Longrightarrow> count_list (map f xs) (f a) = (if a \<in> set xs then 1 else 0)"
  by (induction xs) (auto simp: inj_def)

lemma count_list_map_other:
  "(\<And>x. f x \<noteq> ev) \<Longrightarrow> count_list (map f xs) ev = 0"
  by (induction xs) auto

lemma count_list_append: "count_list (xs @ ys) a = count_list xs a + count_list ys a"
  by (induction xs) auto

lemma inj_deleted:
  "inj DeletedBuffer" "inj DeletedTexture" "inj DeletedShaderProgram" "inj DeletedShader" "inj DeletedRenderbuffer"
  by (simp_all add: inj_def)

lemma CleanPurgeList_programs_result:
  assumes "CleanPurgeList_programs rm = Some rm3"
    and "distinct (mPurgeListBufferObject rm)" "distinct (mPurgeListTexture rm)"
        "distinct (mPurgeListShaderPrograms rm)"
  shows "mPurgeListBufferObject rm3 = filter (\<lambda>a. \<exists>ob. rm_Buffers rm a = Some ob \<and> 0 < mRefCount ob) (mPurgeListBufferObject rm)"
    and "rm_Buffers rm3 x = (if x \<in> set (mPurgeListBufferObject rm) \<and> (\<exists>ob. rm_Buffers rm x = Some ob \<and> mRefCount ob = 0) then None else rm_Buffers rm x)"
    and "mPurgeListTexture rm3 = filter (\<lambda>a. \<exists>ob. rm_Textures rm a = Some ob \<and> 0 < mRefCount ob) (mPurgeListTexture rm)"
    and "rm_Textures rm3 x = (if x \<in> set (mPurgeListTexture rm) \<and> (\<exists>ob. rm_Textures rm x = Some ob \<and> mRefCount ob = 0) then None else rm_Textures rm x)"
    and "mPurgeListShaderPrograms rm3 = filter (\<lambda>a. \<exists>pr. rm_ShaderPrograms rm a = Some pr \<and> \<not> FreeForDeletion pr) (mPurgeListShaderPrograms rm)"
    and "rm_ShaderPrograms rm3 x = (if x \<in> set (mPurgeListShaderPrograms rm) \<and> (\<exists>pr. rm_ShaderPrograms rm x = Some pr \<and> FreeForDeletion pr) then None else rm_ShaderPrograms rm x)"
    and "rm_deleted rm3 = rm_deleted rm
           @ map DeletedBuffer (filter (\<lambda>a. \<exists>ob. rm_Buffers rm a = Some ob \<and> mRefCount ob = 0) (mPurgeListBufferObject rm))
           @ map DeletedTexture (filter (\<lambda>a. \<exists>ob. rm_Textures rm a = Some ob \<and> mRefCount ob = 0) (mPurgeListTexture rm))
           @ map DeletedShaderProgram (filter (\<lambda>a. \<exists>pr. rm_ShaderPrograms rm a = Some pr \<and> FreeForDeletion pr) (mPurgeListShaderPrograms rm))"
    and "rm_Shaders rm s = Some sh \<Longrightarrow>
           rm_Shaders rm3 s = Some (sh\<lparr>mRefCount := mRefCount sh - released_by_sweep rm s\<rparr>)"
    and "rm_Renderbuffers rm3 = rm_Renderbuffers rm" and "mPurgeListRenderbuffers rm3 = mPurgeListRenderbuffers rm"
    and "mPurgeListShaders rm3 = mPurgeListShaders rm"
proof -
  from assms(1) obtain lb hb gb lt ht gt lp rmp where
    b: "purge_by_refcount DeletedBuffer (mPurgeListBufferObject rm) (rm_Buffers rm) (rm_deleted rm) = Some (lb, hb, gb)"
    and t: "purge_by_refcount DeletedTexture (mPurgeListTexture rm) (rm_Textures rm) gb = Some (lt, ht, gt)"
    and p: "purge_programs (mPurgeListShaderPrograms rm)
             (rm\<lparr>mPurgeListBufferObject := lb, rm_Buffers := hb,
                 mPurgeListTexture := lt, rm_Textures := ht, rm_deleted := gt\<rparr>) = Some (lp, rmp)"
    and rm3: "rm3 = rmp\<lparr>mPurgeListShaderPrograms := lp\<rparr>"
    by (auto simp: CleanPurgeList_programs_def split: option.splits)
  note B = purge_by_refcount_result[OF assms(2) b]
  note T = purge_by_refcount_result[OF assms(3) t]
  from assms(4) have d: "distinct (mPurgeListShaderPrograms rm)" .
  note P = purge_programs_result[OF d p, simplified, simplified]
  show "mPurgeListBufferObject rm3 = filter (\<lambda>a. \<exists>ob. rm_Buffers rm a = Some ob \<and> 0 < mRefCount ob) (mPurgeListBufferObject rm)"
    using B P by (simp add: rm3)
  show "rm_Buffers rm3 x = (if x \<in> set (mPurgeListBufferObject rm) \<and> (\<exists>ob. rm_Buffers rm x = Some ob \<and> mRefCount ob = 0) then None else rm_Buffers rm x)"
    using B P by (simp add: rm3)
  show "mPurgeListTexture rm3 = filter (\<lambda>a. \<exists>ob. rm_Textures rm a = Some ob \<and> 0 < mRefCount ob) (mPurgeListTexture rm)"
    using T P by (simp add: rm3)
  show "rm_Textures rm3 x = (if x \<in> set (mPurgeListTexture rm) \<and> (\<exists>ob. rm_Textures rm x = Some ob \<and> mRefCount ob = 0) then None else rm_Textures rm x)"
    using T P by (simp add: rm3)
  show "mPurgeListShaderPrograms rm3 = filter (\<lambda>a. \<exists>pr. rm_ShaderPrograms rm a = Some pr \<and> \<not> FreeForDeletion pr) (mPurgeListShaderPrograms rm)"
    using P by (simp add: rm3)
  show "rm_ShaderPrograms rm3 x = (if x \<in> set (mPurgeListShaderPrograms rm) \<and> (\<exists>pr. rm_ShaderPrograms rm x = Some pr \<and> FreeForDeletion pr) then None else rm_ShaderPrograms rm x)"
    using P by (auto simp add: rm3)
  show "rm_deleted rm3 = rm_deleted rm
           @ map DeletedBuffer (filter (\<lambda>a. \<exists>ob. rm_Buffers rm a = Some ob \<and> mRefCount ob = 0) (mPurgeListBufferObject rm))
           @ map DeletedTexture (filter (\<lambda>a. \<exists>ob. rm_Textures rm a = Some ob \<and> mRefCount ob = 0) (mPurgeListTexture rm))
           @ map DeletedShaderProgram (filter (\<lambda>a. \<exists>pr. rm_ShaderPrograms rm a = Some pr \<and> FreeForDeletion pr) (mPurgeListShaderPrograms rm))"
    using B T P by (simp add: rm3)
  show "rm_Renderbuffers rm3 = rm_Renderbuffers rm" "mPurgeListRenderbuffers rm3 = mPurgeListRenderbuffers rm"
    "mPurgeListShaders rm3 = mPurgeListShaders rm"
    using P by (simp_all add: rm3)
  show "rm_Shaders rm3 s = Some (sh\<lparr>mRefCount := mRefCount sh - released_by_sweep rm s\<rparr>)"
    if "rm_Shaders rm s = Some sh"
  proof -
    have "rm_Shaders (rm\<lparr>mPurgeListBufferObject := lb, rm_Buffers := hb,
                 mPurgeListTexture := lt, rm_Textures := ht, rm_deleted := gt\<rparr>) = rm_Shaders rm"
      by simp
    then show ?thesis
      using purge_programs_shaders[OF d p, of s sh] that
      by (simp add: rm3 released_by_sweep_def cong: option.case_cong)
  qed
qed


text \<open>
  Claim C4, as the code has it.  One sweep of \<open>CleanPurgeList\<close> over purge lists without
  repetitions: a buffer, texture or renderbuffer of a purge list whose reference count is
  greater than 0 stays on its list and allocated as it was; one whose count is 0 leaves
  the list, is deallocated and is deleted exactly once.  The same holds for a shader
  program with its free-for-deletion predicate in place of the count.  The loop over the
  programs runs first, and every program it frees detaches and unbinds the shaders
  attached to it: the sweep takes \<open>released_by_sweep\<close> references from a shader, which the
  shader is assumed to hold.  A shader of the purge list is therefore freed, exactly once,
  when it is marked for deletion and all its references are those of programs that the
  same sweep frees; otherwise it stays on the list, allocated, with its count reduced by
  the references released.  A shader that is not on the purge list stays allocated with
  its count reduced in the same way.
\<close>

theorem CleanPurgeList_keeps_or_frees:
  assumes sweep: "CleanPurgeList rm = Some rm'"
    and db: "distinct (mPurgeListBufferObject rm)" and dt: "distinct (mPurgeListTexture rm)"
    and dp: "distinct (mPurgeListShaderPrograms rm)" and ds: "distinct (mPurgeListShaders rm)"
    and dr: "distinct (mPurgeListRenderbuffers rm)"
    and refs: "\<forall>s sh. rm_Shaders rm s = Some sh \<longrightarrow> released_by_sweep rm s \<le> mRefCount sh"
  shows
    "(\<forall>a\<in>set (mPurgeListBufferObject rm). \<forall>ob. rm_Buffers rm a = Some ob \<longrightarrow>
        (if 0 < mRefCount ob then kept (mPurgeListBufferObject rm') (rm_Buffers rm') a ob
         else freed_once (mPurgeListBufferObject rm') (rm_Buffers rm') (sweep_log rm rm') a (DeletedBuffer a))) \<and>
     (\<forall>a\<in>set (mPurgeListTexture rm). \<forall>ob. rm_Textures rm a = Some ob \<longrightarrow>
        (if 0 < mRefCount ob then kept (mPurgeListTexture rm') (rm_Textures rm') a ob
         else freed_once (mPurgeListTexture rm') (rm_Textures rm') (sweep_log rm rm') a (DeletedTexture a))) \<and>
     (\<forall>a\<in>set (mPurgeListRenderbuffers rm). \<forall>ob. rm_Renderbuffers rm a = Some ob \<longrightarrow>
        (if 0 < mRefCount ob then kept (mPurgeListRenderbuffers rm') (rm_Renderbuffers rm') a ob
         else freed_once (mPurgeListRenderbuffers rm') (rm_Renderbuffers rm') (sweep_log rm rm') a (DeletedRenderbuffer a))) \<and>
     (\<forall>a\<in>set (mPurgeListShaderPrograms rm). \<forall>pr. rm_ShaderPrograms rm a = Some pr \<longrightarrow>
        (if \<not> FreeForDeletion pr then kept (mPurgeListShaderPrograms rm') (rm_ShaderPrograms rm') a pr
         else freed_once (mPurgeListShaderPrograms rm') (rm_ShaderPrograms rm') (sweep_log rm rm') a (DeletedShaderProgram a))) \<and>
     (\<forall>a\<in>set (mPurgeListShaders rm). \<forall>sh. rm_Shaders rm a = Some sh \<longrightarrow>
        (if mMarkForDeletion sh \<and> mRefCount sh = released_by_sweep rm a
         then freed_once (mPurgeListShaders rm') (rm_Shaders rm') (sweep_log rm rm') a (DeletedShader a)
         else kept (mPurgeListShaders rm') (rm_Shaders rm') a
                (sh\<lparr>mRefCount := mRefCount sh - released_by_sweep rm a\<rparr>))) \<and>
     (\<forall>s sh. s \<notin> set (mPurgeListShaders rm) \<longrightarrow> rm_Shaders rm s = Some sh \<longrightarrow>
        rm_Shaders rm' s = Some (sh\<lparr>mRefCount := mRefCount sh - released_by_sweep rm s\<rparr>))"
proof -
  from sweep obtain rm3 ls rm4 lr hr gr where
    c3: "CleanPurgeList_programs rm = Some rm3"
    and s: "purge_shaders (mPurgeListShaders rm3) rm3 = Some (ls, rm4)"
    and r: "purge_by_refcount DeletedRenderbuffer (mPurgeListRenderbuffers rm4) (rm_Renderbuffers rm4) (rm_deleted rm4) = Some (lr, hr, gr)"
    and rm': "rm' = rm4\<lparr>mPurgeListShaders := ls, mPurgeListRenderbuffers := lr, rm_Renderbuffers := hr, rm_deleted := gr\<rparr>"
    by (auto simp: CleanPurgeList_def split: option.splits)
  note P = CleanPurgeList_programs_result[OF c3 db dt dp]
  from ds P(11) have ds3: "distinct (mPurgeListShaders rm3)" by simp
  note S = purge_shaders_result[OF ds3 s, unfolded P(11)]
  from S P(9,10) have rb4: "rm_Renderbuffers rm4 = rm_Renderbuffers rm" "mPurgeListRenderbuffers rm4 = mPurgeListRenderbuffers rm"
    by simp_all
  from dr rb4 have dr4: "distinct (mPurgeListRenderbuffers rm4)" by simp
  note R = purge_by_refcount_result[OF dr4 r, unfolded rb4]
  define Fb where "Fb = filter (\<lambda>a. \<exists>ob. rm_Buffers rm a = Some ob \<and> mRefCount ob = 0) (mPurgeListBufferObject rm)"
  define Ft where "Ft = filter (\<lambda>a. \<exists>ob. rm_Textures rm a = Some ob \<and> mRefCount ob = 0) (mPurgeListTexture rm)"
  define Fp where "Fp = filter (\<lambda>a. \<exists>pr. rm_ShaderPrograms rm a = Some pr \<and> FreeForDeletion pr) (mPurgeListShaderPrograms rm)"
  define Fs where "Fs = filter (\<lambda>a. \<exists>sh. rm_Shaders rm3 a = Some sh \<and> FreeForDeletion sh) (mPurgeListShaders rm)"
  define Fr where "Fr = filter (\<lambda>a. \<exists>ob. rm_Renderbuffers rm a = Some ob \<and> mRefCount ob = 0) (mPurgeListRenderbuffers rm)"
  have dF: "distinct Fb" "distinct Ft" "distinct Fp" "distinct Fs" "distinct Fr"
    using db dt dp ds dr by (simp_all add: Fb_def Ft_def Fp_def Fs_def Fr_def)
  have "rm_deleted rm' = rm_deleted rm @ (map DeletedBuffer Fb @ map DeletedTexture Ft @ map DeletedShaderProgram Fp
           @ map DeletedShader Fs @ map DeletedRenderbuffer Fr)"
    using R S P(7) by (simp add: rm' Fb_def Ft_def Fp_def Fs_def Fr_def)
  then have log: "sweep_log rm rm' = map DeletedBuffer Fb @ map DeletedTexture Ft @ map DeletedShaderProgram Fp
           @ map DeletedShader Fs @ map DeletedRenderbuffer Fr"
    by (simp add: sweep_log_def)
  have cb: "count_list (sweep_log rm rm') (DeletedBuffer a) = (if a \<in> set Fb then 1 else 0)" for a
    by (simp add: log count_list_append count_list_map_inj[OF dF(1) inj_deleted(1)] count_list_map_other)
  have ct: "count_list (sweep_log rm rm') (DeletedTexture a) = (if a \<in> set Ft then 1 else 0)" for a
    by (simp add: log count_list_append count_list_map_inj[OF dF(2) inj_deleted(2)] count_list_map_other)
  have cp: "count_list (sweep_log rm rm') (DeletedShaderProgram a) = (if a \<in> set Fp then 1 else 0)" for a
    by (simp add: log count_list_append count_list_map_inj[OF dF(3) inj_deleted(3)] count_list_map_other)
  have cs: "count_list (sweep_log rm rm') (DeletedShader a) = (if a \<in> set Fs then 1 else 0)" for a
    by (simp add: log count_list_append count_list_map_inj[OF dF(4) inj_deleted(4)] count_list_map_other)
  have cr: "count_list (sweep_log rm rm') (DeletedRenderbuffer a) = (if a \<in> set Fr then 1 else 0)" for a
    by (simp add: log count_list_append count_list_map_inj[OF dF(5) inj_deleted(5)] count_list_map_other)
  have lb: "mPurgeListBufferObject rm' = filter (\<lambda>a. \<exists>ob. rm_Buffers rm a = Some ob \<and> 0 < mRefCount ob) (mPurgeListBufferObject rm)"
    and hb: "\<And>x. rm_Buffers rm' x = (if x \<in> set (mPurgeListBufferObject rm) \<and> (\<exists>ob. rm_Buffers rm x = Some ob \<and> mRefCount ob = 0) then None else rm_Buffers rm x)"
    using S P(1,2) by (simp_all add: rm')
  have lt: "mPurgeListTexture rm' = filter (\<lambda>a. \<exists>ob. rm_Textures rm a = Some ob \<and> 0 < mRefCount ob) (mPurgeListTexture rm)"
    and ht: "\<And>x. rm_Textures rm' x = (if x \<in> set (mPurgeListTexture rm) \<and> (\<exists>ob. rm_Textures rm x = Some ob \<and> mRefCount ob = 0) then None else rm_Textures rm x)"
    using S P(3,4) by (simp_all add: rm')
  have lp: "mPurgeListShaderPrograms rm' = filter (\<lambda>a. \<exists>pr. rm_ShaderPrograms rm a = Some pr \<and> \<not> FreeForDeletion pr) (mPurgeListShaderPrograms rm)"
    and hp: "\<And>x. rm_ShaderPrograms rm' x = (if x \<in> set (mPurgeListShaderPrograms rm) \<and> (\<exists>pr. rm_ShaderPrograms rm x = Some pr \<and> FreeForDeletion pr) then None else rm_ShaderPrograms rm x)"
    using S P(5,6) by (simp_all add: rm')
  have ls: "mPurgeListShaders rm' = filter (\<lambda>a. \<exists>sh. rm_Shaders rm3 a = Some sh \<and> \<not> FreeForDeletion sh) (mPurgeListShaders rm)"
    and hs: "\<And>x. rm_Shaders rm' x = (if x \<in> set (mPurgeListShaders rm) \<and> (\<exists>sh. rm_Shaders rm3 x = Some sh \<and> FreeForDeletion sh) then None else rm_Shaders rm3 x)"
    using S by (simp_all add: rm')
  have lr: "mPurgeListRenderbuffers rm' = filter (\<lambda>a. \<exists>ob. rm_Renderbuffers rm a = Some ob \<and> 0 < mRefCount ob) (mPurgeListRenderbuffers rm)"
    and hr: "\<And>x. rm_Renderbuffers rm' x = (if x \<in> set (mPurgeListRenderbuffers rm) \<and> (\<exists>ob. rm_Renderbuffers rm x = Some ob \<and> mRefCount ob = 0) then None else rm_Renderbuffers rm x)"
    using R by (simp_all add: rm')
  have 1: "\<forall>a\<in>set (mPurgeListBufferObject rm). \<forall>ob. rm_Buffers rm a = Some ob \<longrightarrow>
        (if 0 < mRefCount ob then kept (mPurgeListBufferObject rm') (rm_Buffers rm') a ob
         else freed_once (mPurgeListBufferObject rm') (rm_Buffers rm') (sweep_log rm rm') a (DeletedBuffer a))"
    by (auto simp: kept_def freed_once_def lb hb cb Fb_def)
  have 2: "\<forall>a\<in>set (mPurgeListTexture rm). \<forall>ob. rm_Textures rm a = Some ob \<longrightarrow>
        (if 0 < mRefCount ob then kept (mPurgeListTexture rm') (rm_Textures rm') a ob
         else freed_once (mPurgeListTexture rm') (rm_Textures rm') (sweep_log rm rm') a (DeletedTexture a))"
    by (auto simp: kept_def freed_once_def lt ht ct Ft_def)
  have 3: "\<forall>a\<in>set (mPurgeListRenderbuffers rm). \<forall>ob. rm_Renderbuffers rm a = Some ob \<longrightarrow>
        (if 0 < mRefCount ob then kept (mPurgeListRenderbuffers rm') (rm_Renderbuffers rm') a ob
         else freed_once (mPurgeListRenderbuffers rm') (rm_Renderbuffers rm') (sweep_log rm rm') a (DeletedRenderbuffer a))"
    by (auto simp: kept_def freed_once_def lr hr cr Fr_def)
  have 4: "\<forall>a\<in>set (mPurgeListShaderPrograms rm). \<forall>pr. rm_ShaderPrograms rm a = Some pr \<longrightarrow>
        (if \<not> FreeForDeletion pr then kept (mPurgeListShaderPrograms rm') (rm_ShaderPrograms rm') a pr
         else freed_once (mPurgeListShaderPrograms rm') (rm_ShaderPrograms rm') (sweep_log rm rm') a (DeletedShaderProgram a))"
    by (auto simp: kept_def freed_once_def lp hp cp Fp_def)
  have 5: "\<forall>a\<in>set (mPurgeListShaders rm). \<forall>sh. rm_Shaders rm a = Some sh \<longrightarrow>
        (if mMarkForDeletion sh \<and> mRefCount sh = released_by_sweep rm a
         then freed_once (mPurgeListShaders rm') (rm_Shaders rm') (sweep_log rm rm') a (DeletedShader a)
         else kept (mPurgeListShaders rm') (rm_Shaders rm') a
                (sh\<lparr>mRefCount := mRefCount sh - released_by_sweep rm a\<rparr>))"
  proof (intro ballI allI impI)
    fix a sh assume a: "a \<in> set (mPurgeListShaders rm)" and sh: "rm_Shaders rm a = Some sh"
    define sh3 where "sh3 = sh\<lparr>mRefCount := mRefCount sh - released_by_sweep rm a\<rparr>"
    have s3: "rm_Shaders rm3 a = Some sh3" unfolding sh3_def by (rule P(8)[OF sh])
    have le: "released_by_sweep rm a \<le> mRefCount sh" using refs sh by blast
    have free: "FreeForDeletion sh3 \<longleftrightarrow> mMarkForDeletion sh \<and> mRefCount sh = released_by_sweep rm a"
      using le by (auto simp: FreeForDeletion_def sh3_def)
    show "if mMarkForDeletion sh \<and> mRefCount sh = released_by_sweep rm a
          then freed_once (mPurgeListShaders rm') (rm_Shaders rm') (sweep_log rm rm') a (DeletedShader a)
          else kept (mPurgeListShaders rm') (rm_Shaders rm') a
                 (sh\<lparr>mRefCount := mRefCount sh - released_by_sweep rm a\<rparr>)"
      unfolding sh3_def[symmetric] free[symmetric]
      using a s3 by (auto simp: kept_def freed_once_def ls hs cs Fs_def)
  qed
  have 6: "\<forall>s sh. s \<notin> set (mPurgeListShaders rm) \<longrightarrow> rm_Shaders rm s = Some sh \<longrightarrow>
        rm_Shaders rm' s = Some (sh\<lparr>mRefCount := mRefCount sh - released_by_sweep rm s\<rparr>)"
    using P(8) by (simp add: hs)
  from 1 2 3 4 5 6 show ?thesis by blast
qed

text \<open>
  Claim C4 as stated fails for a shader whose last reference is a program that the same
  sweep frees: in \<open>purge_example\<close> shader 1 has reference count 1 when the sweep begins
  and is on the purge list, and the sweep deallocates it and takes it off the list.
\<close>

theorem CleanPurgeList_keeps_or_frees_counterexample:
  "mRefCount (the (rm_Shaders purge_example 1)) = 1 \<and>
   1 \<in> set (mPurgeListShaders purge_example) \<and>
   map_option (\<lambda>rm'. (rm_Shaders rm' 1, 1 \<in> set (mPurgeListShaders rm'), rm_deleted rm'))
      (CleanPurgeList purge_example) =
   Some (None, False, [DeletedBuffer 1, DeletedShaderProgram 1, DeletedShader 1, DeletedShader 2, DeletedRenderbuffer 1])"
  by (simp add: CleanPurgeList_def CleanPurgeList_programs_def purge_example_def FreeForDeletion_def ShaderProgram_new_def
      Shader_new_def DetachShaders_def DetachShader_def IsShaderAttached_def Unbind_def
      EraseShadingObject_def FindShaderProgramID_def FindShaderID_def stdmap_erase_def Let_def)


theorem CleanPurgeList_keeps_or_frees_witness:
  "CleanPurgeList purge_example \<noteq> None \<and>
   distinct (mPurgeListBufferObject purge_example) \<and> distinct (mPurgeListTexture purge_example) \<and>
   distinct (mPurgeListShaderPrograms purge_example) \<and> distinct (mPurgeListShaders purge_example) \<and>
   distinct (mPurgeListRenderbuffers purge_example) \<and>
   dom (rm_Shaders purge_example) = {1, 2, 3} \<and>
   map (released_by_sweep purge_example) [1, 2, 3] = [1, 0, 0] \<and>
   map (\<lambda>s. mRefCount (the (rm_Shaders purge_example s))) [1, 2, 3] = [1, 0, 1] \<and>
   kept (mPurgeListBufferObject (the (CleanPurgeList purge_example)))
        (rm_Buffers (the (CleanPurgeList purge_example))) 2 \<lparr>mRefCount = 2, mMarkForDeletion = True\<rparr> \<and>
   freed_once (mPurgeListBufferObject (the (CleanPurgeList purge_example)))
        (rm_Buffers (the (CleanPurgeList purge_example)))
        (sweep_log purge_example (the (CleanPurgeList purge_example))) 1 (DeletedBuffer 1) \<and>
   freed_once (mPurgeListShaderPrograms (the (CleanPurgeList purge_example)))
        (rm_ShaderPrograms (the (CleanPurgeList purge_example)))
        (sweep_log purge_example (the (CleanPurgeList purge_example))) 1 (DeletedShaderProgram 1) \<and>
   freed_once (mPurgeListShaders (the (CleanPurgeList purge_example)))
        (rm_Shaders (the (CleanPurgeList purge_example)))
        (sweep_log purge_example (the (CleanPurgeList purge_example))) 1 (DeletedShader 1) \<and>
   kept (mPurgeListShaders (the (CleanPurgeList purge_example)))
        (rm_Shaders (the (CleanPurgeList purge_example))) 3
        ((Shader_new SHADER_TYPE_VERTEX)\<lparr>mRefCount := 1, mMarkForDeletion := True\<rparr>) \<and>
   freed_once (mPurgeListShaders (the (CleanPurgeList purge_example)))
        (rm_Shaders (the (CleanPurgeList purge_example)))
        (sweep_log purge_example (the (CleanPurgeList purge_example))) 2 (DeletedShader 2)"
proof -
  have "CleanPurgeList purge_example \<noteq> None"
    by (simp add: CleanPurgeList_def CleanPurgeList_programs_def purge_example_def FreeForDeletion_def
        ShaderProgram_new_def Shader_new_def DetachShaders_def DetachShader_def IsShaderAttached_def
        Unbind_def EraseShadingObject_def FindShaderProgramID_def FindShaderID_def stdmap_erase_def Let_def)
  then obtain rm' where r: "CleanPurgeList purge_example = Some rm'" by auto
  have d: "distinct (mPurgeListBufferObject purge_example)" "distinct (mPurgeListTexture purge_example)"
    "distinct (mPurgeListShaderPrograms purge_example)" "distinct (mPurgeListShaders purge_example)"
    "distinct (mPurgeListRenderbuffers purge_example)"
    by (simp_all add: purge_example_def)
  have b2: "2 \<in> set (mPurgeListBufferObject purge_example)"
       "rm_Buffers purge_example 2 = Some \<lparr>mRefCount = 2, mMarkForDeletion = True\<rparr>"
    and b1: "1 \<in> set (mPurgeListBufferObject purge_example)"
       "rm_Buffers purge_example 1 = Some \<lparr>mRefCount = 0, mMarkForDeletion = True\<rparr>"
    and p1: "1 \<in> set (mPurgeListShaderPrograms purge_example)"
       "rm_ShaderPrograms purge_example 1 = Some (ShaderProgram_new\<lparr>mMarkForDeletion := True, mShaders := (\<lambda>i. None)(0 := Some 1)\<rparr>)"
    and s1: "1 \<in> set (mPurgeListShaders purge_example)"
       "rm_Shaders purge_example 1 = Some ((Shader_new SHADER_TYPE_VERTEX)\<lparr>mRefCount := 1, mMarkForDeletion := True\<rparr>)"
    and s3: "3 \<in> set (mPurgeListShaders purge_example)"
       "rm_Shaders purge_example 3 = Some ((Shader_new SHADER_TYPE_VERTEX)\<lparr>mRefCount := 1, mMarkForDeletion := True\<rparr>)"
    and s2: "2 \<in> set (mPurgeListShaders purge_example)"
       "rm_Shaders purge_example 2 = Some ((Shader_new SHADER_TYPE_FRAGMENT)\<lparr>mMarkForDeletion := True\<rparr>)"
    by (simp_all add: purge_example_def)
  have dm: "dom (rm_Shaders purge_example) = {1, 2, 3}"
    by (auto simp: purge_example_def split: if_splits)
  have rel: "released_by_sweep purge_example 1 = 1" "released_by_sweep purge_example 2 = 0"
    "released_by_sweep purge_example 3 = 0"
    by (simp_all add: released_by_sweep_def purge_example_def FreeForDeletion_def ShaderProgram_new_def
        Shader_new_def IsShaderAttached_def)
  have refs: "\<forall>s sh. rm_Shaders purge_example s = Some sh \<longrightarrow> released_by_sweep purge_example s \<le> mRefCount sh"
  proof (intro allI impI)
    fix s sh assume sh: "rm_Shaders purge_example s = Some sh"
    then have "s \<in> {1, 2, 3}" using dm by blast
    then consider "s = 1" | "s = 2" | "s = 3" by blast
    then show "released_by_sweep purge_example s \<le> mRefCount sh"
      using sh s1(2) s2(2) s3(2) rel by cases auto
  qed
  note T = CleanPurgeList_keeps_or_frees[OF r d refs]
  note TB = T[THEN conjunct1, rule_format]
  note TP = T[THEN conjunct2, THEN conjunct2, THEN conjunct2, THEN conjunct1, rule_format]
  note TS = T[THEN conjunct2, THEN conjunct2, THEN conjunct2, THEN conjunct2, THEN conjunct1, rule_format]
  from TB[OF b2] have k2: "kept (mPurgeListBufferObject rm') (rm_Buffers rm') 2 \<lparr>mRefCount = 2, mMarkForDeletion = True\<rparr>"
    by simp
  from TB[OF b1] have f1: "freed_once (mPurgeListBufferObject rm') (rm_Buffers rm') (sweep_log purge_example rm') 1 (DeletedBuffer 1)"
    by simp
  from TP[OF p1] have fp: "freed_once (mPurgeListShaderPrograms rm') (rm_ShaderPrograms rm') (sweep_log purge_example rm') 1 (DeletedShaderProgram 1)"
    by (simp add: FreeForDeletion_def ShaderProgram_new_def)
  from TS[OF s1, unfolded rel] have fs1: "freed_once (mPurgeListShaders rm') (rm_Shaders rm') (sweep_log purge_example rm') 1 (DeletedShader 1)"
    by (simp add: Shader_new_def)
  from TS[OF s3, unfolded rel] have k3: "kept (mPurgeListShaders rm') (rm_Shaders rm') 3
        ((Shader_new SHADER_TYPE_VERTEX)\<lparr>mRefCount := 1, mMarkForDeletion := True\<rparr>)"
    by (simp add: Shader_new_def)
  from TS[OF s2, unfolded rel] have fs: "freed_once (mPurgeListShaders rm') (rm_Shaders rm') (sweep_log purge_example rm') 2 (DeletedShader 2)"
    by (simp add: Shader_new_def)
  have cnt: "map (\<lambda>s. mRefCount (the (rm_Shaders purge_example s))) [1, 2, 3] = [1, 0, 1]"
    unfolding list.map s1(2) s2(2) s3(2) by (simp add: Shader_new_def)
  have rels: "map (released_by_sweep purge_example) [1, 2, 3] = [1, 0, 0]"
    unfolding list.map rel by simp
  from r d dm rels cnt k2 f1 fp fs1 k3 fs show ?thesis by simp
qed

text \<open>
  Claim C8, as the code has it.  \<open>ReleaseVkObjects\<close> destroys each of the four native
  objects whose handle is not null, in the order pipeline layout, descriptor-set layout,
  descriptor set, descriptor pool, and leaves all four handles null.
\<close>

theorem ReleaseVkObjects_order:
  "snd (ReleaseVkObjects p log) =
     log @ (if mVkPipelineLayout p \<noteq> VK_NULL_HANDLE then [vkDestroyPipelineLayout (mVkPipelineLayout p)] else [])
         @ (if mVkDescSetLayout p \<noteq> VK_NULL_HANDLE then [vkDestroyDescriptorSetLayout (mVkDescSetLayout p)] else [])
         @ (if mVkDescSet p \<noteq> VK_NULL_HANDLE then [vkFreeDescriptorSets (mVkDescPool p) (mVkDescSet p)] else [])
         @ (if mVkDescPool p \<noteq> VK_NULL_HANDLE then [vkDestroyDescriptorPool (mVkDescPool p)] else []) \<and>
   mVkPipelineLayout (fst (ReleaseVkObjects p log)) = VK_NULL_HANDLE \<and>
   mVkDescSetLayout (fst (ReleaseVkObjects p log)) = VK_NULL_HANDLE \<and>
   mVkDescSet (fst (ReleaseVkObjects p log)) = VK_NULL_HANDLE \<and>
   mVkDescPool (fst (ReleaseVkObjects p log)) = VK_NULL_HANDLE"
  by (simp add: ReleaseVkObjects_def Let_def split: prod.splits)

theorem ReleaseVkObjects_order_witness:
  "snd (ReleaseVkObjects release_example []) =
     [vkDestroyPipelineLayout 4, vkDestroyDescriptorSetLayout 3, vkFreeDescriptorSets 2 1, vkDestroyDescriptorPool 2] \<and>
   mVkPipelineLayout (fst (ReleaseVkObjects release_example [])) = VK_NULL_HANDLE \<and>
   mVkDescSetLayout (fst (ReleaseVkObjects release_example [])) = VK_NULL_HANDLE \<and>
   mVkDescSet (fst (ReleaseVkObjects release_example [])) = VK_NULL_HANDLE \<and>
   mVkDescPool (fst (ReleaseVkObjects release_example [])) = VK_NULL_HANDLE"
  using ReleaseVkObjects_order [of release_example "[]"]
  by (simp add: release_example_def ShaderProgram_new_def)

text \<open>
  Claim C8 as stated names the order descriptor set, descriptor pool, descriptor-set
  layout, pipeline layout; the log of a program with all four objects is not in that
  order.  For a program without native objects no destroy call is made.
\<close>

theorem ReleaseVkObjects_order_counterexample:
  "snd (ReleaseVkObjects release_example []) \<noteq>
     [vkFreeDescriptorSets 2 1, vkDestroyDescriptorPool 2, vkDestroyDescriptorSetLayout 3, vkDestroyPipelineLayout 4] \<and>
   snd (ReleaseVkObjects ShaderProgram_new []) = []"
  by (simp add: ReleaseVkObjects_def release_example_def ShaderProgram_new_def Let_def)

text \<open>
  Claim C10.  A program has shader \<open>T\<close> attached; \<open>AttachShader\<close> with another shader
  \<open>S\<close> of the same stage kind binds \<open>S\<close> (its reference count grows by one), puts \<open>S\<close>
  in the slot and leaves \<open>T\<close> untouched: the reference count of \<open>T\<close> is unchanged, \<open>T\<close> is
  no longer attached, and \<open>DetachShader\<close> on \<open>T\<close> changes nothing.  \<open>DetachShader\<close> on the
  attached \<open>S\<close> clears the slot and unbinds \<open>S\<close>.
\<close>

theorem AttachShader_replaces_without_unbind:
  assumes "st t = Some T" and "st s = Some S" and "s \<noteq> t"
    and "mShaderType S = mShaderType T"
    and "mShaderType T = SHADER_TYPE_VERTEX \<or> mShaderType T = SHADER_TYPE_FRAGMENT"
    and "IsShaderAttached p st (Some t) = Some (Some t)"
  shows "\<exists>p' st'. AttachShader p st (Some s) = Some (p', st') \<and>
           mShaders p' (if mShaderType S = SHADER_TYPE_VERTEX then 0 else 1) = Some s \<and>
           IsShaderAttached p' st' (Some s) = Some (Some s) \<and>
           st' s = Some (Bind S) \<and> mRefCount (Bind S) = mRefCount S + 1 \<and>
           st' t = Some T \<and>
           IsShaderAttached p' st' (Some t) = Some None \<and>
           DetachShader p' st' (Some t) = Some (p', st') \<and>
           (\<exists>p'' st''. DetachShader p' st' (Some s) = Some (p'', st'') \<and>
               st'' s = Some (Unbind (Bind S)) \<and> Unbind (Bind S) = S \<and> st'' t = Some T \<and>
               mShaders p'' (if mShaderType S = SHADER_TYPE_VERTEX then 0 else 1) = None)"
  using assms
  by (auto simp: AttachShader_def IsShaderAttached_def DetachShader_def Bind_def Unbind_def split: if_splits)

theorem AttachShader_replaces_without_unbind_witness:
  "attach_example_store 1 = Some ((Shader_new SHADER_TYPE_VERTEX)\<lparr>mRefCount := 1\<rparr>) \<and>
   attach_example_store 2 = Some (Shader_new SHADER_TYPE_VERTEX) \<and>
   IsShaderAttached attach_example_program attach_example_store (Some 1) = Some (Some 1) \<and>
   map_option (\<lambda>(p', st'). (mShaders p' 0, map_option mRefCount (st' 1), map_option mRefCount (st' 2),
                              DetachShader p' st' (Some 1) = Some (p', st')))
     (AttachShader attach_example_program attach_example_store (Some 2)) =
   Some (Some 2, Some 1, Some 1, True)"
  using AttachShader_replaces_without_unbind [of attach_example_store 1
          "(Shader_new SHADER_TYPE_VERTEX)\<lparr>mRefCount := 1\<rparr>" 2 "Shader_new SHADER_TYPE_VERTEX" attach_example_program]
  by (auto simp: attach_example_store_def attach_example_program_def Shader_new_def ShaderProgram_new_def
       IsShaderAttached_def Bind_def)

lemma pushes_replicate: "pushes (replicate n (Push obj)) = n"
  by (induction n) simp_all

text \<open>
  Claim C9, as the code has it.  For every sequence of pushes and erasures that does not
  take the 32-bit ID counter past its last value: the IDs returned by the pushes are
  strictly increasing, ID 0 is never a shading object, and an ID that was handed out and
  then erased is not handed out again.
\<close>

theorem PushShadingObject_ids_increase:
  assumes "unat (mShadingObjectCount rm) + pushes cs \<le> 2 ^ 32"
  shows "sorted_wrt (<) (fst (shadingCalls cs rm)) \<and>
         (\<forall>i\<in>set (fst (shadingCalls cs rm)). mShadingObjectCount rm \<le> i) \<and>
         (\<forall>t. \<not> IsShadingObject (snd (shadingCalls cs rm)) 0 t) \<and>
         (\<forall>cs1 e cs2. cs = cs1 @ Erase e # cs2 \<and> e \<in> set (fst (shadingCalls cs1 rm)) \<longrightarrow>
              e \<notin> set (fst (shadingCalls cs2 (snd (shadingCalls (cs1 @ [Erase e]) rm)))))"
proof -
  let ?c = "mShadingObjectCount rm"
  have 1: "sorted_wrt (<) (fst (shadingCalls cs rm))"
    unfolding shadingCalls_ids using assms by (rule ids_increasing)
  have 2: "\<forall>i\<in>set (fst (shadingCalls cs rm)). ?c \<le> i"
  proof
    fix i assume "i \<in> set (fst (shadingCalls cs rm))"
    then obtain k where k: "k < pushes cs" "i = ?c + of_nat k"
      by (auto simp: shadingCalls_ids)
    with assms have "unat ?c + k < 2 ^ 32" by simp
    then have "unat i = unat ?c + k" using k by (simp add: unat_count_plus)
    then show "?c \<le> i" by (simp add: word_le_nat_alt)
  qed
  have 3: "\<forall>t. \<not> IsShadingObject (snd (shadingCalls cs rm)) 0 t"
    by (simp add: IsShadingObject_zero)
  have 4: "e \<notin> set (fst (shadingCalls cs2 (snd (shadingCalls (cs1 @ [Erase e]) rm))))"
    if cs: "cs = cs1 @ Erase e # cs2" and e: "e \<in> set (fst (shadingCalls cs1 rm))" for cs1 e cs2
  proof
    assume "e \<in> set (fst (shadingCalls cs2 (snd (shadingCalls (cs1 @ [Erase e]) rm))))"
    moreover have "mShadingObjectCount (snd (shadingCalls (cs1 @ [Erase e]) rm)) = ?c + of_nat (pushes cs1)"
      by (simp add: shadingCalls_append shadingCalls_count EraseShadingObject_def)
    ultimately obtain j where j: "j < pushes cs2" "e = ?c + of_nat (pushes cs1) + of_nat j"
      by (auto simp: shadingCalls_ids)
    from e obtain i where i: "i < pushes cs1" "e = ?c + of_nat i"
      by (auto simp: shadingCalls_ids)
    from cs have n: "pushes cs = pushes cs1 + pushes cs2" by (simp add: pushes_append)
    from assms n i j have b: "unat ?c + i < 2 ^ 32" "unat ?c + (pushes cs1 + j) < 2 ^ 32" by simp_all
    have "unat e = unat ?c + i" using i b(1) by (simp add: unat_count_plus)
    moreover have "e = ?c + of_nat (pushes cs1 + j)" using j by (simp add: add.assoc)
    then have "unat e = unat ?c + (pushes cs1 + j)" using b(2) by (simp only: unat_count_plus)
    ultimately show False using i(1) by simp
  qed
  from 1 2 3 4 show ?thesis by blast
qed

theorem PushShadingObject_ids_increase_witness:
  "unat (mShadingObjectCount ResourceManager_new)
     + pushes [Push \<lparr>arrayIndex = 1, ns_type = SHADER_ID\<rparr>, Erase 1, Push \<lparr>arrayIndex = 1, ns_type = SHADER_PROGRAM_ID\<rparr>] \<le> 2 ^ 32 \<and>
   fst (shadingCalls [Push \<lparr>arrayIndex = 1, ns_type = SHADER_ID\<rparr>, Erase 1, Push \<lparr>arrayIndex = 1, ns_type = SHADER_PROGRAM_ID\<rparr>]
          ResourceManager_new) = [1, 2] \<and>
   sorted_wrt (<) (fst (shadingCalls [Push \<lparr>arrayIndex = 1, ns_type = SHADER_ID\<rparr>, Erase 1, Push \<lparr>arrayIndex = 1, ns_type = SHADER_PROGRAM_ID\<rparr>]
          ResourceManager_new))"
  using PushShadingObject_ids_increase [of ResourceManager_new
          "[Push \<lparr>arrayIndex = 1, ns_type = SHADER_ID\<rparr>, Erase 1, Push \<lparr>arrayIndex = 1, ns_type = SHADER_PROGRAM_ID\<rparr>]"]
  by (simp add: ResourceManager_new_def PushShadingObject_def EraseShadingObject_def)

text \<open>
  Claim C9 as stated fails when the counter wraps around: after 4294967294 pushes the
  counter of a new resource manager is 4294967295, and the next two pushes return
  4294967295 and then 0.
\<close>

theorem PushShadingObject_ids_increase_counterexample:
  "mShadingObjectCount (snd (shadingCalls (replicate 4294967294 (Push \<lparr>arrayIndex = 1, ns_type = SHADER_ID\<rparr>))
       ResourceManager_new)) = 4294967295 \<and>
   fst (shadingCalls [Push \<lparr>arrayIndex = 1, ns_type = SHADER_ID\<rparr>, Push \<lparr>arrayIndex = 2, ns_type = SHADER_ID\<rparr>]
       (ResourceManager_new\<lparr>mShadingObjectCount := 4294967295\<rparr>)) = [4294967295, 0]"
  by (simp add: shadingCalls_count pushes_replicate ResourceManager_new_def PushShadingObject_def)

subsection \<open>Linking\<close>

lemma ValidateProgram_result:
  assumes "slots_allocated p st"
  shows "ValidateProgram cfg p st sc =
           Some (if stages_compiled p st
                 then (sc_validates sc,
                       sc_call (ValidateProgram_call ESSL_VERSION_100)
                         (sc_call_if (GLOVE_DUMP_INPUT_SHADER_REFLECTION cfg) (EnablePrintReflection ESSL_VERSION_100) sc))
                 else (False, sc))"
  using assms
  by (auto simp: ValidateProgram_def stages_compiled_def slots_allocated_def split: option.splits)

lemma sc_call_fields [simp]:
  "sc_validates (sc_call c sc) = sc_validates sc"
  "sc_preprocesses (sc_call c sc) = sc_preprocesses sc"
  "sc_links (sc_call c sc) = sc_links sc"
  "sc_linked (sc_call c sc) = sc_linked sc"
  "sc_prepared (sc_call c sc) = sc_prepared sc"
  "sc_spv (sc_call c sc) = sc_spv sc"
  "sc_reflection (sc_call c sc) = sc_reflection sc"
  by (simp_all add: sc_call_def)

lemma sc_call_if_fields [simp]:
  "sc_validates (sc_call_if b c sc) = sc_validates sc"
  "sc_preprocesses (sc_call_if b c sc) = sc_preprocesses sc"
  "sc_links (sc_call_if b c sc) = sc_links sc"
  "sc_linked (sc_call_if b c sc) = sc_linked sc"
  "sc_prepared (sc_call_if b c sc) = sc_prepared sc"
  "sc_spv (sc_call_if b c sc) = sc_spv sc"
  "sc_reflection (sc_call_if b c sc) = sc_reflection sc"
  by (simp_all add: sc_call_if_def)

lemma link_debug_switches_fields [simp]:
  "sc_validates (link_debug_switches cfg sc) = sc_validates sc"
  "sc_preprocesses (link_debug_switches cfg sc) = sc_preprocesses sc"
  "sc_links (link_debug_switches cfg sc) = sc_links sc"
  "sc_linked (link_debug_switches cfg sc) = sc_linked sc"
  "sc_prepared (link_debug_switches cfg sc) = sc_prepared sc"
  by (simp_all add: link_debug_switches_def)

lemma preprocess_stages_fst:
  "fst (preprocess_stages ctx sc) = (sc_preprocesses sc SHADER_TYPE_VERTEX \<and> sc_preprocesses sc SHADER_TYPE_FRAGMENT)"
  by (simp add: preprocess_stages_def Let_def)

lemma preprocess_stages_fields [simp]:
  "sc_links (snd (preprocess_stages ctx sc)) = sc_links sc"
  "sc_linked (snd (preprocess_stages ctx sc)) = sc_linked sc"
  by (simp_all add: preprocess_stages_def Let_def)

lemma ReleaseVkObjects_fields [simp]:
  "mShaderResourceInterface (fst (ReleaseVkObjects p log)) = mShaderResourceInterface p"
  "mLinked (fst (ReleaseVkObjects p log)) = mLinked p"
  "mShaders (fst (ReleaseVkObjects p log)) = mShaders p"
  by (simp_all add: ReleaseVkObjects_def Let_def split: prod.splits)

lemma AllocateVkDescriptoSet_fields [simp]:
  "mShaderResourceInterface (fst (AllocateVkDescriptoSet p dev)) = mShaderResourceInterface p"
  "mLinked (fst (AllocateVkDescriptoSet p dev)) = mLinked p"
  "mShaders (fst (AllocateVkDescriptoSet p dev)) = mShaders p"
proof -
  obtain p1 log1 where r: "ReleaseVkObjects p (vk_log dev) = (p1, log1)" by (cases "ReleaseVkObjects p (vk_log dev)")
  from r have "p1 = fst (ReleaseVkObjects p (vk_log dev))" by simp
  then have f: "mShaderResourceInterface p1 = mShaderResourceInterface p" "mLinked p1 = mLinked p" "mShaders p1 = mShaders p"
    by simp_all
  show "mShaderResourceInterface (fst (AllocateVkDescriptoSet p dev)) = mShaderResourceInterface p"
    "mLinked (fst (AllocateVkDescriptoSet p dev)) = mLinked p"
    "mShaders (fst (AllocateVkDescriptoSet p dev)) = mShaders p"
    using f
    by (simp_all add: AllocateVkDescriptoSet_def r Let_def CreateDescriptorSetLayout_def
          CreateDescriptorPool_def CreateDescriptorSet_def split: prod.splits)
qed

lemma BuildShaderResourceInterface_fields [simp]:
  "mShaderResourceInterface (fst (BuildShaderResourceInterface p sc dev)) = CreateInterface (sc_reflection sc)"
  "mLinked (fst (BuildShaderResourceInterface p sc dev)) = mLinked p"
  "mUpdateDescriptorSets (fst (BuildShaderResourceInterface p sc dev))"
  "mUpdateDescriptorData (fst (BuildShaderResourceInterface p sc dev))"
proof -
  let ?p1 = "p\<lparr>mShaderResourceInterface := CreateInterface (sc_reflection sc)\<rparr>"
  obtain p2 dev2 where a: "AllocateVkDescriptoSet ?p1 dev = (p2, dev2)" by (cases "AllocateVkDescriptoSet ?p1 dev")
  then have "p2 = fst (AllocateVkDescriptoSet ?p1 dev)" by simp
  then have "mShaderResourceInterface p2 = CreateInterface (sc_reflection sc)" "mLinked p2 = mLinked p"
    by simp_all
  then show "mShaderResourceInterface (fst (BuildShaderResourceInterface p sc dev)) = CreateInterface (sc_reflection sc)"
  "mLinked (fst (BuildShaderResourceInterface p sc dev)) = mLinked p"
  "mUpdateDescriptorSets (fst (BuildShaderResourceInterface p sc dev))"
  "mUpdateDescriptorData (fst (BuildShaderResourceInterface p sc dev))"
    by (simp_all add: BuildShaderResourceInterface_def Let_def a)
qed


lemma compiler_LinkProgram_result:
  assumes "stages_compiled p st"
  shows "\<exists>st1 sc1. compiler_LinkProgram p st sc = Some (sc_links sc, st1, sc1) \<and>
           sc_reflection sc1 = (if sc_links sc then sc_linked sc else sc_reflection sc)"
  using assms
  by (auto simp: compiler_LinkProgram_def stages_compiled_def split: option.splits)

lemma LinkProgram_result:
  assumes alloc: "slots_allocated p st"
  shows "\<exists>b p' st' sc' dev'.
           LinkProgram cfg ctx p st sc dev = Some (b, p', st', sc', dev') \<and>
           mLinked p' = b \<and>
           (b \<longleftrightarrow> stages_compiled p st \<and> sc_validates sc \<and>
                  sc_preprocesses sc SHADER_TYPE_VERTEX \<and> sc_preprocesses sc SHADER_TYPE_FRAGMENT \<and>
                  sc_links sc \<and>
                  length (refl_uniforms (sc_linked sc)) \<le> GLOVE_MAX_VERTEX_UNIFORM_VECTORS cfg \<and>
                  length (refl_uniforms (sc_linked sc)) \<le> GLOVE_MAX_FRAGMENT_UNIFORM_VECTORS cfg \<and>
                  length (refl_attributes (sc_linked sc)) \<le> GLOVE_MAX_VERTEX_ATTRIBS cfg) \<and>
           (\<not> stages_compiled p st \<longrightarrow> p' = p\<lparr>mLinked := False\<rparr> \<and> st' = st \<and> sc' = sc \<and> dev' = dev)"
proof (cases "stages_compiled p st \<and> sc_validates sc")
  case False
  then show ?thesis
    by (auto simp: LinkProgram_def ValidateProgram_result[OF alloc])
next
  case True
  define sc1 where "sc1 = sc_call (ValidateProgram_call ESSL_VERSION_100)
                         (sc_call_if (GLOVE_DUMP_INPUT_SHADER_REFLECTION cfg) (EnablePrintReflection ESSL_VERSION_100) sc)"
  define sc2 where "sc2 = link_debug_switches cfg sc1"
  define p1 where "p1 = ResetVulkanVertexInput (p\<lparr>mLinked := True\<rparr>)"
  define sc3 where "sc3 = (sc_call (PrepareReflection ESSL_VERSION_100) sc2)\<lparr>sc_reflection := sc_prepared sc2\<rparr>"
  define p2 where "p2 = fst (UpdateAttributeInterface p1 sc3)"
  define sc4 where "sc4 = snd (UpdateAttributeInterface p1 sc3)"
  define sc5 where "sc5 = snd (preprocess_stages ctx sc4)"
  have sc4f: "sc_preprocesses sc4 = sc_preprocesses sc" "sc_links sc4 = sc_links sc" "sc_linked sc4 = sc_linked sc"
    by (simp_all add: sc4_def sc3_def sc2_def sc1_def UpdateAttributeInterface_def)
  have pre: "fst (preprocess_stages ctx sc4) = (sc_preprocesses sc SHADER_TYPE_VERTEX \<and> sc_preprocesses sc SHADER_TYPE_FRAGMENT)"
    by (simp add: preprocess_stages_fst sc4f)
  have sc5f: "sc_links sc5 = sc_links sc" "sc_linked sc5 = sc_linked sc"
    by (simp_all add: sc5_def sc4f)
  have p2s: "mShaders p2 = mShaders p"
    by (simp add: p2_def p1_def UpdateAttributeInterface_def ResetVulkanVertexInput_def)
  have "stages_compiled p2 st" using True unfolding stages_compiled_def p2s by simp
  from compiler_LinkProgram_result[OF this, of sc5] obtain st1 sc6 where
    cl: "compiler_LinkProgram p2 st sc5 = Some (sc_links sc, st1, sc6)"
    and r6: "sc_reflection sc6 = (if sc_links sc then sc_linked sc else sc_reflection sc5)"
    by (auto simp: sc5f)
  have start: "LinkProgram cfg ctx p st sc dev =
      (if \<not> fst (preprocess_stages ctx sc4) then Some (False, p2\<lparr>mLinked := False\<rparr>, st, sc5, dev)
       else if \<not> sc_links sc then Some (False, p2\<lparr>mLinked := False\<rparr>, st1, sc6, dev)
       else (let (p3, sc7, dev1) = BuildShaderResourceInterface (p2\<lparr>mLinked := True\<rparr>) sc6 dev
             in if GetNumberOfActiveUniforms p3 > GLOVE_MAX_VERTEX_UNIFORM_VECTORS cfg \<or>
                   GetNumberOfActiveUniforms p3 > GLOVE_MAX_FRAGMENT_UNIFORM_VECTORS cfg \<or>
                   GetNumberOfActiveAttributes p3 > GLOVE_MAX_VERTEX_ATTRIBS cfg
                then Some (False, p3\<lparr>mLinked := False\<rparr>, st1, sc7, dev1)
                else Some (mLinked p3, p3, st1,
                           sc_call_if (GLOVE_DUMP_VULKAN_SHADER_REFLECTION cfg) PrintUniformReflection sc7,
                           dev1)))"
    using True cl
    by (simp add: LinkProgram_def ValidateProgram_result[OF alloc] Let_def split_beta
        sc1_def sc2_def p1_def sc3_def p2_def sc4_def sc5_def)
  show ?thesis
  proof (cases "fst (preprocess_stages ctx sc4)")
    case False
    with start pre True show ?thesis by auto
  next
    case pp: True
    show ?thesis
    proof (cases "sc_links sc")
      case False
      with start pp pre True show ?thesis by auto
    next
      case lk: True
      obtain p3 sc7 dev1 where b: "BuildShaderResourceInterface (p2\<lparr>mLinked := True\<rparr>) sc6 dev = (p3, sc7, dev1)"
        by (cases "BuildShaderResourceInterface (p2\<lparr>mLinked := True\<rparr>) sc6 dev") auto
      then have "p3 = fst (BuildShaderResourceInterface (p2\<lparr>mLinked := True\<rparr>) sc6 dev)" by simp
      then have p3f: "mShaderResourceInterface p3 = CreateInterface (sc_linked sc)" "mLinked p3"
        using r6 lk by simp_all
      have n: "GetNumberOfActiveUniforms p3 = length (refl_uniforms (sc_linked sc))"
        "GetNumberOfActiveAttributes p3 = length (refl_attributes (sc_linked sc))"
        by (simp_all add: GetNumberOfActiveUniforms_def GetNumberOfActiveAttributes_def GetLiveUniforms_def
              GetLiveAttributes_def p3f CreateInterface_def)
      from start pp lk b n p3f True pre show ?thesis
        by (auto simp: not_less)
    qed
  qed
qed


text \<open>
  Claim C1, as the code has it.  For a program whose slots hold allocated shaders,
  \<open>LinkProgram\<close> returns a flag and sets the linked flag of the program to it.  The flag
  is true if and only if both stage slots hold a shader, both shaders report compiled, the
  compiler validates the program, preprocesses the vertex and the fragment stage and
  links them, and the numbers of active uniforms and attributes after the link are within
  the three configured limits.  When a stage is missing or not compiled the call fails at
  once: only the linked flag changes, and the compiler and the device are not touched.
\<close>

theorem LinkProgram_succeeds_iff:
  assumes alloc: "slots_allocated p st"
  shows "\<exists>b p' st' sc' dev'.
           LinkProgram cfg ctx p st sc dev = Some (b, p', st', sc', dev') \<and>
           mLinked p' = b \<and>
           (b \<longleftrightarrow> stages_compiled p st \<and> sc_validates sc \<and>
                  sc_preprocesses sc SHADER_TYPE_VERTEX \<and> sc_preprocesses sc SHADER_TYPE_FRAGMENT \<and>
                  sc_links sc \<and>
                  length (refl_uniforms (sc_linked sc)) \<le> GLOVE_MAX_VERTEX_UNIFORM_VECTORS cfg \<and>
                  length (refl_uniforms (sc_linked sc)) \<le> GLOVE_MAX_FRAGMENT_UNIFORM_VECTORS cfg \<and>
                  length (refl_attributes (sc_linked sc)) \<le> GLOVE_MAX_VERTEX_ATTRIBS cfg) \<and>
           (\<not> stages_compiled p st \<longrightarrow> p' = p\<lparr>mLinked := False\<rparr> \<and> st' = st \<and> sc' = sc \<and> dev' = dev)"
  using alloc by (rule LinkProgram_result)

theorem LinkProgram_succeeds_iff_witness:
  "slots_allocated link_example_program link_example_store \<and>
   stages_compiled link_example_program link_example_store \<and>
   map_option (\<lambda>(b, p', r). (b, mLinked p'))
     (LinkProgram example_config example_context link_example_program link_example_store
        example_compiler example_device) = Some (True, True)"
proof -
  have a: "slots_allocated link_example_program link_example_store"
    by (simp add: slots_allocated_def link_example_program_def link_example_store_def)
  have c: "stages_compiled link_example_program link_example_store"
    by (simp add: stages_compiled_def link_example_program_def link_example_store_def Shader_new_def)
  have l: "sc_validates example_compiler" "sc_preprocesses example_compiler SHADER_TYPE_VERTEX"
    "sc_preprocesses example_compiler SHADER_TYPE_FRAGMENT" "sc_links example_compiler"
    "length (refl_uniforms (sc_linked example_compiler)) \<le> GLOVE_MAX_VERTEX_UNIFORM_VECTORS example_config"
    "length (refl_uniforms (sc_linked example_compiler)) \<le> GLOVE_MAX_FRAGMENT_UNIFORM_VECTORS example_config"
    "length (refl_attributes (sc_linked example_compiler)) \<le> GLOVE_MAX_VERTEX_ATTRIBS example_config"
    by (simp_all add: example_compiler_def example_config_def example_reflection_def)
  from LinkProgram_succeeds_iff [OF a, of example_config example_context example_compiler example_device] c l
  show ?thesis using a by auto
qed

text \<open>
  Claim C1 as stated fails when the compiler rejects the program: both stages are attached
  and compiled and the counts are within the limits, and \<open>LinkProgram\<close> returns false.
\<close>

theorem LinkProgram_succeeds_iff_counterexample:
  "stages_compiled link_example_program link_example_store \<and>
   length (refl_uniforms (sc_linked example_compiler)) \<le> GLOVE_MAX_VERTEX_UNIFORM_VECTORS example_config \<and>
   length (refl_uniforms (sc_linked example_compiler)) \<le> GLOVE_MAX_FRAGMENT_UNIFORM_VECTORS example_config \<and>
   length (refl_attributes (sc_linked example_compiler)) \<le> GLOVE_MAX_VERTEX_ATTRIBS example_config \<and>
   map_option (\<lambda>(b, p', r). (b, mLinked p'))
     (LinkProgram example_config example_context link_example_program link_example_store
        (example_compiler\<lparr>sc_validates := False\<rparr>) example_device) = Some (False, False)"
  by (simp add: LinkProgram_def ValidateProgram_def stages_compiled_def link_example_program_def
       link_example_store_def Shader_new_def example_compiler_def example_config_def example_reflection_def)

subsection \<open>The descriptor update\<close>

lemma block_writes_length:
  "block_writes p blockmap is = Some ws \<Longrightarrow> length ws = length is"
  by (induction "is" arbitrary: ws) (auto split: option.splits)

lemma UpdateSamplerDescriptors_log:
  assumes "UpdateSamplerDescriptors cfg api ctx p h cm dev = Some (p', h', cm', dev')"
  shows "\<exists>ws ds. vk_log dev' = vk_log dev @ [vkUpdateDescriptorSets ws ds] \<and>
           length ws = GetLiveUniformBlocks (mShaderResourceInterface p)"
  using assms
  by (auto simp: UpdateSamplerDescriptors_def Let_def split: option.splits if_splits prod.splits
        dest: block_writes_length)

lemma uniform_write_frame:
  "mVkDescSet (uniform_write w p) = mVkDescSet p"
  "sri_blocks (mShaderResourceInterface (uniform_write w p)) = sri_blocks (mShaderResourceInterface p)"
  "mUpdateDescriptorSets (uniform_write w p) = (mUpdateDescriptorSets p \<or> is_sampler_write w)"
  by (cases w; simp add: SetUniformData_def SetUniformSampler_def SetUniformClientData_def sri_SetUniformSampler_def)+

lemma fold_uniform_write_frame:
  "mVkDescSet (fold uniform_write ws p) = mVkDescSet p \<and>
   sri_blocks (mShaderResourceInterface (fold uniform_write ws p)) = sri_blocks (mShaderResourceInterface p) \<and>
   mUpdateDescriptorSets (fold uniform_write ws p) = (mUpdateDescriptorSets p \<or> list_ex is_sampler_write ws)"
  by (induction ws arbitrary: p) (simp_all add: uniform_write_frame)

lemma uniform_writes_flags:
  "mUpdateDescriptorSets (uniform_writes ws p) = (mUpdateDescriptorSets p \<or> list_ex is_sampler_write ws)"
  "mVkDescSet (uniform_writes ws p) = mVkDescSet p"
  "GetLiveUniformBlocks (mShaderResourceInterface (uniform_writes ws p)) = GetLiveUniformBlocks (mShaderResourceInterface p)"
  by (simp_all add: uniform_writes_def fold_uniform_write_frame GetLiveUniformBlocks_def)

lemma UpdateDescriptorSet_result:
  assumes "UpdateDescriptorSet cfg api flush ctx p h cm dev = Some (p', h', cm', dev')"
  shows "(GetLiveUniformBlocks (mShaderResourceInterface p) = 0 \<longrightarrow> p' = p \<and> h' = h \<and> cm' = cm \<and> dev' = dev) \<and>
         (\<exists>new. vk_log dev' = vk_log dev @ new \<and>
                 new = descriptor_updates new \<and>
                 length new = (if GetLiveUniformBlocks (mShaderResourceInterface p) \<noteq> 0 \<and>
                                  descriptor_sets_dirty flush ctx p then 1 else 0) \<and>
                 (\<forall>writes descs. vkUpdateDescriptorSets writes descs \<in> set new \<longrightarrow>
                      length writes = GetLiveUniformBlocks (mShaderResourceInterface p')))"
proof (cases "GetLiveUniformBlocks (mShaderResourceInterface p) = 0")
  case True
  with assms show ?thesis
    by (auto simp: UpdateDescriptorSet_def descriptor_updates_def split: if_splits)
next
  case False
  define p1 where "p1 = (if mUpdateDescriptorData p
                   then p\<lparr>mShaderResourceInterface := fst (flush (mShaderResourceInterface p)),
                          mUpdateDescriptorSets :=
                            (if snd (flush (mShaderResourceInterface p)) then True else mUpdateDescriptorSets p),
                          mUpdateDescriptorData := False\<rparr>
                   else p)"
  define p2 where "p2 = (if sampler_attached_to_fbo ctx (mShaderResourceInterface p1)
                   then p1\<lparr>mUpdateDescriptorSets := True\<rparr> else p1)"
  have dirty: "mUpdateDescriptorSets p2 = descriptor_sets_dirty flush ctx p"
    by (auto simp: p2_def p1_def descriptor_sets_dirty_def)
  have n2: "GetLiveUniformBlocks (mShaderResourceInterface p2) = GetLiveUniformBlocks (mShaderResourceInterface p1)"
    by (simp add: p2_def)
  from assms False have r: "(if \<not> mUpdateDescriptorSets p2 then Some (p2, h, cm, dev)
            else (case UpdateSamplerDescriptors cfg api ctx p2 h cm dev of
                    None \<Rightarrow> None
                  | Some (p3, h3, cm3, dev3) \<Rightarrow> Some (p3\<lparr>mUpdateDescriptorSets := False\<rparr>, h3, cm3, dev3))) =
            Some (p', h', cm', dev')"
    unfolding UpdateDescriptorSet_def Let_def p1_def[symmetric] p2_def[symmetric]
    by (simp split: if_splits)
  show ?thesis
  proof (cases "mUpdateDescriptorSets p2")
    case clean: False
    with r dirty False show ?thesis by (auto simp: descriptor_updates_def)
  next
    case True
    with r obtain p3 where u: "UpdateSamplerDescriptors cfg api ctx p2 h cm dev = Some (p3, h', cm', dev')"
      and p': "p' = p3\<lparr>mUpdateDescriptorSets := False\<rparr>"
      by (auto split: option.splits)
    from UpdateSamplerDescriptors_log[OF u] obtain ws ds where
      l: "vk_log dev' = vk_log dev @ [vkUpdateDescriptorSets ws ds]" "length ws = GetLiveUniformBlocks (mShaderResourceInterface p2)"
      by blast
    from u have "mShaderResourceInterface p3 = mShaderResourceInterface p2"
      by (auto simp: UpdateSamplerDescriptors_def Let_def split: option.splits if_splits)
    with l(2) p' have "length ws = GetLiveUniformBlocks (mShaderResourceInterface p')" by simp
    with l True dirty False show ?thesis by (auto simp: descriptor_updates_def)
  qed
qed


lemma UpdateDescriptorSet_clean_returns:
  assumes "assert_passes cfg (mVkDescSet p \<noteq> VK_NULL_HANDLE)"
    and "GetLiveUniformBlocks (mShaderResourceInterface p) = 0 \<or> \<not> descriptor_sets_dirty flush ctx p"
  shows "\<exists>p'. UpdateDescriptorSet cfg api flush ctx p h cm dev = Some (p', h, cm, dev)"
  using assms
  by (auto simp: UpdateDescriptorSet_def Let_def descriptor_sets_dirty_def)

text \<open>
  Claim C3, as the code has it.  \<open>UpdateDescriptorSet\<close> after any sequence of uniform
  writes: with no live uniform block the call changes nothing; otherwise the only native
  calls it adds are descriptor updates, at most one, and exactly one if and only if the
  descriptor sets are found dirty (the flag was set, as by a sampler write; or the
  transfer of dirty uniform data allocated a new buffer object; or a sampler's texture is
  a colour attachment of a framebuffer).  That one call carries a write for each
  uniform block.  Written uniform data alone does not cause a call.
\<close>

theorem UpdateDescriptorSet_batches:
  assumes "UpdateDescriptorSet cfg api flush ctx (uniform_writes ws p) h cm dev = Some (p', h', cm', dev')"
  shows "(GetLiveUniformBlocks (mShaderResourceInterface p) = 0 \<longrightarrow>
            p' = uniform_writes ws p \<and> h' = h \<and> cm' = cm \<and> dev' = dev) \<and>
         (\<exists>new. vk_log dev' = vk_log dev @ new \<and>
                 new = descriptor_updates new \<and>
                 length new \<le> 1 \<and>
                 (length new = 1 \<longleftrightarrow>
                    GetLiveUniformBlocks (mShaderResourceInterface p) \<noteq> 0 \<and>
                    descriptor_sets_dirty flush ctx (uniform_writes ws p)) \<and>
                 (GetLiveUniformBlocks (mShaderResourceInterface p) \<noteq> 0 \<and> list_ex is_sampler_write ws
                    \<longrightarrow> length new = 1) \<and>
                 (\<forall>writes descs. vkUpdateDescriptorSets writes descs \<in> set new \<longrightarrow>
                      length writes = GetLiveUniformBlocks (mShaderResourceInterface p')))"
proof -
  note R = UpdateDescriptorSet_result[OF assms, unfolded uniform_writes_flags(3)]
  from R obtain new where n: "vk_log dev' = vk_log dev @ new" "new = descriptor_updates new"
    "length new = (if GetLiveUniformBlocks (mShaderResourceInterface p) \<noteq> 0 \<and>
                      descriptor_sets_dirty flush ctx (uniform_writes ws p) then 1 else 0)"
    "\<forall>writes descs. vkUpdateDescriptorSets writes descs \<in> set new \<longrightarrow>
        length writes = GetLiveUniformBlocks (mShaderResourceInterface p')"
    by blast
  have s: "list_ex is_sampler_write ws \<Longrightarrow> descriptor_sets_dirty flush ctx (uniform_writes ws p)"
    by (simp add: descriptor_sets_dirty_def uniform_writes_flags(1))
  from n(3) s have
    "length new \<le> 1"
    "length new = 1 \<longleftrightarrow> GetLiveUniformBlocks (mShaderResourceInterface p) \<noteq> 0 \<and>
                    descriptor_sets_dirty flush ctx (uniform_writes ws p)"
    "GetLiveUniformBlocks (mShaderResourceInterface p) \<noteq> 0 \<and> list_ex is_sampler_write ws \<longrightarrow> length new = 1"
    by auto
  with n(1,2,4) R show ?thesis by blast
qed

lemma example_update:
  "map_option (\<lambda>(p', h', cm', dev'). (vk_log dev', mUpdateDescriptorSets p'))
     (UpdateDescriptorSet example_config (example_api 1) flush_in_place texture_context
        (uniform_writes [WriteData 1 [1, 2, 3, 4], WriteSampler 0 0] descriptor_example_program)
        example_heap example_cache example_device) =
   Some ([vkUpdateDescriptorSets
            [\<lparr>wr_dstSet = 8, wr_dstBinding = 0, wr_descriptorType = VK_DESCRIPTOR_TYPE_COMBINED_IMAGE_SAMPLER,
              wr_descriptorCount = 1, wr_pImageInfo = Some 0, wr_pBufferInfo = None\<rparr>,
             \<lparr>wr_dstSet = 8, wr_dstBinding = 1, wr_descriptorType = VK_DESCRIPTOR_TYPE_UNIFORM_BUFFER,
              wr_descriptorCount = 1, wr_pImageInfo = None, wr_pBufferInfo = Some 9\<rparr>]
            [\<lparr>di_sampler = 11, di_imageLayout = 5, di_imageView = 12, di_texture = 1\<rparr>]],
         False)"
  by (simp add: UpdateDescriptorSet_def UpdateSamplerDescriptors_def uniform_writes_def
      SetUniformData_def SetUniformSampler_def SetUniformClientData_def sri_SetUniformSampler_def
      descriptor_example_program_def ShaderProgram_new_def example_config_def assert_passes_def
      GetLiveUniformBlocks_def flush_in_place_def sampler_attached_to_fbo_def is_sampler_def
      IsTextureAttachedToFBO_def GetActiveTexture_def texture_context_def example_context_def
      sampler_descriptor_def example_heap_def example_texture_def Texture_new_def example_api_def
      example_cache_def example_device_def block_write_def upt_rec Let_def)


theorem UpdateDescriptorSet_batches_witness:
  "list_ex is_sampler_write [WriteData 1 [1, 2, 3, 4], WriteSampler 0 0] \<and>
   GetLiveUniformBlocks (mShaderResourceInterface descriptor_example_program) = 2 \<and>
   UpdateDescriptorSet example_config (example_api 1) flush_in_place texture_context
        (uniform_writes [WriteData 1 [1, 2, 3, 4], WriteSampler 0 0] descriptor_example_program)
        example_heap example_cache example_device \<noteq> None \<and>
   length (descriptor_updates (vk_log (snd (snd (snd (the
     (UpdateDescriptorSet example_config (example_api 1) flush_in_place texture_context
        (uniform_writes [WriteData 1 [1, 2, 3, 4], WriteSampler 0 0] descriptor_example_program)
        example_heap example_cache example_device))))))) = 1"
proof -
  let ?ws = "[WriteData 1 [1, 2, 3, 4], WriteSampler 0 0]"
  let ?r = "UpdateDescriptorSet example_config (example_api 1) flush_in_place texture_context
        (uniform_writes ?ws descriptor_example_program) example_heap example_cache example_device"
  from example_update obtain p' h' cm' dev' where r: "?r = Some (p', h', cm', dev')"
    by (cases ?r) auto
  have s: "list_ex is_sampler_write ?ws" by simp
  have b: "GetLiveUniformBlocks (mShaderResourceInterface descriptor_example_program) = 2"
    by (simp add: GetLiveUniformBlocks_def descriptor_example_program_def ShaderProgram_new_def)
  from UpdateDescriptorSet_batches[OF r] s b obtain new where
    "vk_log dev' = vk_log example_device @ new" "new = descriptor_updates new" "length new = 1"
    by auto
  then have "length (descriptor_updates (vk_log dev')) = 1"
    by (simp add: example_device_def)
  with r s b show ?thesis by simp
qed

text \<open>
  Claim C3 as stated asks for exactly one native call when descriptor data changed; after
  a write of uniform data that the transfer puts into the existing buffer, the call makes
  none.
\<close>

theorem UpdateDescriptorSet_batches_counterexample:
  "mUpdateDescriptorData (uniform_writes [WriteData 1 [1, 2, 3, 4]] descriptor_example_program) \<and>
   GetLiveUniformBlocks (mShaderResourceInterface descriptor_example_program) = 2 \<and>
   map_option (\<lambda>(p', h', cm', dev'). (descriptor_updates (vk_log dev'), mUpdateDescriptorData p'))
     (UpdateDescriptorSet example_config (example_api 1) flush_in_place texture_context
        (uniform_writes [WriteData 1 [1, 2, 3, 4]] descriptor_example_program)
        example_heap example_cache example_device) = Some ([], False)"
  by (simp add: UpdateDescriptorSet_def uniform_writes_def
      SetUniformData_def SetUniformClientData_def descriptor_updates_def
      descriptor_example_program_def ShaderProgram_new_def example_config_def assert_passes_def
      GetLiveUniformBlocks_def flush_in_place_def sampler_attached_to_fbo_def is_sampler_def
      IsTextureAttachedToFBO_def GetActiveTexture_def texture_context_def example_context_def
      example_device_def upt_rec Let_def)

lemma sampler_descriptor_step:
  assumes run: "sampler_descriptor api ctx u h cm = Some (d, h1, cm1)"
    and act: "GetActiveTexture ctx u = Some a" and lt: "a < th_next h0" and n0: "th_next h0 \<le> th_next h"
    and bd: "heap_bounded h cm"
    and inv: "\<forall>u a t. copy_source api ctx h0 u a t \<longrightarrow> th_objects h a = Some t"
  shows "heap_step api ctx h0 h cm h1 cm1"
    and "copy_source api ctx h0 u a t \<Longrightarrow> reads_copy api (th_next h0) t d h1 cm1"
proof -
  from run act obtain t0 where t0: "th_objects h a = Some t0"
    by (auto simp: sampler_descriptor_def split: option.splits)
  have fresh: "th_objects h (th_next h) = None" using bd by (auto simp: heap_bounded_def dom_def)
  have ne: "a \<noteq> th_next h" using lt n0 by simp
  have nc: "th_next h \<notin> set (cm_Textures cm)" using bd by (auto simp: heap_bounded_def)
  have src: "th_objects h b = Some tb \<and> b \<noteq> th_next h" if "copy_source api ctx h0 v b tb" for v b tb
    using that inv fresh by (metis option.distinct(1))
  show "heap_step api ctx h0 h cm h1 cm1"
  proof (cases "\<not> IsCompleted api t0 \<or> \<not> IsNPOTAccessCompleted api t0")
    case True
    then have r: "d = \<lparr>di_sampler = tx_vkSampler (CreateVkSampler api (placeholder api t0)),
                       di_imageLayout = tx_vkImageLayout (CreateVkSampler api (placeholder api t0)),
                       di_imageView = tx_vkImageView (CreateVkSampler api (placeholder api t0)), di_texture = a\<rparr>"
      "h1 = h\<lparr>th_objects := (th_objects h)(a \<mapsto> CreateVkSampler api (placeholder api t0))\<rparr>" "cm1 = cm"
      using run act t0 by (auto simp: sampler_descriptor_def Let_def)
    have keep: "th_objects h1 b = Some tb" if "copy_source api ctx h0 v b tb" for v b tb
    proof -
      have "th_objects h b = Some tb" using src[OF that] by simp
      moreover have "b \<noteq> a"
      proof
        assume "b = a"
        then have "t0 = tb" using calculation t0 by simp
        then show False using that True by (simp add: copy_source_def)
      qed
      ultimately show ?thesis by (simp add: r)
    qed
    show ?thesis
      unfolding heap_step_def using bd lt n0 t0 keep
      by (auto simp: r heap_bounded_def)
  next
    case False
    show ?thesis
    proof (cases "IsTextureAttachedToFBO ctx (Some a)")
      case att: True
      define c where "c = (if IsCompleted api (inverted_copy api t0)
          then PrepareVkImageLayout api VK_IMAGE_LAYOUT_SHADER_READ_ONLY_OPTIMAL (Allocate api (inverted_copy api t0))
          else inverted_copy api t0)"
      have r: "h1 = \<lparr>th_objects = (th_objects h)(th_next h \<mapsto> CreateVkSampler api c), th_next = Suc (th_next h)\<rparr>"
        "cm1 = (if IsCompleted api (inverted_copy api t0) then CacheTexture (th_next h) cm else cm)"
        using run act t0 False att by (auto simp: sampler_descriptor_def Let_def c_def)
      have keep: "th_objects h1 b = Some tb" if "copy_source api ctx h0 v b tb" for v b tb
        using src[OF that] by (simp add: r)
      show ?thesis
        unfolding heap_step_def using bd keep
        by (auto simp: r heap_bounded_def CacheTexture_def less_Suc_eq)
    next
      case natt: False
      have r: "h1 = h\<lparr>th_objects := (th_objects h)(a \<mapsto> CreateVkSampler api t0)\<rparr>" "cm1 = cm"
        using run act t0 False natt by (auto simp: sampler_descriptor_def Let_def)
      have keep: "th_objects h1 b = Some tb" if "copy_source api ctx h0 v b tb" for v b tb
      proof -
        have "th_objects h b = Some tb" using src[OF that] by simp
        moreover have "b \<noteq> a" using that natt by (auto simp: copy_source_def)
        ultimately show ?thesis by (simp add: r)
      qed
      show ?thesis
        unfolding heap_step_def using bd lt n0 t0 keep
        by (auto simp: r heap_bounded_def)
    qed
  qed
  show "reads_copy api (th_next h0) t d h1 cm1" if cs: "copy_source api ctx h0 u a t"
  proof -
    have ta: "th_objects h a = Some t" using inv cs by blast
    have c: "IsCompleted api t" "IsNPOTAccessCompleted api t" "IsTextureAttachedToFBO ctx (Some a)"
      using cs act by (auto simp: copy_source_def)
    show ?thesis
      using run act ta c fresh ne nc n0
      by (auto simp: sampler_descriptor_def Let_def reads_copy_def attachment_copy_def CacheTexture_def)
  qed
qed

lemma heap_step_refl:
  "heap_bounded h cm \<Longrightarrow> \<forall>u a t. copy_source api ctx h0 u a t \<longrightarrow> th_objects h a = Some t \<Longrightarrow>
   heap_step api ctx h0 h cm h cm"
  by (simp add: heap_step_def)

lemma heap_step_trans:
  "heap_step api ctx h0 h cm h1 cm1 \<Longrightarrow> heap_step api ctx h0 h1 cm1 h2 cm2 \<Longrightarrow>
   heap_step api ctx h0 h cm h2 cm2"
  unfolding heap_step_def by (auto; force)

lemma reads_copy_step:
  "reads_copy api (th_next h0) t d h1 cm1 \<Longrightarrow> heap_step api ctx h0 h1 cm1 h2 cm2 \<Longrightarrow>
   reads_copy api (th_next h0) t d h2 cm2"
  unfolding reads_copy_def heap_step_def by auto

lemma sampler_elements_result:
  assumes act: "GetActiveTexture ctx u = Some a" and lt: "a < th_next h0"
  shows "sampler_elements api ctx n u js (descs, bm, h, cm) = Some (descs', bm', h', cm') \<Longrightarrow>
         th_next h0 \<le> th_next h \<Longrightarrow> heap_bounded h cm \<Longrightarrow>
         \<forall>u a t. copy_source api ctx h0 u a t \<longrightarrow> th_objects h a = Some t \<Longrightarrow>
         heap_step api ctx h0 h cm h' cm' \<and>
         (\<exists>ds. descs' = descs @ ds \<and> length ds = length js \<and>
               (\<forall>d\<in>set ds. \<forall>t. copy_source api ctx h0 u a t \<longrightarrow> reads_copy api (th_next h0) t d h' cm'))"
proof (induction js arbitrary: descs bm h cm)
  case Nil
  then show ?case by (simp add: heap_step_refl)
next
  case (Cons j js)
  from Cons.prems(1) obtain d h1 cm1 where
    sd: "sampler_descriptor api ctx u h cm = Some (d, h1, cm1)"
    and rest: "sampler_elements api ctx n u js
                 (descs @ [d], (if j = 0 then stdmap_set (u_blockIndex u) (length descs) bm else bm), h1, cm1) =
               Some (descs', bm', h', cm')"
    by (auto split: option.splits if_splits)
  note st = sampler_descriptor_step[OF sd act lt Cons.prems(2,3,4)]
  have s1: "heap_step api ctx h0 h cm h1 cm1" by (rule st(1))
  have n1: "th_next h0 \<le> th_next h1" using s1 Cons.prems(2) by (simp add: heap_step_def)
  have b1: "heap_bounded h1 cm1" using s1 by (simp add: heap_step_def)
  have i1: "\<forall>u a t. copy_source api ctx h0 u a t \<longrightarrow> th_objects h1 a = Some t"
    using s1 by (simp add: heap_step_def)
  from Cons.IH[OF rest n1 b1 i1] obtain ds where
    s2: "heap_step api ctx h0 h1 cm1 h' cm'" and ds: "descs' = (descs @ [d]) @ ds" "length ds = length js"
    and rc: "\<forall>x\<in>set ds. \<forall>t. copy_source api ctx h0 u a t \<longrightarrow> reads_copy api (th_next h0) t x h' cm'"
    by blast
  have "\<forall>t. copy_source api ctx h0 u a t \<longrightarrow> reads_copy api (th_next h0) t d h' cm'"
    using st(2) reads_copy_step[OF _ s2] by blast
  then have "\<forall>x\<in>set (d # ds). \<forall>t. copy_source api ctx h0 u a t \<longrightarrow> reads_copy api (th_next h0) t x h' cm'"
    using rc by simp
  moreover have "descs' = descs @ (d # ds)" "length (d # ds) = length (j # js)" using ds by simp_all
  moreover have "heap_step api ctx h0 h cm h' cm'" by (rule heap_step_trans[OF s1 s2])
  ultimately show ?case by blast
qed

lemma sampler_uniforms_result:
  "sampler_uniforms api ctx n us (descs, bm, h, cm) = Some (descs', bm', h', cm') \<Longrightarrow>
   \<forall>u\<in>set us. is_sampler u \<longrightarrow> (\<exists>a<th_next h0. GetActiveTexture ctx u = Some a) \<Longrightarrow>
   th_next h0 \<le> th_next h \<Longrightarrow> heap_bounded h cm \<Longrightarrow>
   \<forall>u a t. copy_source api ctx h0 u a t \<longrightarrow> th_objects h a = Some t \<Longrightarrow>
   heap_step api ctx h0 h cm h' cm' \<and>
   (\<exists>ds. descs' = descs @ ds \<and> length ds = length (sampler_slots us) \<and>
         (\<forall>k<length ds. \<forall>a t. copy_source api ctx h0 (sampler_slots us ! k) a t \<longrightarrow>
                           reads_copy api (th_next h0) t (ds ! k) h' cm'))"
proof (induction us arbitrary: descs bm h cm)
  case Nil
  then show ?case by (simp add: heap_step_refl sampler_slots_def)
next
  case (Cons u us)
  have bound': "\<forall>u\<in>set us. is_sampler u \<longrightarrow> (\<exists>a<th_next h0. GetActiveTexture ctx u = Some a)"
    using Cons.prems(2) by simp
  show ?case
  proof (cases "is_sampler u")
    case False
    then have run: "sampler_uniforms api ctx n us (descs, bm, h, cm) = Some (descs', bm', h', cm')"
      using Cons.prems(1) by simp
    have "sampler_slots (u # us) = sampler_slots us" using False by (simp add: sampler_slots_def)
    then show ?thesis using Cons.IH[OF run bound' Cons.prems(3,4,5)] by simp
  next
    case True
    then obtain a where act: "GetActiveTexture ctx u = Some a" and lt: "a < th_next h0"
      using Cons.prems(2) by auto
    from Cons.prems(1) True obtain s1 where
      el: "sampler_elements api ctx n u [0..<nat (u_arraySize u)] (descs, bm, h, cm) = Some s1"
      and rest: "sampler_uniforms api ctx n us s1 = Some (descs', bm', h', cm')"
      by (auto split: option.splits)
    obtain descs1 bm1 h1 cm1 where s1: "s1 = (descs1, bm1, h1, cm1)" by (cases s1) auto
    from sampler_elements_result[OF act lt el[unfolded s1] Cons.prems(3,4,5)] obtain ds1 where
      st1: "heap_step api ctx h0 h cm h1 cm1" and d1: "descs1 = descs @ ds1"
      and l1: "length ds1 = nat (u_arraySize u)"
      and rc1: "\<forall>d\<in>set ds1. \<forall>t. copy_source api ctx h0 u a t \<longrightarrow> reads_copy api (th_next h0) t d h1 cm1"
      by auto
    have n1: "th_next h0 \<le> th_next h1" using st1 Cons.prems(3) by (simp add: heap_step_def)
    have b1: "heap_bounded h1 cm1" using st1 by (simp add: heap_step_def)
    have i1: "\<forall>u a t. copy_source api ctx h0 u a t \<longrightarrow> th_objects h1 a = Some t"
      using st1 by (simp add: heap_step_def)
    from Cons.IH[OF rest[unfolded s1] bound' n1 b1 i1] obtain ds2 where
      st2: "heap_step api ctx h0 h1 cm1 h' cm'" and d2: "descs' = descs1 @ ds2"
      and l2: "length ds2 = length (sampler_slots us)"
      and rc2: "\<forall>k<length ds2. \<forall>a t. copy_source api ctx h0 (sampler_slots us ! k) a t \<longrightarrow>
                           reads_copy api (th_next h0) t (ds2 ! k) h' cm'"
      by blast
    have sl: "sampler_slots (u # us) = replicate (nat (u_arraySize u)) u @ sampler_slots us"
      using True by (simp add: sampler_slots_def)
    have "\<forall>k<length (ds1 @ ds2). \<forall>b t. copy_source api ctx h0 (sampler_slots (u # us) ! k) b t \<longrightarrow>
                           reads_copy api (th_next h0) t ((ds1 @ ds2) ! k) h' cm'"
    proof (intro allI impI)
      fix k b t assume k: "k < length (ds1 @ ds2)" and cs: "copy_source api ctx h0 (sampler_slots (u # us) ! k) b t"
      show "reads_copy api (th_next h0) t ((ds1 @ ds2) ! k) h' cm'"
      proof (cases "k < length ds1")
        case True
        then have su: "sampler_slots (u # us) ! k = u" using l1 by (simp add: sl nth_append)
        then have "b = a" using cs act by (simp add: copy_source_def)
        then have "reads_copy api (th_next h0) t (ds1 ! k) h1 cm1"
          using rc1 cs su True by auto
        then show ?thesis using True reads_copy_step[OF _ st2] by (simp add: nth_append)
      next
        case False
        then have "sampler_slots (u # us) ! k = sampler_slots us ! (k - length ds1)"
          using l1 by (simp add: sl nth_append)
        moreover have "k - length ds1 < length ds2" using k False by simp
        ultimately show ?thesis using rc2 cs False by (simp add: nth_append)
      qed
    qed
    moreover have "descs' = descs @ (ds1 @ ds2)" using d1 d2 by simp
    moreover have "length (ds1 @ ds2) = length (sampler_slots (u # us))" using l1 l2 by (simp add: sl)
    moreover have "heap_step api ctx h0 h cm h' cm'" by (rule heap_step_trans[OF st1 st2])
    ultimately show ?thesis by blast
  qed
qed

lemma inverted_copy_pixels:
  "map_option ts_pixels (tx_state (inverted_copy api t) (0, 0)) =
     Some (CopyPixelsToHost api t
             \<lparr>rect_x = 0, rect_y = GetInvertedYOrigin api t
                  \<lparr>rect_x = 0, rect_y = 0, rect_width = GetWidth api t, rect_height = GetHeight api t,
                   rect_numElements = GlInternalFormatTypeToNumElements api (tx_explicitInternalFormat t) (tx_explicitType t),
                   rect_elementSize = GlTypeToElementSize api (tx_explicitType t),
                   rect_alignment = GetDefaultInternalAlignment api\<rparr>,
              rect_width = GetWidth api t, rect_height = GetHeight api t,
              rect_numElements = GlInternalFormatTypeToNumElements api (tx_explicitInternalFormat t) (tx_explicitType t),
              rect_elementSize = GlTypeToElementSize api (tx_explicitType t),
              rect_alignment = GetDefaultInternalAlignment api\<rparr>
             \<lparr>rect_x = 0, rect_y = 0, rect_width = GetWidth api t, rect_height = GetHeight api t,
              rect_numElements = GlInternalFormatTypeToNumElements api (tx_explicitInternalFormat t) (tx_explicitType t),
              rect_elementSize = GlTypeToElementSize api (tx_explicitType t),
              rect_alignment = GetDefaultInternalAlignment api\<rparr>
             0 0 (tx_explicitInternalFormat t))"
  by (simp add: inverted_copy_def SetState_def Let_def)

lemma UpdateSamplerDescriptors_result:
  assumes run: "UpdateSamplerDescriptors cfg api ctx p h cm dev = Some (p', h', cm', dev')"
    and samplers: "count_samplers (mShaderResourceInterface p)
                     [0..<GetLiveUniformBlocks (mShaderResourceInterface p)] \<noteq> Some 0"
  shows "\<exists>n descs blockmap writes.
           sampler_uniforms api ctx n (sri_uniforms (mShaderResourceInterface p)) ([], [], h, cm) =
             Some (descs, blockmap, h', cm') \<and>
           vk_log dev' = vk_log dev @ [vkUpdateDescriptorSets writes (descs @ replicate (n - length descs) zero_descriptor)]"
proof -
  let ?sri = "mShaderResourceInterface p"
  from run obtain nSamplers where ns: "count_samplers ?sri [0..<GetLiveUniformBlocks ?sri] = Some nSamplers"
    by (auto simp: UpdateSamplerDescriptors_def Let_def split: option.splits)
  with samplers have nz: "nSamplers \<noteq> 0" by simp
  from run ns nz obtain descs blockmap h1 cm1 where
    su: "sampler_uniforms api ctx (nat nSamplers) (sri_uniforms ?sri) ([], [], h, cm) = Some (descs, blockmap, h1, cm1)"
    by (auto simp: UpdateSamplerDescriptors_def Let_def split: option.splits)
  from run ns nz su obtain writes where
    "h' = h1" "cm' = cm1"
    "dev' = dev\<lparr>vk_log := vk_log dev @
                [vkUpdateDescriptorSets writes (descs @ replicate (nat nSamplers - length descs) zero_descriptor)]\<rparr>"
    by (auto simp: UpdateSamplerDescriptors_def Let_def split: option.splits if_splits)
  with su show ?thesis by auto
qed

text \<open>
  Claim C5, as the code has it.  \<open>UpdateSamplerDescriptors\<close> on a program with samplers,
  for the \<open>k\<close>-th sampler element whose bound texture is complete, also for
  non-power-of-two access, and is the colour attachment of a framebuffer: the \<open>k\<close>-th
  descriptor of the one \<open>vkUpdateDescriptorSets\<close> call is read from a texture at an
  address that was free when the update began, never from the bound texture, which stays
  as it was; that texture is the copy, whose pixels come from the rectangle with the
  inverted Y origin; and it is allocated, put into the shader-read layout and handed to
  the cache exactly when the copy reports complete.
\<close>

theorem UpdateSamplerDescriptors_copies_attachment:
  assumes run: "UpdateSamplerDescriptors cfg api ctx p h cm dev = Some (p', h', cm', dev')"
    and samplers: "count_samplers (mShaderResourceInterface p)
                     [0..<GetLiveUniformBlocks (mShaderResourceInterface p)] \<noteq> Some 0"
    and heap: "\<forall>b\<in>dom (th_objects h). b < th_next h"
    and cache: "\<forall>b\<in>set (cm_Textures cm). b < th_next h"
    and bound: "\<forall>u\<in>set (sri_uniforms (mShaderResourceInterface p)).
                  is_sampler u \<longrightarrow> (\<exists>b\<in>dom (th_objects h). GetActiveTexture ctx u = Some b)"
    and k: "k < length (sampler_slots (sri_uniforms (mShaderResourceInterface p)))"
    and tex: "GetActiveTexture ctx (sampler_slots (sri_uniforms (mShaderResourceInterface p)) ! k) = Some a"
             "th_objects h a = Some t"
    and complete: "IsCompleted api t" "IsNPOTAccessCompleted api t"
    and attached: "IsTextureAttachedToFBO ctx (Some a)"
  shows "\<exists>writes descs.
           vk_log dev' = vk_log dev @ [vkUpdateDescriptorSets writes descs] \<and> k < length descs \<and>
           di_texture (descs ! k) \<noteq> a \<and> th_objects h (di_texture (descs ! k)) = None \<and>
           th_objects h' a = Some t \<and>
           th_objects h' (di_texture (descs ! k)) = Some (attachment_copy api t) \<and>
           di_sampler (descs ! k) = tx_vkSampler (attachment_copy api t) \<and>
           di_imageLayout (descs ! k) = tx_vkImageLayout (attachment_copy api t) \<and>
           di_imageView (descs ! k) = tx_vkImageView (attachment_copy api t) \<and>
           map_option ts_pixels (tx_state (inverted_copy api t) (0, 0)) =
             Some (CopyPixelsToHost api t
                     \<lparr>rect_x = 0, rect_y = GetInvertedYOrigin api t
                          \<lparr>rect_x = 0, rect_y = 0, rect_width = GetWidth api t, rect_height = GetHeight api t,
                           rect_numElements = GlInternalFormatTypeToNumElements api (tx_explicitInternalFormat t) (tx_explicitType t),
                           rect_elementSize = GlTypeToElementSize api (tx_explicitType t),
                           rect_alignment = GetDefaultInternalAlignment api\<rparr>,
                      rect_width = GetWidth api t, rect_height = GetHeight api t,
                      rect_numElements = GlInternalFormatTypeToNumElements api (tx_explicitInternalFormat t) (tx_explicitType t),
                      rect_elementSize = GlTypeToElementSize api (tx_explicitType t),
                      rect_alignment = GetDefaultInternalAlignment api\<rparr>
                     \<lparr>rect_x = 0, rect_y = 0, rect_width = GetWidth api t, rect_height = GetHeight api t,
                      rect_numElements = GlInternalFormatTypeToNumElements api (tx_explicitInternalFormat t) (tx_explicitType t),
                      rect_elementSize = GlTypeToElementSize api (tx_explicitType t),
                      rect_alignment = GetDefaultInternalAlignment api\<rparr>
                     0 0 (tx_explicitInternalFormat t)) \<and>
           (di_texture (descs ! k) \<in> set (cm_Textures cm') \<longleftrightarrow> IsCompleted api (inverted_copy api t))"
proof -
  let ?us = "sri_uniforms (mShaderResourceInterface p)"
  from UpdateSamplerDescriptors_result[OF run samplers] obtain n descs blockmap writes where
    su: "sampler_uniforms api ctx n ?us ([], [], h, cm) = Some (descs, blockmap, h', cm')"
    and log: "vk_log dev' = vk_log dev @
                [vkUpdateDescriptorSets writes (descs @ replicate (n - length descs) zero_descriptor)]"
    by blast
  have bound': "\<forall>u\<in>set ?us. is_sampler u \<longrightarrow> (\<exists>b<th_next h. GetActiveTexture ctx u = Some b)"
    using bound heap by blast
  have bd: "heap_bounded h cm" using heap cache by (simp add: heap_bounded_def)
  have inv: "\<forall>u a t. copy_source api ctx h u a t \<longrightarrow> th_objects h a = Some t"
    by (simp add: copy_source_def)
  from sampler_uniforms_result[OF su bound' le_refl bd inv] obtain ds where
    st: "heap_step api ctx h h cm h' cm'" and ds: "descs = [] @ ds" "length ds = length (sampler_slots ?us)"
    and rc: "\<forall>k<length ds. \<forall>a t. copy_source api ctx h (sampler_slots ?us ! k) a t \<longrightarrow>
                           reads_copy api (th_next h) t (ds ! k) h' cm'"
    by blast
  have cs: "copy_source api ctx h (sampler_slots ?us ! k) a t"
    using tex complete attached by (simp add: copy_source_def)
  have kd: "k < length descs" using k ds by simp
  then have r: "reads_copy api (th_next h) t (descs ! k) h' cm'" using rc cs ds by simp
  define d where "d = descs ! k"
  have nth: "(descs @ replicate (n - length descs) zero_descriptor) ! k = d"
    using kd by (simp add: nth_append d_def)
  have ge: "th_next h \<le> di_texture d" using r by (simp add: reads_copy_def d_def)
  have lt: "a < th_next h" using heap tex(2) by auto
  have fresh: "th_objects h (di_texture d) = None"
  proof (rule ccontr)
    assume "th_objects h (di_texture d) \<noteq> None"
    then have "di_texture d < th_next h" using heap by (auto simp: dom_def)
    then show False using ge by simp
  qed
  have keep: "th_objects h' a = Some t" using st cs by (auto simp: heap_step_def)
  have "k < length (descs @ replicate (n - length descs) zero_descriptor)" using kd by simp
  moreover have "di_texture d \<noteq> a" using ge lt by simp
  moreover have "th_objects h' (di_texture d) = Some (attachment_copy api t)"
    "di_sampler d = tx_vkSampler (attachment_copy api t)"
    "di_imageLayout d = tx_vkImageLayout (attachment_copy api t)"
    "di_imageView d = tx_vkImageView (attachment_copy api t)"
    "di_texture d \<in> set (cm_Textures cm') \<longleftrightarrow> IsCompleted api (inverted_copy api t)"
    using r by (simp_all add: reads_copy_def d_def)
  ultimately show ?thesis
    using log nth fresh keep inverted_copy_pixels[of api t] by (intro exI[of _ writes] exI[of _ "descs @ replicate (n - length descs) zero_descriptor"]) simp
qed

lemma fbo_example_update:
  "map_option (\<lambda>(p', h', cm', dev'). (submitted_descriptors (vk_log dev'), cm_Textures cm', th_next h'))
     (UpdateSamplerDescriptors example_config (example_api 1) fbo_context descriptor_example_program
        example_heap example_cache example_device) =
   Some ([[\<lparr>di_sampler = 200, di_imageLayout = 5, di_imageView = 100, di_texture = 2\<rparr>]], [2], 3)"
  by (simp add: UpdateSamplerDescriptors_def submitted_descriptors_def descriptor_updates_def
      descriptor_example_program_def ShaderProgram_new_def example_config_def assert_passes_def
      GetLiveUniformBlocks_def is_sampler_def CacheTexture_def
      IsTextureAttachedToFBO_def GetActiveTexture_def fbo_context_def texture_context_def example_context_def
      sampler_descriptor_def example_heap_def example_texture_def Texture_new_def example_api_def
      inverted_copy_def SetState_def
      example_cache_def example_device_def block_write_def upt_rec Let_def)

lemma fbo_example_incomplete_copy:
  "map_option (\<lambda>(p', h', cm', dev'). (submitted_descriptors (vk_log dev'), cm_Textures cm', th_next h'))
     (UpdateSamplerDescriptors example_config (example_api 2) fbo_context descriptor_example_program
        example_heap example_cache example_device) =
   Some ([[\<lparr>di_sampler = 200, di_imageLayout = 0, di_imageView = 0, di_texture = 2\<rparr>]], [], 3)"
  by (simp add: UpdateSamplerDescriptors_def submitted_descriptors_def descriptor_updates_def
      descriptor_example_program_def ShaderProgram_new_def example_config_def assert_passes_def
      GetLiveUniformBlocks_def is_sampler_def CacheTexture_def
      IsTextureAttachedToFBO_def GetActiveTexture_def fbo_context_def texture_context_def example_context_def
      sampler_descriptor_def example_heap_def example_texture_def Texture_new_def example_api_def
      inverted_copy_def SetState_def
      example_cache_def example_device_def block_write_def upt_rec Let_def)

lemma fbo_example_npot:
  "map_option (\<lambda>(p', h', cm', dev'). (submitted_descriptors (vk_log dev'), cm_Textures cm', th_next h'))
     (UpdateSamplerDescriptors example_config npot_api fbo_context descriptor_example_program
        example_heap example_cache example_device) =
   Some ([[\<lparr>di_sampler = 11, di_imageLayout = 5, di_imageView = 100, di_texture = 1\<rparr>]], [], 2)"
  by (simp add: UpdateSamplerDescriptors_def submitted_descriptors_def descriptor_updates_def
      descriptor_example_program_def ShaderProgram_new_def example_config_def assert_passes_def
      GetLiveUniformBlocks_def is_sampler_def CacheTexture_def npot_api_def placeholder_def
      IsTextureAttachedToFBO_def GetActiveTexture_def fbo_context_def texture_context_def example_context_def
      sampler_descriptor_def example_heap_def example_texture_def Texture_new_def example_api_def
      inverted_copy_def SetState_def
      example_cache_def example_device_def block_write_def upt_rec Let_def)

theorem UpdateSamplerDescriptors_copies_attachment_witness:
  "count_samplers (mShaderResourceInterface descriptor_example_program)
     [0..<GetLiveUniformBlocks (mShaderResourceInterface descriptor_example_program)] = Some 1 \<and>
   dom (th_objects example_heap) = {1} \<and> th_next example_heap = 2 \<and> cm_Textures example_cache = [] \<and>
   length (sampler_slots (sri_uniforms (mShaderResourceInterface descriptor_example_program))) = 1 \<and>
   GetActiveTexture fbo_context
     (sampler_slots (sri_uniforms (mShaderResourceInterface descriptor_example_program)) ! 0) = Some 1 \<and>
   th_objects example_heap 1 = Some example_texture \<and>
   IsCompleted (example_api 1) example_texture \<and> IsNPOTAccessCompleted (example_api 1) example_texture \<and>
   IsTextureAttachedToFBO fbo_context (Some 1) \<and>
   IsCompleted (example_api 1) (inverted_copy (example_api 1) example_texture) \<and>
   map_option (\<lambda>(p', h', cm', dev').
       (submitted_descriptors (vk_log dev'), cm_Textures cm', th_next h',
        th_objects h' 1 = Some example_texture,
        th_objects h' 2 = Some (attachment_copy (example_api 1) example_texture)))
     (UpdateSamplerDescriptors example_config (example_api 1) fbo_context descriptor_example_program
        example_heap example_cache example_device) =
   Some ([[\<lparr>di_sampler = 200, di_imageLayout = 5, di_imageView = 100, di_texture = 2\<rparr>]], [2], 3, True, True)"
proof -
  let ?p = "descriptor_example_program"
  let ?us = "sri_uniforms (mShaderResourceInterface ?p)"
  let ?r = "UpdateSamplerDescriptors example_config (example_api 1) fbo_context ?p
              example_heap example_cache example_device"
  have us: "?us = [\<lparr>u_name = ''u_texture'', u_type = GL_SAMPLER_2D, u_arraySize = 1, u_blockIndex = 0,
                      u_sampler = 0, u_data = []\<rparr>,
                     \<lparr>u_name = ''u_color'', u_type = 35666, u_arraySize = 1, u_blockIndex = 1,
                      u_sampler = 0, u_data = [0, 0, 0, 0]\<rparr>]"
    by (simp add: descriptor_example_program_def ShaderProgram_new_def)
  have sl: "sampler_slots ?us = [\<lparr>u_name = ''u_texture'', u_type = GL_SAMPLER_2D, u_arraySize = 1,
                                   u_blockIndex = 0, u_sampler = 0, u_data = []\<rparr>]"
    unfolding us by (simp add: sampler_slots_def is_sampler_def)
  have ns: "count_samplers (mShaderResourceInterface ?p) [0..<GetLiveUniformBlocks (mShaderResourceInterface ?p)] = Some 1"
    by (simp add: descriptor_example_program_def ShaderProgram_new_def GetLiveUniformBlocks_def upt_rec)
  then have nz: "count_samplers (mShaderResourceInterface ?p) [0..<GetLiveUniformBlocks (mShaderResourceInterface ?p)] \<noteq> Some 0"
    by simp
  have dm: "dom (th_objects example_heap) = {1}" and nx: "th_next example_heap = 2"
    and ce: "cm_Textures example_cache = []"
    by (simp_all add: example_heap_def example_cache_def)
  have heap: "\<forall>b\<in>dom (th_objects example_heap). b < th_next example_heap" unfolding dm nx by simp
  have cache: "\<forall>b\<in>set (cm_Textures example_cache). b < th_next example_heap" unfolding ce by simp
  have act: "GetActiveTexture fbo_context (sampler_slots ?us ! 0) = Some 1"
    unfolding sl by (simp add: GetActiveTexture_def fbo_context_def texture_context_def example_context_def)
  have bound: "\<forall>u\<in>set ?us. is_sampler u \<longrightarrow> (\<exists>b\<in>dom (th_objects example_heap). GetActiveTexture fbo_context u = Some b)"
    unfolding us dm
    by (simp add: is_sampler_def GetActiveTexture_def fbo_context_def texture_context_def example_context_def)
  have k: "0 < length (sampler_slots ?us)" unfolding sl by simp
  have t: "th_objects example_heap 1 = Some example_texture" by (simp add: example_heap_def)
  have c: "IsCompleted (example_api 1) example_texture" "IsNPOTAccessCompleted (example_api 1) example_texture"
    by (simp_all add: example_api_def example_texture_def Texture_new_def)
  have att: "IsTextureAttachedToFBO fbo_context (Some 1)"
    by (simp add: IsTextureAttachedToFBO_def fbo_context_def texture_context_def example_context_def)
  have cc: "IsCompleted (example_api 1) (inverted_copy (example_api 1) example_texture)"
    by (simp add: example_api_def inverted_copy_def SetState_def Texture_new_def Let_def)
  from fbo_example_update obtain p' h' cm' dev' where r: "?r = Some (p', h', cm', dev')"
    and sd: "submitted_descriptors (vk_log dev') =
               [[\<lparr>di_sampler = 200, di_imageLayout = 5, di_imageView = 100, di_texture = 2\<rparr>]]"
    and cm': "cm_Textures cm' = [2]" and nx': "th_next h' = 3"
    by (cases ?r) auto
  from UpdateSamplerDescriptors_copies_attachment[OF r nz heap cache bound k act t c att]
  obtain writes descs where
    log: "vk_log dev' = vk_log example_device @ [vkUpdateDescriptorSets writes descs]"
    and keep: "th_objects h' 1 = Some example_texture"
    and copy: "th_objects h' (di_texture (descs ! 0)) = Some (attachment_copy (example_api 1) example_texture)"
    by blast
  have "descs = [\<lparr>di_sampler = 200, di_imageLayout = 5, di_imageView = 100, di_texture = 2\<rparr>]"
    using sd log by (simp add: submitted_descriptors_def descriptor_updates_def example_device_def)
  then have copy2: "th_objects h' 2 = Some (attachment_copy (example_api 1) example_texture)"
    using copy by simp
  have "length (sampler_slots ?us) = 1" unfolding sl by simp
  then show ?thesis
    using ns dm nx ce act t c att cc r sd cm' nx' keep copy2 by simp
qed

text \<open>
  Claim C5 as stated hands every copy to the cache and speaks of every complete texture.
  With a texture interface under which the copy (one level of two) is not complete, the
  descriptor is read from the copy and the cache receives nothing; and for a complete
  attached texture that fails the rule for non-power-of-two access the descriptor is read
  from the bound texture itself, and no texture is created.
\<close>

theorem UpdateSamplerDescriptors_copies_attachment_counterexample:
  "IsCompleted (example_api 2) example_texture \<and> IsNPOTAccessCompleted (example_api 2) example_texture \<and>
   IsTextureAttachedToFBO fbo_context (Some 1) \<and>
   GetActiveTexture fbo_context (sri_uniforms (mShaderResourceInterface descriptor_example_program) ! 0) = Some 1 \<and>
   map_option (\<lambda>(p', h', cm', dev'). (submitted_descriptors (vk_log dev'), cm_Textures cm', th_next h'))
     (UpdateSamplerDescriptors example_config (example_api 2) fbo_context descriptor_example_program
        example_heap example_cache example_device) =
   Some ([[\<lparr>di_sampler = 200, di_imageLayout = 0, di_imageView = 0, di_texture = 2\<rparr>]], [], 3) \<and>
   IsCompleted npot_api example_texture \<and> \<not> IsNPOTAccessCompleted npot_api example_texture \<and>
   map_option (\<lambda>(p', h', cm', dev'). (submitted_descriptors (vk_log dev'), cm_Textures cm', th_next h'))
     (UpdateSamplerDescriptors example_config npot_api fbo_context descriptor_example_program
        example_heap example_cache example_device) =
   Some ([[\<lparr>di_sampler = 11, di_imageLayout = 5, di_imageView = 100, di_texture = 1\<rparr>]], [], 2)"
proof -
  have "IsCompleted (example_api 2) example_texture" "IsNPOTAccessCompleted (example_api 2) example_texture"
    "IsCompleted npot_api example_texture" "\<not> IsNPOTAccessCompleted npot_api example_texture"
    by (simp_all add: example_api_def npot_api_def example_texture_def Texture_new_def)
  moreover have "IsTextureAttachedToFBO fbo_context (Some 1)"
    by (simp add: IsTextureAttachedToFBO_def fbo_context_def texture_context_def example_context_def)
  moreover have "GetActiveTexture fbo_context (sri_uniforms (mShaderResourceInterface descriptor_example_program) ! 0) = Some 1"
    by (simp add: GetActiveTexture_def fbo_context_def texture_context_def example_context_def
        descriptor_example_program_def ShaderProgram_new_def)
  ultimately show ?thesis using fbo_example_incomplete_copy fbo_example_npot by simp
qed

subsection \<open>Index buffers\<close>

text \<open>
  Claim C6 at a failing input.  For the client indices 0 and 5 of element type unsigned
  int, the largest index referred to is 5, and \<open>PrepareIndexBufferObject\<close> returns 0 as
  \<open>maxIndex\<close>: \<open>GetMaxIndex\<close> reads the first two 16-bit halves of the data, which are
  both halves of the index 0.
\<close>

theorem PrepareIndexBufferObject_uint_max_index:
  "true_max_index GL_UNSIGNED_INT uint_indices 2 = 5 \<and>
   map_option (\<lambda>(r, p, cm, dev). (r, map_option bo_data (mExplicitIbo p)))
     (PrepareIndexBufferObject example_config example_context 2 GL_UNSIGNED_INT (ClientIndices uint_indices)
        ShaderProgram_new example_cache example_device) =
   Some (Some (0, 0), Some [0, 0, 0, 0, 5, 0, 0, 0])"
  by (simp add: true_max_index_def index_at_def uint_indices_def le32_def u32_at_def u16_at_def
      PrepareIndexBufferObject_def AllocateExplicitIndexBuffer_def BufferObject_Allocate_def
      GetMaxIndex_def GetData_def example_context_def ShaderProgram_new_def example_cache_def
      example_device_def vk_new_handle_def Let_def upt_rec)

text \<open>Index data of element type unsigned byte is widened to unsigned short in a new
  explicit index buffer; here the largest index is found.\<close>

lemma PrepareIndexBufferObject_ubyte_example:
  "map_option (\<lambda>(r, p, cm, dev). (r, map_option bo_data (mExplicitIbo p)))
     (PrepareIndexBufferObject example_config example_context 3 GL_UNSIGNED_BYTE (ClientIndices [7, 200, 3])
        ShaderProgram_new example_cache example_device) =
   Some (Some (0, 200), Some [7, 0, 200, 0, 3, 0])"
  by (simp add: ConvertIndexBufferToUint16_def ConvertBuffer_u8_u16_def le16_def u16_at_def
      PrepareIndexBufferObject_def AllocateExplicitIndexBuffer_def BufferObject_Allocate_def
      GetMaxIndex_def GetData_def example_context_def ShaderProgram_new_def example_cache_def
      example_device_def example_config_def vk_new_handle_def Let_def upt_rec)

subsection \<open>The program binary\<close>


lemma length_le32 [simp]: "length (le32 w) = 4"
  by (simp add: le32_def)

lemma length_spv_bytes [simp]: "length (spv_bytes ws) = 4 * length ws"
  by (induction ws) (simp_all add: spv_bytes_def)











lemma read_spirv_block_bound:
  "read_spirv_block mem off = Some (ws, n) \<Longrightarrow> off + 4 \<le> length mem \<and> off + 1 + n \<le> length mem"
  by (auto simp: read_spirv_block_def Let_def split: if_splits)

text \<open>
  \<open>UsePrecompiledBinary\<close> creates the pipeline cache from \<open>binarySize - reflectionOffset\<close>
  bytes that start after the reflection and the SPIR-V blocks, so it returns only when
  at least eight more bytes than \<open>binarySize\<close> can be read from \<open>binary\<close>.
\<close>

lemma UsePrecompiledBinary_reads_past_the_binary:
  assumes "UsePrecompiledBinary deserialize mem binarySize p st sc dev = Some r"
    and "length mem < 2 ^ 31"
  shows "binarySize + 8 \<le> length mem"
proof -
  from assms(1) obtain reflection reflectionOffset spirvOffset st1 where
    d: "DeserializeShadersSpirv mem reflectionOffset (ResetVulkanVertexInput (p\<lparr>mLinked := True\<rparr>)) st = Some (spirvOffset, st1)"
    and b: "reflectionOffset \<le> binarySize" "reflectionOffset + spirvOffset + (binarySize - reflectionOffset) \<le> length mem"
    by (auto simp: UsePrecompiledBinary_def Let_def PipelineCache_Create_def split_beta
          split: option.splits if_splits)
  from d obtain vw vsSize fw fsSize where
    r1: "read_spirv_block mem reflectionOffset = Some (vw, vsSize)"
    and r2: "read_spirv_block mem (reflectionOffset + 4 + vsSize) = Some (fw, fsSize)"
    and so: "spirvOffset = (8 + vsSize + fsSize) mod 2 ^ 32"
    by (auto simp: DeserializeShadersSpirv_def Let_def split: option.splits if_splits prod.splits)
  from read_spirv_block_bound[OF r2] have "reflectionOffset + 4 + vsSize + 1 + fsSize \<le> length mem"
    by simp
  with assms(2) have "8 + vsSize + fsSize < 2 ^ 32" by simp
  with so have "8 \<le> spirvOffset" by simp
  with b show ?thesis by simp
qed













end
